theory Spec2Isabelle
  imports Main "HOL-Library.Sublist"
begin

section \<open>Strings as the scripts use them\<close>

text \<open>
  Python strings are modelled as \<^typ>\<open>string\<close>; only ASCII is interpreted (white space,
  letters and digits outside ASCII are ordinary characters here).
\<close>

definition is_space :: "char \<Rightarrow> bool" where
  "is_space c = (c \<in> set [CHR '' '', CHR 0x09, CHR 0x0A, CHR 0x0B, CHR 0x0C, CHR 0x0D,
                           CHR 0x1C, CHR 0x1D, CHR 0x1E, CHR 0x1F])"

text \<open>\<^verbatim>\<open>str.strip()\<close>\<close>

definition strip :: "string \<Rightarrow> string" where
  "strip s = rev (dropWhile is_space (rev (dropWhile is_space s)))"

text \<open>\<^verbatim>\<open>str.lower()\<close>\<close>

definition lower_char :: "char \<Rightarrow> char" where
  "lower_char c =
     (case map_of (zip ''ABCDEFGHIJKLMNOPQRSTUVWXYZ'' ''abcdefghijklmnopqrstuvwxyz'') c of
        Some d \<Rightarrow> d
      | None \<Rightarrow> c)"

definition lower :: "string \<Rightarrow> string" where
  "lower s = map lower_char s"

text \<open>\<^verbatim>\<open>str.split()\<close> with no argument: maximal runs of non-space characters.\<close>

fun split_ws_aux :: "string \<Rightarrow> string \<Rightarrow> string list" where
  "split_ws_aux cur [] = (if cur = [] then [] else [rev cur])"
| "split_ws_aux cur (c # cs) =
     (if is_space c
      then (if cur = [] then split_ws_aux [] cs else rev cur # split_ws_aux [] cs)
      else split_ws_aux (c # cur) cs)"

definition split_ws :: "string \<Rightarrow> string list" where
  "split_ws s = split_ws_aux [] s"

text \<open>
  \<^verbatim>\<open>str.splitlines()\<close>: a line ends at a line boundary (CR LF counts once) and the
  boundary is dropped; no empty last line is produced.
\<close>

definition is_linebreak :: "char \<Rightarrow> bool" where
  "is_linebreak c = (c \<in> set [CHR 0x0A, CHR 0x0D, CHR 0x0B, CHR 0x0C, CHR 0x1C, CHR 0x1D, CHR 0x1E])"

fun splitlines_aux :: "string \<Rightarrow> string \<Rightarrow> string list" where
  "splitlines_aux cur [] = (if cur = [] then [] else [rev cur])"
| "splitlines_aux cur [c] = (if is_linebreak c then [rev cur] else [rev (c # cur)])"
| "splitlines_aux cur (c # d # cs) =
     (if c = CHR 0x0D \<and> d = CHR 0x0A then rev cur # splitlines_aux [] cs
      else if is_linebreak c then rev cur # splitlines_aux [] (d # cs)
      else splitlines_aux (c # cur) (d # cs))"

definition splitlines :: "string \<Rightarrow> string list" where
  "splitlines s = splitlines_aux [] s"

text \<open>
  \<^verbatim>\<open>int(choice)\<close> on a decimal literal: optional sign, digits, single underscores between
  digits. \<^term>\<open>None\<close> is \<^verbatim>\<open>ValueError\<close>.
\<close>

definition is_digit :: "char \<Rightarrow> bool" where
  "is_digit c = (c \<in> set ''0123456789'')"

definition digit_val :: "char \<Rightarrow> nat" where
  "digit_val c =
     (case map_of (zip ''0123456789'' [0, 1, 2, 3, 4, 5, 6, 7, 8, 9]) c of
        Some d \<Rightarrow> d
      | None \<Rightarrow> 0)"

fun parse_digits :: "nat \<Rightarrow> bool \<Rightarrow> string \<Rightarrow> nat option" where
  "parse_digits acc prev_digit [] = (if prev_digit then Some acc else None)"
| "parse_digits acc prev_digit (c # cs) =
     (if is_digit c then parse_digits (10 * acc + digit_val c) True cs
      else if c = CHR ''_'' \<and> prev_digit then parse_digits acc False cs
      else None)"

definition py_int :: "string \<Rightarrow> int option" where
  "py_int s =
     (case strip s of
        [] \<Rightarrow> None
      | c # cs \<Rightarrow>
          if c = CHR ''-'' then map_option (\<lambda>n. - int n) (parse_digits 0 False cs)
          else if c = CHR ''+'' then map_option int (parse_digits 0 False cs)
          else map_option int (parse_digits 0 False (c # cs)))"

section \<open>The world outside the scripts\<close>

text \<open>
  Paths are strings and \<^verbatim>\<open>p / c\<close> appends a component after a slash; how pathlib renders
  separators on Windows is not modelled. Every existence test goes through the same
  rendering.
\<close>

type_synonym path = string
type_synonym env = "string \<rightharpoonup> string"
type_synonym filesystem = "path \<Rightarrow> bool"

definition pjoin :: "path \<Rightarrow> string \<Rightarrow> path" where
  "pjoin p c = p @ ''/'' @ c"

text \<open>
  One call of \<^verbatim>\<open>subprocess.run\<close>: the command (\<^verbatim>\<open>shell=True\<close> passes one command line),
  the working directory and the \<^verbatim>\<open>env=\<close> argument (\<^term>\<open>None\<close>: the child inherits the
  ambient environment).
\<close>

record invocation =
  argv :: "string list"
  shell :: bool
  cwd :: "path option"
  child_env :: "env option"

text \<open>
  What the child did: whether the executable could be started at all
  (\<^verbatim>\<open>FileNotFoundError\<close> otherwise), its exit code, its captured output, and the files
  that exist once it has exited.
\<close>

record completed =
  launched :: bool
  returncode :: int
  stdout :: string
  files_after :: filesystem

text \<open>
  The machine: \<^verbatim>\<open>platform.system()\<close>; the project directory as each script finds it
  from its own location, \<^verbatim>\<open>Path(__file__).parent.resolve().parent\<close> in configure.py
  (\<^verbatim>\<open>script_root\<close>) and \<^verbatim>\<open>Path(__file__).parent.parent.resolve()\<close> in install\_deps.py
  (\<^verbatim>\<open>deps_root\<close>), two expressions that give different directories when the scripts
  directory is reached through a symbolic link or \<^verbatim>\<open>__file__\<close> is relative;
  \<^verbatim>\<open>shutil.which\<close> as a function of the files and of the value of \<^verbatim>\<open>PATH\<close>; and the
  behaviour of external programs as a function of the call, the ambient environment and
  the files.
\<close>

record world =
  system :: string
  script_root :: path
  deps_root :: path
  which :: "filesystem \<Rightarrow> string option \<Rightarrow> string \<Rightarrow> bool"
  spawn :: "invocation \<Rightarrow> env \<Rightarrow> filesystem \<Rightarrow> completed"

datatype response = Line string | KeyboardInterrupt | EOF

datatype prompt = BuildTypePrompt | CompilerPrompt | BuildSystemPrompt | YesNoPrompt string

text \<open>One constructor for each \<^verbatim>\<open>print_warning\<close> and \<^verbatim>\<open>print_error\<close> call of configure.py.\<close>

datatype diagnostic =
    WarnClangClNotFound
  | WarnVisualStudioNotFound
  | WarnVcvarsNotFound path
  | WarnMsvcEnvFailed int
  | WarnNoBuildSystems
  | WarnConanToolchainNotFound
  | ErrNoCompilersFound
  | ErrNoCompilerFound
  | ErrInvalidChoice
  | ErrConanNotFound
  | ErrConanInstallFailed
  | ErrCMakeConfigureFailed

text \<open>
  The mutable state of one run: \<^verbatim>\<open>os.environ\<close>, the files, the answers still to be read
  from standard input (an exhausted list is end of input), and what the run has done so
  far: the subprocess calls, the warnings and errors printed, the prompts shown.
\<close>

record state =
  environ :: env
  files :: filesystem
  stdin :: "response list"
  trace :: "invocation list"
  printed :: "diagnostic list"
  prompts :: "prompt list"

datatype py_error = KeyError | FileNotFoundError | IndexError

type_synonym 'a result = "py_error + 'a"

definition print_diag :: "diagnostic \<Rightarrow> state \<Rightarrow> state" where
  "print_diag d s = s\<lparr>printed := printed s @ [d]\<rparr>"

text \<open>\<^verbatim>\<open>check_command\<close>: \<^verbatim>\<open>shutil.which(cmd) is not None\<close>.\<close>

definition check_command :: "world \<Rightarrow> state \<Rightarrow> string \<Rightarrow> bool" where
  "check_command w s cmd = which w (files s) (environ s ''PATH'') cmd"

text \<open>
  \<^verbatim>\<open>subprocess.run\<close>: the call is recorded, the files become what the child left, and a
  program that cannot be started raises.
\<close>

definition subprocess_run :: "world \<Rightarrow> invocation \<Rightarrow> state \<Rightarrow> completed result \<times> state" where
  "subprocess_run w call s =
     (let r = spawn w call (environ s) (files s);
          s' = s\<lparr>trace := trace s @ [call], files := files_after r\<rparr>
      in if launched r then (Inr r, s') else (Inl FileNotFoundError, s'))"

text \<open>\<^verbatim>\<open>os.environ.get(key, default)\<close>\<close>

definition environ_get :: "state \<Rightarrow> string \<Rightarrow> string \<Rightarrow> string" where
  "environ_get s k d = (case environ s k of Some v \<Rightarrow> v | None \<Rightarrow> d)"

section \<open>CompilerDetector: the MSVC environment\<close>

definition vswhere_in :: "path \<Rightarrow> path" where
  "vswhere_in base = pjoin (pjoin (pjoin base ''Microsoft Visual Studio'') ''Installer'') ''vswhere.exe''"

definition program_files_x86_default :: path where
  "program_files_x86_default = ''C:'' @ [CHR 0x5C] @ ''Program Files (x86)''"

definition program_files_default :: path where
  "program_files_default = ''C:'' @ [CHR 0x5C] @ ''Program Files''"

definition vswhere_query :: "path \<Rightarrow> invocation" where
  "vswhere_query vswhere_path =
     \<lparr>argv = [vswhere_path, ''-latest'', ''-products'', ''*'', ''-requires'',
              ''Microsoft.VisualStudio.Component.VC.Tools.x86.x64'',
              ''-property'', ''installationPath''],
      shell = False, cwd = None, child_env = None\<rparr>"

definition common_paths :: "path list" where
  "common_paths =
     [''C:/Program Files/Microsoft Visual Studio/2022/Community'',
      ''C:/Program Files/Microsoft Visual Studio/2022/Professional'',
      ''C:/Program Files/Microsoft Visual Studio/2022/Enterprise'',
      ''C:/Program Files (x86)/Microsoft Visual Studio/2019/Community'',
      ''C:/Program Files (x86)/Microsoft Visual Studio/2019/Professional'',
      ''C:/Program Files (x86)/Microsoft Visual Studio/2019/Enterprise'']"

text \<open>The loop over \<^verbatim>\<open>common_paths\<close> with its \<^verbatim>\<open>break\<close>; the empty string when none exists.\<close>

fun first_existing :: "filesystem \<Rightarrow> path list \<Rightarrow> string" where
  "first_existing f [] = ''''"
| "first_existing f (p # ps) = (if f p then p else first_existing f ps)"

definition vcvarsall_of :: "string \<Rightarrow> path" where
  "vcvarsall_of vs_path =
     pjoin (pjoin (pjoin (pjoin vs_path ''VC'') ''Auxiliary'') ''Build'') ''vcvarsall.bat''"

definition vcvars_call :: "path \<Rightarrow> invocation" where
  "vcvars_call vcvars =
     \<lparr>argv = [[CHR 0x22] @ vcvars @ [CHR 0x22] @ '' amd64 && set''],
      shell = True, cwd = None, child_env = None\<rparr>"

text \<open>
  The loop over the lines of the dump: a line with an equals sign sets the key before
  the first equals sign to the rest of the line, in the mapping it is given.
\<close>

definition set_from_line :: "string \<Rightarrow> env \<Rightarrow> env" where
  "set_from_line line e =
     (if CHR ''='' \<in> set line
      then e(takeWhile (\<lambda>c. c \<noteq> CHR ''='') line \<mapsto> tl (dropWhile (\<lambda>c. c \<noteq> CHR ''='') line))
      else e)"

definition parse_env_dump :: "env \<Rightarrow> string list \<Rightarrow> env" where
  "parse_env_dump e ls = fold set_from_line ls e"

text \<open>The marker test: \<^verbatim>\<open>check_command("cl") and "INCLUDE" in os.environ\<close>.\<close>

definition msvc_already_configured :: "world \<Rightarrow> state \<Rightarrow> bool" where
  "msvc_already_configured w s = (check_command w s ''cl'' \<and> environ s ''INCLUDE'' \<noteq> None)"

text \<open>
  The first half of \<^verbatim>\<open>setup_msvc_environment\<close> after the marker test: the installation
  path reported by vswhere, else the first common path that exists, else the empty string.
\<close>

definition find_vs_path :: "world \<Rightarrow> state \<Rightarrow> string result \<times> state" where
  "find_vs_path w s =
     (let vswhere_path0 = vswhere_in (environ_get s ''ProgramFiles(x86)'' program_files_x86_default);
          fallback_vswhere = vswhere_in (environ_get s ''ProgramFiles'' program_files_default);
          vswhere_path = (if \<not> files s vswhere_path0 \<and> files s fallback_vswhere
                          then fallback_vswhere else vswhere_path0)
      in if files s vswhere_path
         then (case subprocess_run w (vswhere_query vswhere_path) s of
                 (Inl e, s1) \<Rightarrow> (Inl e, s1)
               | (Inr r, s1) \<Rightarrow>
                   let vs_path = (if returncode r = 0 then strip (stdout r) else '''')
                   in (Inr (if vs_path = '''' then first_existing (files s1) common_paths
                            else vs_path), s1))
         else (Inr (first_existing (files s) common_paths), s))"

text \<open>
  \<^verbatim>\<open>CompilerDetector.setup_msvc_environment\<close>; \<^verbatim>\<open>_setup_msvc_environment\<close> of
  install\_deps.py is the same code behind a cache of its first result.
\<close>

definition setup_msvc_environment :: "world \<Rightarrow> state \<Rightarrow> env result \<times> state" where
  "setup_msvc_environment w s =
     (let env0 = environ s
      in if system w \<noteq> ''Windows'' then (Inr env0, s)
         else if msvc_already_configured w s then (Inr env0, s)
         else (case find_vs_path w s of
                 (Inl e, s1) \<Rightarrow> (Inl e, s1)
               | (Inr vs_path, s1) \<Rightarrow>
                   if vs_path = '''' then (Inr env0, print_diag WarnVisualStudioNotFound s1)
                   else let vcvars = vcvarsall_of vs_path
                        in if \<not> files s1 vcvars
                           then (Inr env0, print_diag (WarnVcvarsNotFound vcvars) s1)
                           else (case subprocess_run w (vcvars_call vcvars) s1 of
                                   (Inl e, s2) \<Rightarrow> (Inl e, s2)
                                 | (Inr r, s2) \<Rightarrow>
                                     if returncode r = 0
                                     then (Inr (parse_env_dump env0 (splitlines (stdout r))), s2)
                                     else (Inr env0,
                                           print_diag (WarnMsvcEnvFailed (returncode r)) s2))))"

section \<open>BuildConfig\<close>

record build_config =
  project_root :: path
  build_type :: string
  compiler :: "string option"
  build_system :: "string option"
  platform :: string
  build_tests :: bool
  use_conan :: bool
  clean :: bool
  interactive :: bool
  cmake_args :: "string list"

text \<open>\<^verbatim>\<open>BuildConfig.get_platform_name\<close>, also \<^verbatim>\<open>DependencyInstaller.get_platform_name\<close>.\<close>

definition get_platform_name :: "string \<Rightarrow> string" where
  "get_platform_name sys =
     (if sys = ''Windows'' then ''windows''
      else if sys = ''Linux'' then ''linux''
      else if sys = ''Darwin'' then ''macos''
      else ''unknown'')"

text \<open>\<^verbatim>\<open>BuildConfig.get_build_dir\<close>\<close>

definition get_build_dir :: "build_config \<Rightarrow> path" where
  "get_build_dir config =
     pjoin (pjoin (pjoin (project_root config) ''build'') (lower (build_type config))) (platform config)"

text \<open>\<^verbatim>\<open>BuildConfig.__init__\<close>\<close>

definition new_build_config :: "world \<Rightarrow> build_config" where
  "new_build_config w =
     \<lparr>project_root = script_root w, build_type = ''Release'', compiler = None,
      build_system = None, platform = get_platform_name (system w), build_tests = False,
      use_conan = False, clean = False, interactive = True, cmake_args = []\<rparr>"

text \<open>
  \<^verbatim>\<open>Path.mkdir(parents=True, exist_ok=True)\<close> and \<^verbatim>\<open>shutil.rmtree\<close> on the files: the
  directory and the paths above it come into existence; the directory and the paths below
  it go. Failures of the operating system are outside the model.
\<close>

definition mkdir_parents :: "path \<Rightarrow> state \<Rightarrow> state" where
  "mkdir_parents d s = s\<lparr>files := (\<lambda>p. files s p \<or> p = d \<or> prefix (p @ ''/'') d)\<rparr>"

definition rmtree :: "path \<Rightarrow> state \<Rightarrow> state" where
  "rmtree d s = s\<lparr>files := (\<lambda>p. files s p \<and> p \<noteq> d \<and> \<not> prefix (d @ ''/'') p)\<rparr>"

section \<open>Interactive input\<close>

text \<open>
  Every loop around \<^verbatim>\<open>input()\<close> reads one answer per round, so it is a recursion on the
  answers that are left. Each loop function returns its value, the answers left, the
  number of times the prompt was shown and, for the menus, the number of times
  \<^verbatim>\<open>Invalid choice\<close> was printed.
\<close>

text \<open>The loop of \<^verbatim>\<open>ask_yes_no\<close>; interrupt and end of input return \<^verbatim>\<open>False\<close>.\<close>

fun yes_no_loop :: "bool \<Rightarrow> response list \<Rightarrow> bool \<times> response list \<times> nat" where
  "yes_no_loop dflt [] = (False, [], 1)"
| "yes_no_loop dflt (KeyboardInterrupt # rest) = (False, rest, 1)"
| "yes_no_loop dflt (EOF # rest) = (False, rest, 1)"
| "yes_no_loop dflt (Line l # rest) =
     (let response = lower (strip l)
      in if response = [] then (dflt, rest, 1)
         else if response = ''y'' \<or> response = ''yes'' then (True, rest, 1)
         else if response = ''n'' \<or> response = ''no'' then (False, rest, 1)
         else (case yes_no_loop dflt rest of (b, rest', k) \<Rightarrow> (b, rest', Suc k)))"

definition ask_yes_no :: "string \<Rightarrow> bool \<Rightarrow> state \<Rightarrow> bool \<times> state" where
  "ask_yes_no question dflt s =
     (case yes_no_loop dflt (stdin s) of
        (b, rest, asked) \<Rightarrow>
          (b, s\<lparr>stdin := rest, prompts := prompts s @ replicate asked (YesNoPrompt question)\<rparr>))"

text \<open>
  The loop of \<^verbatim>\<open>select_build_type_interactive\<close>; interrupt and end of input return
  \<^verbatim>\<open>"Release"\<close>.
\<close>

fun build_type_loop :: "response list \<Rightarrow> string \<times> response list \<times> nat \<times> nat" where
  "build_type_loop [] = (''Release'', [], 1, 0)"
| "build_type_loop (KeyboardInterrupt # rest) = (''Release'', rest, 1, 0)"
| "build_type_loop (EOF # rest) = (''Release'', rest, 1, 0)"
| "build_type_loop (Line l # rest) =
     (let choice = strip l
      in if choice = [] \<or> choice = ''3'' then (''Release'', rest, 1, 0)
         else if choice = ''1'' then (''Debug'', rest, 1, 0)
         else if choice = ''2'' then (''RelWithDebInfo'', rest, 1, 0)
         else (case build_type_loop rest of
                 (r, rest', k, bad) \<Rightarrow> (r, rest', Suc k, Suc bad)))"

definition select_build_type_interactive :: "state \<Rightarrow> string \<times> state" where
  "select_build_type_interactive s =
     (case build_type_loop (stdin s) of
        (r, rest, asked, bad) \<Rightarrow>
          (r, s\<lparr>stdin := rest,
                prompts := prompts s @ replicate asked BuildTypePrompt,
                printed := printed s @ replicate bad ErrInvalidChoice\<rparr>))"

text \<open>\<^verbatim>\<open>select_tests_interactive\<close>\<close>

definition select_tests_interactive :: "state \<Rightarrow> bool \<times> state" where
  "select_tests_interactive s = ask_yes_no ''Build tests?'' False s"

text \<open>
  The numbered menu shared by \<^verbatim>\<open>select_compiler_interactive\<close> and
  \<^verbatim>\<open>select_build_system_interactive\<close>: interrupt and end of input return \<^verbatim>\<open>None\<close>, an
  empty answer the first entry, a number in range that entry; anything else prints
  \<^verbatim>\<open>Invalid choice\<close> and asks again.
\<close>

fun menu_loop :: "(string \<times> string) list \<Rightarrow> response list
    \<Rightarrow> string option result \<times> response list \<times> nat \<times> nat" where
  "menu_loop items [] = (Inr None, [], 1, 0)"
| "menu_loop items (KeyboardInterrupt # rest) = (Inr None, rest, 1, 0)"
| "menu_loop items (EOF # rest) = (Inr None, rest, 1, 0)"
| "menu_loop items (Line l # rest) =
     (let choice = strip l
      in if choice = []
         then (case items of
                 [] \<Rightarrow> (Inl IndexError, rest, 1, 0)
               | first # _ \<Rightarrow> (Inr (Some (fst first)), rest, 1, 0))
         else (case py_int choice of
                 Some n \<Rightarrow>
                   if 0 \<le> n - 1 \<and> n - 1 < int (length items)
                   then (Inr (Some (fst (items ! nat (n - 1)))), rest, 1, 0)
                   else (case menu_loop items rest of
                           (r, rest', k, bad) \<Rightarrow> (r, rest', Suc k, Suc bad))
               | None \<Rightarrow>
                   (case menu_loop items rest of
                      (r, rest', k, bad) \<Rightarrow> (r, rest', Suc k, Suc bad))))"

definition read_menu :: "prompt \<Rightarrow> (string \<times> string) list \<Rightarrow> state
    \<Rightarrow> string option result \<times> state" where
  "read_menu p items s =
     (case menu_loop items (stdin s) of
        (r, rest, asked, bad) \<Rightarrow>
          (r, s\<lparr>stdin := rest,
                prompts := prompts s @ replicate asked p,
                printed := printed s @ replicate bad ErrInvalidChoice\<rparr>))"

section \<open>CompilerDetector: detection and selection\<close>

text \<open>
  The body shared by the two inner loops of \<^verbatim>\<open>_setup_clang_cl_path\<close>: a directory that
  holds \<^verbatim>\<open>clang-cl.exe\<close> is prepended to \<^verbatim>\<open>os.environ["PATH"]\<close> (which raises when
  \<^verbatim>\<open>PATH\<close> is unset), and the search stops with \<^verbatim>\<open>True\<close> once \<^verbatim>\<open>clang-cl\<close> is found on
  the new path.
\<close>

fun try_clang_dirs :: "world \<Rightarrow> path list \<Rightarrow> state \<Rightarrow> bool result \<times> state" where
  "try_clang_dirs w [] s = (Inr False, s)"
| "try_clang_dirs w (d # ds) s =
     (if files s (pjoin d ''clang-cl.exe'')
      then (case environ s ''PATH'' of
              None \<Rightarrow> (Inl KeyError, s)
            | Some old \<Rightarrow>
                let s' = s\<lparr>environ := (environ s)(''PATH'' \<mapsto> d @ '';'' @ old)\<rparr>
                in if check_command w s' ''clang-cl'' then (Inr True, s')
                   else try_clang_dirs w ds s')
      else try_clang_dirs w ds s)"

definition clang_dirs_of_vs :: "path \<Rightarrow> path list" where
  "clang_dirs_of_vs vs_path =
     [pjoin (pjoin (pjoin (pjoin (pjoin vs_path ''VC'') ''Tools'') ''Llvm'') ''x64'') ''bin'',
      pjoin (pjoin (pjoin (pjoin vs_path ''VC'') ''Tools'') ''Llvm'') ''bin'']"

fun try_vs_paths :: "world \<Rightarrow> path list \<Rightarrow> state \<Rightarrow> bool result \<times> state" where
  "try_vs_paths w [] s = (Inr False, s)"
| "try_vs_paths w (vs_path # rest) s =
     (if \<not> files s vs_path then try_vs_paths w rest s
      else (case try_clang_dirs w (clang_dirs_of_vs vs_path) s of
              (Inl e, s') \<Rightarrow> (Inl e, s')
            | (Inr True, s') \<Rightarrow> (Inr True, s')
            | (Inr False, s') \<Rightarrow> try_vs_paths w rest s'))"

definition llvm_paths :: "path list" where
  "llvm_paths = [''C:/Program Files/LLVM/bin'', ''C:/Program Files (x86)/LLVM/bin'']"

text \<open>\<^verbatim>\<open>CompilerDetector._setup_clang_cl_path\<close>\<close>

definition setup_clang_cl_path :: "world \<Rightarrow> state \<Rightarrow> bool result \<times> state" where
  "setup_clang_cl_path w s =
     (if system w \<noteq> ''Windows'' then (Inr True, s)
      else if check_command w s ''clang-cl'' then (Inr True, s)
      else (case try_vs_paths w common_paths s of
              (Inl e, s1) \<Rightarrow> (Inl e, s1)
            | (Inr True, s1) \<Rightarrow> (Inr True, s1)
            | (Inr False, s1) \<Rightarrow>
                (case try_clang_dirs w llvm_paths s1 of
                   (Inl e, s2) \<Rightarrow> (Inl e, s2)
                 | (Inr True, s2) \<Rightarrow> (Inr True, s2)
                 | (Inr False, s2) \<Rightarrow> (Inr False, print_diag WarnClangClNotFound s2))))"

text \<open>
  The vswhere query of \<^verbatim>\<open>detect_msvc\<close> and \<^verbatim>\<open>detect_msbuild\<close>: whether vswhere exists,
  exits with 0 and prints an installation path.
\<close>

definition vswhere_reports :: "world \<Rightarrow> state \<Rightarrow> bool result \<times> state" where
  "vswhere_reports w s =
     (let vswhere_path = vswhere_in (environ_get s ''ProgramFiles(x86)'' program_files_x86_default)
      in if files s vswhere_path
         then (case subprocess_run w (vswhere_query vswhere_path) s of
                 (Inl e, s1) \<Rightarrow> (Inl e, s1)
               | (Inr r, s1) \<Rightarrow> (Inr (returncode r = 0 \<and> strip (stdout r) \<noteq> []), s1))
         else (Inr False, s))"

text \<open>\<^verbatim>\<open>CompilerDetector.detect_msvc\<close>\<close>

definition detect_msvc :: "world \<Rightarrow> state \<Rightarrow> string option result \<times> state" where
  "detect_msvc w s =
     (if system w \<noteq> ''Windows'' then (Inr None, s)
      else (case vswhere_reports w s of
              (Inl e, s1) \<Rightarrow> (Inl e, s1)
            | (Inr found, s1) \<Rightarrow> (Inr (if found then Some ''msvc'' else None), s1)))"

text \<open>\<^verbatim>\<open>CompilerDetector.detect_gcc\<close>\<close>

definition detect_gcc :: "world \<Rightarrow> state \<Rightarrow> bool" where
  "detect_gcc w s = check_command w s ''g++''"

text \<open>\<^verbatim>\<open>CompilerDetector.detect_clang\<close>\<close>

definition detect_clang :: "world \<Rightarrow> state \<Rightarrow> bool result \<times> state" where
  "detect_clang w s =
     (if system w = ''Windows''
      then (if check_command w s ''clang-cl'' then (Inr True, s) else setup_clang_cl_path w s)
      else (Inr (check_command w s ''clang++''), s))"

text \<open>
  The first half of \<^verbatim>\<open>select_compiler_interactive\<close>: the list \<^verbatim>\<open>compilers\<close>, filled in the
  order MSVC, Clang, GCC.
\<close>

definition available_compilers :: "world \<Rightarrow> state \<Rightarrow> (string \<times> string) list result \<times> state" where
  "available_compilers w s =
     (case (if system w = ''Windows'' then detect_msvc w s else (Inr None, s)) of
        (Inl e, s1) \<Rightarrow> (Inl e, s1)
      | (Inr msvc, s1) \<Rightarrow>
          (case detect_clang w s1 of
             (Inl e, s2) \<Rightarrow> (Inl e, s2)
           | (Inr clang, s2) \<Rightarrow>
               (Inr ((if msvc \<noteq> None then [(''msvc'', ''MSVC'')] else [])
                     @ (if clang
                        then (if system w = ''Windows''
                              then [(''clang-cl'', ''Clang-CL (Windows)'')]
                              else [(''clang'', ''Clang'')])
                        else [])
                     @ (if detect_gcc w s2 then [(''gcc'', ''GCC'')] else [])), s2)))"

text \<open>\<^verbatim>\<open>CompilerDetector.select_compiler_interactive\<close>\<close>

definition select_compiler_interactive :: "world \<Rightarrow> state \<Rightarrow> string option result \<times> state" where
  "select_compiler_interactive w s =
     (case available_compilers w s of
        (Inl e, s1) \<Rightarrow> (Inl e, s1)
      | (Inr compilers, s1) \<Rightarrow>
          if compilers = [] then (Inr None, print_diag ErrNoCompilersFound s1)
          else read_menu CompilerPrompt compilers s1)"

text \<open>
  \<^verbatim>\<open>CompilerDetector.setup_compiler\<close>: the dictionary of CMake variables, in insertion
  order.
\<close>

definition setup_compiler :: "world \<Rightarrow> string option \<Rightarrow> state
    \<Rightarrow> (string \<times> string) list result \<times> state" where
  "setup_compiler w cid s =
     (if cid = Some ''gcc'' \<or> cid = Some ''g++''
      then (Inr [(''CMAKE_C_COMPILER'', ''gcc''), (''CMAKE_CXX_COMPILER'', ''g++'')], s)
      else if cid = Some ''clang'' \<or> cid = Some ''clang++''
      then (Inr [(''CMAKE_C_COMPILER'', ''clang''), (''CMAKE_CXX_COMPILER'', ''clang++'')], s)
      else if cid = Some ''clang-cl''
      then (case setup_clang_cl_path w s of
              (Inl e, s1) \<Rightarrow> (Inl e, s1)
            | (Inr _, s1) \<Rightarrow>
                (Inr [(''CMAKE_C_COMPILER'', ''clang-cl''), (''CMAKE_CXX_COMPILER'', ''clang-cl'')], s1))
      else (Inr [], s))"

section \<open>BuildSystemSelector\<close>

definition detect_ninja :: "world \<Rightarrow> state \<Rightarrow> bool" where
  "detect_ninja w s = check_command w s ''ninja''"

definition detect_make :: "world \<Rightarrow> state \<Rightarrow> bool" where
  "detect_make w s = check_command w s ''make''"

text \<open>\<^verbatim>\<open>BuildSystemSelector.detect_msbuild\<close>\<close>

definition detect_msbuild :: "world \<Rightarrow> state \<Rightarrow> bool result \<times> state" where
  "detect_msbuild w s = (if system w \<noteq> ''Windows'' then (Inr False, s) else vswhere_reports w s)"

definition is_msvc_class :: "string option \<Rightarrow> bool" where
  "is_msvc_class cid = (cid = Some ''msvc'' \<or> cid = Some ''cl'')"

text \<open>The first half of \<^verbatim>\<open>select_build_system_interactive\<close>: the list \<^verbatim>\<open>systems\<close>.\<close>

definition available_build_systems :: "world \<Rightarrow> string option \<Rightarrow> state
    \<Rightarrow> (string \<times> string) list result \<times> state" where
  "available_build_systems w cid s =
     (let ninja = (if detect_ninja w s then [(''Ninja'', ''Ninja (fast)'')] else []);
          make = (if system w \<noteq> ''Windows'' \<and> detect_make w s
                  then [(''Unix Makefiles'', ''Unix Makefiles'')] else [])
      in if system w = ''Windows''
         then (case detect_msbuild w s of
                 (Inl e, s1) \<Rightarrow> (Inl e, s1)
               | (Inr msbuild, s1) \<Rightarrow>
                   (Inr (ninja @ make
                         @ (if msbuild \<and> is_msvc_class cid
                            then [(''Visual Studio 17 2022'', ''Visual Studio 2022'')] else [])),
                    s1))
         else (Inr (ninja @ make), s))"

text \<open>\<^verbatim>\<open>BuildSystemSelector.select_build_system_interactive\<close>\<close>

definition select_build_system_interactive :: "world \<Rightarrow> string option \<Rightarrow> state
    \<Rightarrow> string option result \<times> state" where
  "select_build_system_interactive w cid s =
     (case available_build_systems w cid s of
        (Inl e, s1) \<Rightarrow> (Inl e, s1)
      | (Inr systems, s1) \<Rightarrow>
          (case systems of
             [] \<Rightarrow> (Inr None, print_diag WarnNoBuildSystems s1)
           | [only] \<Rightarrow> (Inr (Some (fst only)), s1)
           | _ \<Rightarrow> read_menu BuildSystemPrompt systems s1))"

text \<open>\<^verbatim>\<open>BuildSystemSelector.setup_build_system\<close>; \<^verbatim>\<open>None\<close> and the empty string are falsy.\<close>

definition setup_build_system :: "string option \<Rightarrow> string list" where
  "setup_build_system bs =
     (case bs of None \<Rightarrow> [] | Some g \<Rightarrow> if g = [] then [] else [''-G'', g])"

section \<open>ConanManager\<close>

text \<open>\<^verbatim>\<open>ConanManager.find_conan_toolchain\<close>\<close>

definition find_conan_toolchain :: "build_config \<Rightarrow> state \<Rightarrow> path option" where
  "find_conan_toolchain config s =
     (let toolchain = pjoin (get_build_dir config) ''conan_toolchain.cmake''
      in if files s toolchain then Some toolchain else None)"

text \<open>\<^verbatim>\<open>ConanManager.ask_use_conan\<close>\<close>

definition ask_use_conan :: "world \<Rightarrow> bool \<Rightarrow> state \<Rightarrow> bool \<times> state" where
  "ask_use_conan w is_interactive s =
     (if \<not> is_interactive then (False, s)
      else if \<not> check_command w s ''conan'' then (False, s)
      else ask_yes_no ''Use Conan for dependencies?'' False s)"

definition gcc_version_call :: invocation where
  "gcc_version_call = \<lparr>argv = [''gcc'', ''--version''], shell = False, cwd = None, child_env = None\<rparr>"

text \<open>
  The profile chosen by \<^verbatim>\<open>setup_conan\<close>. A compiler that cannot be started and a nonzero
  exit code are both caught there and give the default profile.
\<close>

definition conan_profile :: "world \<Rightarrow> build_config \<Rightarrow> state \<Rightarrow> string \<times> state" where
  "conan_profile w config s =
     (let custom_profile = pjoin (pjoin (project_root config) ''conan_profiles'') ''gcc15''
      in if files s custom_profile
            \<and> (compiler config = Some ''gcc'' \<or> compiler config = Some ''g++'' \<or> compiler config = None)
         then (case subprocess_run w gcc_version_call s of
                 (Inl e, s1) \<Rightarrow> (''default'', s1)
               | (Inr r, s1) \<Rightarrow>
                   if returncode r = 0
                      \<and> (sublist ''gcc (GCC) 15'' (stdout r) \<or> sublist ''gcc (GCC) 16'' (stdout r))
                   then (custom_profile, s1)
                   else (''default'', s1))
         else (''default'', s))"

text \<open>The build type mapping of \<^verbatim>\<open>setup_conan\<close>.\<close>

definition conan_build_type :: "string \<Rightarrow> string" where
  "conan_build_type bt = (if lower bt = ''relwithdebinfo'' then ''Release'' else bt)"

definition conan_install_cmd :: "build_config \<Rightarrow> string \<Rightarrow> string list" where
  "conan_install_cmd config profile =
     [''conan'', ''install'', project_root config,
      ''--output-folder'', get_build_dir config,
      ''--build=missing'', ''--build=!qt/*'',
      ''--profile='' @ profile,
      ''-s:h=build_type='' @ conan_build_type (build_type config)]"

text \<open>\<^verbatim>\<open>ConanManager.setup_conan\<close>; the install runs without an \<^verbatim>\<open>env=\<close> argument.\<close>

definition setup_conan :: "world \<Rightarrow> build_config \<Rightarrow> state \<Rightarrow> bool result \<times> state" where
  "setup_conan w config s =
     (if \<not> check_command w s ''conan'' then (Inr False, print_diag ErrConanNotFound s)
      else let s1 = mkdir_parents (get_build_dir config) s
           in (case conan_profile w config s1 of
                 (profile, s2) \<Rightarrow>
                   (case subprocess_run w
                           \<lparr>argv = conan_install_cmd config profile, shell = False,
                            cwd = Some (project_root config), child_env = None\<rparr> s2 of
                      (Inl e, s3) \<Rightarrow> (Inl e, s3)
                    | (Inr r, s3) \<Rightarrow>
                        if returncode r \<noteq> 0 then (Inr False, print_diag ErrConanInstallFailed s3)
                        else (Inr True, s3))))"

section \<open>CMakeBuilder\<close>

definition define_flag :: "string \<times> string \<Rightarrow> string" where
  "define_flag kv = ''-D'' @ fst kv @ ''='' @ snd kv"

text \<open>The Conan part of the command built by \<^verbatim>\<open>configure\<close>.\<close>

definition conan_flags :: "build_config \<Rightarrow> state \<Rightarrow> string list" where
  "conan_flags config s =
     (if use_conan config
      then (case find_conan_toolchain config s of
              Some toolchain \<Rightarrow> [''-DCMAKE_TOOLCHAIN_FILE='' @ toolchain, ''-DCLIENT_USE_CONAN=ON'']
            | None \<Rightarrow> [])
      else [''-DCLIENT_USE_CONAN=OFF''])"

text \<open>The list \<^verbatim>\<open>cmd\<close> of \<^verbatim>\<open>configure\<close>, given the result of \<^verbatim>\<open>setup_compiler\<close>.\<close>

definition cmake_cmd :: "build_config \<Rightarrow> (string \<times> string) list \<Rightarrow> state \<Rightarrow> string list" where
  "cmake_cmd config compiler_args s =
     [''cmake'']
     @ setup_build_system (build_system config)
     @ map define_flag compiler_args
     @ [''-DCMAKE_BUILD_TYPE='' @ build_type config]
     @ [''-DCLIENT_BUILD_TESTS='' @ (if build_tests config then ''ON'' else ''OFF'')]
     @ conan_flags config s
     @ cmake_args config
     @ [''-S'', project_root config, ''-B'', get_build_dir config]"

text \<open>The environment \<^verbatim>\<open>configure\<close> gives to CMake.\<close>

definition configure_env :: "world \<Rightarrow> build_config \<Rightarrow> state \<Rightarrow> env result \<times> state" where
  "configure_env w config s =
     (if system w = ''Windows'' \<and> (is_msvc_class (compiler config) \<or> compiler config = None)
      then setup_msvc_environment w s
      else (Inr (environ s), s))"

text \<open>\<^verbatim>\<open>CMakeBuilder.configure\<close>\<close>

definition configure :: "world \<Rightarrow> build_config \<Rightarrow> state \<Rightarrow> bool result \<times> state" where
  "configure w config s =
     (let s1 = mkdir_parents (get_build_dir config) s
      in (case setup_compiler w (compiler config) s1 of
            (Inl e, s2) \<Rightarrow> (Inl e, s2)
          | (Inr compiler_args, s2) \<Rightarrow>
              let cmd = cmake_cmd config compiler_args s2;
                  s3 = (if use_conan config \<and> find_conan_toolchain config s2 = None
                        then print_diag WarnConanToolchainNotFound s2 else s2)
              in (case configure_env w config s3 of
                    (Inl e, s4) \<Rightarrow> (Inl e, s4)
                  | (Inr env, s4) \<Rightarrow>
                      (case subprocess_run w
                              \<lparr>argv = cmd, shell = False,
                               cwd = Some (project_root config), child_env = Some env\<rparr> s4 of
                         (Inl e, s5) \<Rightarrow> (Inl e, s5)
                       | (Inr r, s5) \<Rightarrow>
                           if returncode r \<noteq> 0
                           then (Inr False, print_diag ErrCMakeConfigureFailed s5)
                           else (Inr True, s5)))))"

section \<open>main\<close>

text \<open>
  The parsed command line. An option that was not given is \<^term>\<open>None\<close>; \<^verbatim>\<open>--cmake-args\<close>
  defaults to the empty string.
\<close>

record args =
  arg_type :: "string option"
  arg_compiler :: "string option"
  arg_build_system :: "string option"
  arg_platform :: "string option"
  arg_build_tests :: "bool option"
  arg_use_conan :: "bool option"
  arg_clean :: bool
  arg_no_interactive :: bool
  arg_cmake_args :: string

text \<open>The test \<^verbatim>\<open>if args.x:\<close> on an optional string: \<^verbatim>\<open>None\<close> and the empty string are falsy.\<close>

definition given :: "string option \<Rightarrow> string option" where
  "given a = (case a of None \<Rightarrow> None | Some v \<Rightarrow> if v = [] then None else Some v)"

text \<open>The branch \<^verbatim>\<open># Auto-detect compiler\<close> of \<^verbatim>\<open>main\<close>.\<close>

definition auto_detect_compiler :: "world \<Rightarrow> state \<Rightarrow> string option result \<times> state" where
  "auto_detect_compiler w s =
     (if detect_gcc w s then (Inr (Some ''gcc''), s)
      else (case detect_clang w s of
              (Inl e, s1) \<Rightarrow> (Inl e, s1)
            | (Inr True, s1) \<Rightarrow>
                (Inr (Some (if system w \<noteq> ''Windows'' then ''clang'' else ''clang-cl'')), s1)
            | (Inr False, s1) \<Rightarrow>
                (case (if system w = ''Windows'' then detect_msvc w s1 else (Inr None, s1)) of
                   (Inl e, s2) \<Rightarrow> (Inl e, s2)
                 | (Inr (Some _), s2) \<Rightarrow> (Inr (Some ''msvc''), s2)
                 | (Inr None, s2) \<Rightarrow> (Inr None, print_diag ErrNoCompilerFound s2))))"

text \<open>The branch \<^verbatim>\<open># Auto-select build system\<close> of \<^verbatim>\<open>main\<close>.\<close>

definition auto_select_build_system :: "world \<Rightarrow> string option \<Rightarrow> state \<Rightarrow> string" where
  "auto_select_build_system w cid s =
     (if detect_ninja w s then ''Ninja''
      else if system w \<noteq> ''Windows'' then ''Unix Makefiles''
      else if is_msvc_class cid then ''Visual Studio 17 2022''
      else ''Ninja'')"

text \<open>The start of \<^verbatim>\<open>main\<close>: the configuration before any field is resolved.\<close>

definition initial_config :: "world \<Rightarrow> args \<Rightarrow> build_config" where
  "initial_config w a =
     (new_build_config w)
       \<lparr>interactive := \<not> arg_no_interactive a,
        clean := arg_clean a,
        cmake_args := (if arg_cmake_args a \<noteq> [] then split_ws (arg_cmake_args a) else []),
        platform := (case given (arg_platform a) of
                       Some p \<Rightarrow> p
                     | None \<Rightarrow> get_platform_name (system w))\<rparr>"

definition resolve_build_type :: "args \<Rightarrow> build_config \<Rightarrow> state \<Rightarrow> string \<times> state" where
  "resolve_build_type a config s =
     (case given (arg_type a) of
        Some t \<Rightarrow> (t, s)
      | None \<Rightarrow> if interactive config then select_build_type_interactive s else (''Release'', s))"

definition resolve_compiler :: "world \<Rightarrow> args \<Rightarrow> build_config \<Rightarrow> state
    \<Rightarrow> string option result \<times> state" where
  "resolve_compiler w a config s =
     (case given (arg_compiler a) of
        Some c \<Rightarrow> (Inr (Some c), s)
      | None \<Rightarrow> if interactive config then select_compiler_interactive w s
                else auto_detect_compiler w s)"

definition resolve_build_system :: "world \<Rightarrow> args \<Rightarrow> build_config \<Rightarrow> state
    \<Rightarrow> string option result \<times> state" where
  "resolve_build_system w a config s =
     (case given (arg_build_system a) of
        Some b \<Rightarrow> (Inr (Some b), s)
      | None \<Rightarrow> if interactive config then select_build_system_interactive w (compiler config) s
                else (Inr (Some (auto_select_build_system w (compiler config) s)), s))"

definition resolve_tests :: "args \<Rightarrow> build_config \<Rightarrow> state \<Rightarrow> bool \<times> state" where
  "resolve_tests a config s =
     (case arg_build_tests a of
        Some b \<Rightarrow> (b, s)
      | None \<Rightarrow> if interactive config then select_tests_interactive s else (False, s))"

definition resolve_conan :: "world \<Rightarrow> args \<Rightarrow> build_config \<Rightarrow> state \<Rightarrow> bool \<times> state" where
  "resolve_conan w a config s =
     (case arg_use_conan a of
        Some b \<Rightarrow> (b, s)
      | None \<Rightarrow> if interactive config then ask_use_conan w (interactive config) s else (False, s))"

text \<open>
  \<^verbatim>\<open>main\<close> up to the configuration summary: build type, compiler, build system, tests,
  Conan, in this order. \<^term>\<open>None\<close> is the \<^verbatim>\<open>return 1\<close> taken when no compiler is
  resolved.
\<close>

definition resolve :: "world \<Rightarrow> args \<Rightarrow> state \<Rightarrow> build_config option result \<times> state" where
  "resolve w a s =
     (let config0 = initial_config w a
      in (case resolve_build_type a config0 s of
            (bt, s1) \<Rightarrow>
              let config1 = config0\<lparr>build_type := bt\<rparr>
              in (case resolve_compiler w a config1 s1 of
                    (Inl e, s2) \<Rightarrow> (Inl e, s2)
                  | (Inr None, s2) \<Rightarrow> (Inr None, s2)
                  | (Inr (Some c), s2) \<Rightarrow>
                      let config2 = config1\<lparr>compiler := Some c\<rparr>
                      in (case resolve_build_system w a config2 s2 of
                            (Inl e, s3) \<Rightarrow> (Inl e, s3)
                          | (Inr bs, s3) \<Rightarrow>
                              let config3 = config2\<lparr>build_system := bs\<rparr>
                              in (case resolve_tests a config3 s3 of
                                    (t, s4) \<Rightarrow>
                                      (case resolve_conan w a config3 s4 of
                                         (u, s5) \<Rightarrow>
                                           (Inr (Some (config3\<lparr>build_tests := t, use_conan := u\<rparr>)),
                                            s5)))))))"

text \<open>The rest of \<^verbatim>\<open>main\<close>: clean, Conan install, CMake configure; the value is the exit code.\<close>

definition build_steps :: "world \<Rightarrow> build_config \<Rightarrow> state \<Rightarrow> int result \<times> state" where
  "build_steps w config s =
     (let s1 = (if clean config \<and> files s (get_build_dir config)
                then rmtree (get_build_dir config) s else s)
      in (case (if use_conan config then setup_conan w config s1 else (Inr True, s1)) of
            (Inl e, s2) \<Rightarrow> (Inl e, s2)
          | (Inr False, s2) \<Rightarrow> (Inr 1, s2)
          | (Inr True, s2) \<Rightarrow>
              (case configure w config s2 of
                 (Inl e, s3) \<Rightarrow> (Inl e, s3)
               | (Inr False, s3) \<Rightarrow> (Inr 1, s3)
               | (Inr True, s3) \<Rightarrow> (Inr 0, s3))))"

definition main :: "world \<Rightarrow> args \<Rightarrow> state \<Rightarrow> int result \<times> state" where
  "main w a s =
     (case resolve w a s of
        (Inl e, s1) \<Rightarrow> (Inl e, s1)
      | (Inr None, s1) \<Rightarrow> (Inr 1, s1)
      | (Inr (Some config), s1) \<Rightarrow> build_steps w config s1)"

text \<open>\<^verbatim>\<open>sys.exit(main())\<close>: an exception that nothing catches ends the process with code 1.\<close>

definition exit_code :: "world \<Rightarrow> args \<Rightarrow> state \<Rightarrow> int" where
  "exit_code w a s = (case fst (main w a s) of Inl e \<Rightarrow> 1 | Inr c \<Rightarrow> c)"

section \<open>install\_deps.py: the Conan install\<close>

text \<open>\<^verbatim>\<open>DependencyInstaller.get_build_dir\<close>\<close>

definition deps_get_build_dir :: "world \<Rightarrow> string \<Rightarrow> path" where
  "deps_get_build_dir w bt =
     pjoin (pjoin (pjoin (deps_root w) ''build'') (lower bt)) (get_platform_name (system w))"

text \<open>The build type mapping of \<^verbatim>\<open>install_conan_dependencies\<close>.\<close>

definition deps_conan_build_type :: "string \<Rightarrow> string" where
  "deps_conan_build_type bt =
     (if lower bt = ''relwithdebinfo'' then ''RelWithDebInfo''
      else if lower bt = ''debug'' then ''Debug''
      else if lower bt = ''release'' then ''Release''
      else bt)"

definition deps_conan_install_cmd :: "world \<Rightarrow> string \<Rightarrow> string list" where
  "deps_conan_install_cmd w bt =
     [''conan'', ''install'', deps_root w,
      ''--output-folder'', deps_get_build_dir w bt,
      ''--build=missing'',
      ''-s:h=build_type='' @ deps_conan_build_type bt]"

text \<open>
  \<^verbatim>\<open>DependencyInstaller._setup_msvc_environment\<close>: the code of
  \<^verbatim>\<open>setup_msvc_environment\<close> behind the cache \<^verbatim>\<open>self._msvc_env\<close>, which every return on
  Windows fills.
\<close>

definition deps_setup_msvc_environment :: "world \<Rightarrow> env option \<Rightarrow> state
    \<Rightarrow> (env result \<times> state) \<times> env option" where
  "deps_setup_msvc_environment w cache s =
     (case cache of
        Some e \<Rightarrow> ((Inr e, s), cache)
      | None \<Rightarrow>
          (case setup_msvc_environment w s of
             (Inl e, s1) \<Rightarrow> ((Inl e, s1), None)
           | (Inr e, s1) \<Rightarrow> ((Inr e, s1), if system w \<noteq> ''Windows'' then None else Some e)))"

text \<open>\<^verbatim>\<open>DependencyInstaller.install_conan_dependencies\<close>, on a fresh installer.\<close>

definition install_conan_dependencies :: "world \<Rightarrow> string \<Rightarrow> state \<Rightarrow> bool result \<times> state" where
  "install_conan_dependencies w bt s =
     (let s1 = mkdir_parents (deps_get_build_dir w bt) s
      in (case (if system w = ''Windows'' then fst (deps_setup_msvc_environment w None s1)
                else (Inr (environ s1), s1)) of
            (Inl e, s2) \<Rightarrow> (Inl e, s2)
          | (Inr env, s2) \<Rightarrow>
              (case subprocess_run w
                      \<lparr>argv = deps_conan_install_cmd w bt, shell = False,
                       cwd = Some (deps_root w), child_env = Some env\<rparr> s2 of
                 (Inl e, s3) \<Rightarrow> (Inl e, s3)
               | (Inr r, s3) \<Rightarrow>
                   if returncode r \<noteq> 0 then (Inr False, print_diag ErrConanInstallFailed s3)
                   else (Inr True, s3))))"

section \<open>Notions used in the statements\<close>

text \<open>A step that leaves everything but \<^verbatim>\<open>os.environ\<close> as it was.\<close>

definition environ_only :: "state \<Rightarrow> state \<Rightarrow> bool" where
  "environ_only s s' \<longleftrightarrow>
     files s' = files s \<and> stdin s' = stdin s \<and> trace s' = trace s
     \<and> printed s' = printed s \<and> prompts s' = prompts s"

text \<open>
  The value of \<^verbatim>\<open>setup_compiler\<close> as a function of the compiler alone: the
  compiler-executable overrides handed to CMake.
\<close>

definition compiler_defines :: "string option \<Rightarrow> (string \<times> string) list" where
  "compiler_defines cid =
     (if cid = Some ''gcc'' \<or> cid = Some ''g++''
      then [(''CMAKE_C_COMPILER'', ''gcc''), (''CMAKE_CXX_COMPILER'', ''g++'')]
      else if cid = Some ''clang'' \<or> cid = Some ''clang++''
      then [(''CMAKE_C_COMPILER'', ''clang''), (''CMAKE_CXX_COMPILER'', ''clang++'')]
      else if cid = Some ''clang-cl''
      then [(''CMAKE_C_COMPILER'', ''clang-cl''), (''CMAKE_CXX_COMPILER'', ''clang-cl'')]
      else [])"

text \<open>An answer that cancels a prompt: interrupt, end of input, or no input left.\<close>

definition cancelled :: "response list \<Rightarrow> bool" where
  "cancelled rs = (case rs of [] \<Rightarrow> True | Line l # _ \<Rightarrow> False | _ # _ \<Rightarrow> True)"

text \<open>The warnings of \<^verbatim>\<open>setup_msvc_environment\<close>.\<close>

definition is_msvc_warning :: "diagnostic \<Rightarrow> bool" where
  "is_msvc_warning d =
     (case d of
        WarnVisualStudioNotFound \<Rightarrow> True
      | WarnVcvarsNotFound _ \<Rightarrow> True
      | WarnMsvcEnvFailed _ \<Rightarrow> True
      | _ \<Rightarrow> False)"

text \<open>Where \<^verbatim>\<open>find_conan_toolchain\<close> looks.\<close>

definition toolchain_path :: "build_config \<Rightarrow> path" where
  "toolchain_path config = pjoin (get_build_dir config) ''conan_toolchain.cmake''"

text \<open>The prompts of a whole run, in the order in which \<^verbatim>\<open>main\<close> resolves the fields.\<close>

definition prompts_of_run :: "nat \<Rightarrow> nat \<Rightarrow> nat \<Rightarrow> nat \<Rightarrow> nat \<Rightarrow> prompt list" where
  "prompts_of_run k1 k2 k3 k4 k5 =
     replicate k1 BuildTypePrompt @ replicate k2 CompilerPrompt
     @ replicate k3 BuildSystemPrompt @ replicate k4 (YesNoPrompt ''Build tests?'')
     @ replicate k5 (YesNoPrompt ''Use Conan for dependencies?'')"

text \<open>
  A machine on which no detection path finds a compiler: \<^verbatim>\<open>g++\<close>, \<^verbatim>\<open>clang++\<close> and
  \<^verbatim>\<open>clang-cl\<close> are on no search path, and a vswhere query that exits with 0 prints no
  installation path.
\<close>

definition no_compiler_anywhere :: "world \<Rightarrow> bool" where
  "no_compiler_anywhere w \<longleftrightarrow>
     (\<forall>f p. \<not> which w f p ''g++'' \<and> \<not> which w f p ''clang++'' \<and> \<not> which w f p ''clang-cl'')
     \<and> (\<forall>q e f. returncode (spawn w (vswhere_query q) e f) = 0 \<longrightarrow>
                  strip (stdout (spawn w (vswhere_query q) e f)) = [])"


section \<open>Concrete machines\<close>



definition dump_program :: "invocation \<Rightarrow> env \<Rightarrow> filesystem \<Rightarrow> completed" where
  "dump_program call e f = \<lparr>launched = True, returncode = 0, stdout = ''BAR=2'', files_after = f\<rparr>"

definition msvc_world :: world where
  "msvc_world = \<lparr>system = ''Windows'', script_root = ''C:/proj'', deps_root = ''C:/proj'',
                 which = (\<lambda>f p c. False),
                 spawn = dump_program\<rparr>"



text \<open>
  A Linux machine with \<^verbatim>\<open>g++\<close> and \<^verbatim>\<open>ninja\<close> on the search path, no file on disk that the
  scripts look for, and external programs that all exit with 0 and print nothing.
\<close>

definition ok_program :: "invocation \<Rightarrow> env \<Rightarrow> filesystem \<Rightarrow> completed" where
  "ok_program call e f = \<lparr>launched = True, returncode = 0, stdout = '''', files_after = f\<rparr>"

definition linux_world :: world where
  "linux_world = \<lparr>system = ''Linux'', script_root = ''/proj'', deps_root = ''/proj'',
                  which = (\<lambda>f p c. c \<in> set [''g++'', ''ninja'']), spawn = ok_program\<rparr>"

definition linux_state :: "response list \<Rightarrow> state" where
  "linux_state rs = \<lparr>environ = [''PATH'' \<mapsto> ''/usr/bin''], files = (\<lambda>p. False), stdin = rs,
                     trace = [], printed = [], prompts = []\<rparr>"

definition gcc_config :: "bool \<Rightarrow> build_config" where
  "gcc_config conan =
     \<lparr>project_root = ''/proj'', build_type = ''Release'', compiler = Some ''gcc'',
      build_system = Some ''Ninja'', platform = ''linux'', build_tests = False,
      use_conan = conan, clean = False, interactive = False, cmake_args = [''-DX=1'']\<rparr>"

text \<open>
  For the Windows machine above: a disk that holds only vswhere, a non-interactive command
  line that names MSVC, and the configuration it resolves to.
\<close>

definition vswhere_files :: filesystem where
  "vswhere_files p = (p = vswhere_in program_files_x86_default)"

definition vs_state :: state where
  "vs_state = \<lparr>environ = Map.empty, files = vswhere_files, stdin = [], trace = [], printed = [],
                 prompts = []\<rparr>"

definition vs_state_after :: state where
  "vs_state_after = vs_state\<lparr>trace := [vswhere_query (vswhere_in program_files_x86_default)]\<rparr>"

definition msvc_args :: args where
  "msvc_args = \<lparr>arg_type = None, arg_compiler = Some ''msvc'', arg_build_system = None,
                 arg_platform = None, arg_build_tests = None, arg_use_conan = None,
                 arg_clean = False, arg_no_interactive = True, arg_cmake_args = ''''\<rparr>"

definition vs_config :: build_config where
  "vs_config = \<lparr>project_root = ''C:/proj'', build_type = ''Release'', compiler = Some ''msvc'',
                 build_system = Some ''Visual Studio 17 2022'', platform = ''windows'',
                 build_tests = False, use_conan = False, clean = False, interactive = False,
                 cmake_args = []\<rparr>"

text \<open>
  The same Windows machine with \<^verbatim>\<open>g++\<close> on the search path, and a non-interactive
  command line that names nothing.
\<close>

definition win_gcc_world :: world where
  "win_gcc_world = msvc_world\<lparr>which := (\<lambda>f p c. c = ''g++'')\<rparr>"

definition auto_args :: args where
  "auto_args = \<lparr>arg_type = None, arg_compiler = None, arg_build_system = None,
                 arg_platform = None, arg_build_tests = None, arg_use_conan = None,
                 arg_clean = False, arg_no_interactive = True, arg_cmake_args = ''''\<rparr>"

text \<open>An interactive command line that names every field.\<close>

definition full_args :: args where
  "full_args = \<lparr>arg_type = Some ''Debug'', arg_compiler = Some ''gcc'',
                 arg_build_system = Some ''Ninja'', arg_platform = None,
                 arg_build_tests = Some True, arg_use_conan = Some False,
                 arg_clean = False, arg_no_interactive = False, arg_cmake_args = ''''\<rparr>"

text \<open>
  For the Linux machine: an interactive command line that names nothing, the configuration
  resolved when every prompt is cancelled or left empty, and the state at that point.
\<close>

definition ask_args :: args where
  "ask_args = \<lparr>arg_type = None, arg_compiler = None, arg_build_system = None,
                arg_platform = None, arg_build_tests = None, arg_use_conan = None,
                arg_clean = False, arg_no_interactive = False, arg_cmake_args = ''''\<rparr>"

definition ask_config :: build_config where
  "ask_config = \<lparr>project_root = ''/proj'', build_type = ''Release'', compiler = Some ''gcc'',
                  build_system = Some ''Ninja'', platform = ''linux'', build_tests = False,
                  use_conan = False, clean = False, interactive = True, cmake_args = []\<rparr>"

definition asked_state :: state where
  "asked_state = (linux_state [])\<lparr>prompts := [BuildTypePrompt, CompilerPrompt,
                                              YesNoPrompt ''Build tests?'']\<rparr>"

text \<open>
  The Linux machine with nothing on the search path, a non-interactive command line that
  names \<^verbatim>\<open>gcc\<close>, and the configuration it resolves to.
\<close>

definition bare_world :: world where
  "bare_world = linux_world\<lparr>which := (\<lambda>f p c. False)\<rparr>"

definition gcc_args :: args where
  "gcc_args = auto_args\<lparr>arg_compiler := Some ''gcc''\<rparr>"

definition makefiles_config :: build_config where
  "makefiles_config = \<lparr>project_root = ''/proj'', build_type = ''Release'', compiler = Some ''gcc'',
       build_system = Some ''Unix Makefiles'', platform = ''linux'', build_tests = False,
       use_conan = False, clean = False, interactive = False, cmake_args = []\<rparr>"

text \<open>
  The Linux machine with \<^verbatim>\<open>conan\<close> on the search path as well, where every program exits
  with 0 and \<^verbatim>\<open>conan install\<close> leaves \<^verbatim>\<open>conan_toolchain.cmake\<close> in the folder named
  after \<^verbatim>\<open>--output-folder\<close>; and a non-interactive command line that names \<^verbatim>\<open>gcc\<close> and
  the platform \<^verbatim>\<open>macos\<close>.
\<close>

definition conan_program :: "invocation \<Rightarrow> env \<Rightarrow> filesystem \<Rightarrow> completed" where
  "conan_program call e f =
     \<lparr>launched = True, returncode = 0, stdout = [],
      files_after = (if take 2 (argv call) = [''conan'', ''install''] \<and> 5 \<le> length (argv call)
                     then f(pjoin (argv call ! 4) ''conan_toolchain.cmake'' := True)
                     else f)\<rparr>"

definition conan_world :: world where
  "conan_world = linux_world\<lparr>which := (\<lambda>f p c. c \<in> set [''g++'', ''ninja'', ''conan'']),
                             spawn := conan_program\<rparr>"

definition macos_args :: args where
  "macos_args = gcc_args\<lparr>arg_platform := Some ''macos''\<rparr>"

text \<open>
  The Linux machine with \<^verbatim>\<open>make\<close> and \<^verbatim>\<open>conan\<close> on the search path as well, so that
  the build system menu and the Conan question are shown; its state with given answers
  left and given prompts shown; and the configuration resolved from the answers \<^verbatim>\<open>1\<close>
  (Debug), empty (the first compiler) and \<^verbatim>\<open>n\<close>, with a given build system.
\<close>

definition menu_world :: world where
  "menu_world = linux_world\<lparr>which := (\<lambda>f p c. c \<in> set [''g++'', ''ninja'', ''make'', ''conan''])\<rparr>"

definition menu_state :: "response list \<Rightarrow> prompt list \<Rightarrow> state" where
  "menu_state rs ps = (linux_state rs)\<lparr>prompts := ps\<rparr>"

definition menu_config :: "string option \<Rightarrow> build_config" where
  "menu_config bs = \<lparr>project_root = ''/proj'', build_type = ''Debug'', compiler = Some ''gcc'',
                      build_system = bs, platform = ''linux'', build_tests = False,
                      use_conan = False, clean = False, interactive = True, cmake_args = []\<rparr>"



section \<open>What each step leaves unchanged\<close>

lemma subprocess_run_frame:
  assumes "subprocess_run w call s = (r, s')"
  shows "environ s' = environ s" "stdin s' = stdin s" "prompts s' = prompts s"
    "printed s' = printed s" "trace s' = trace s @ [call]"
  using assms by (auto simp: subprocess_run_def Let_def split: if_splits)

lemma print_diag_frame:
  "environ (print_diag d s) = environ s" "stdin (print_diag d s) = stdin s"
  "prompts (print_diag d s) = prompts s" "files (print_diag d s) = files s"
  "trace (print_diag d s) = trace s" "printed (print_diag d s) = printed s @ [d]"
  by (simp_all add: print_diag_def)

lemma environ_only_refl: "environ_only s s"
  by (simp add: environ_only_def)

lemma environ_only_trans: "environ_only s s1 \<Longrightarrow> environ_only s1 s2 \<Longrightarrow> environ_only s s2"
  by (simp add: environ_only_def)

lemma environ_only_update: "environ_only s (s\<lparr>environ := e\<rparr>)"
  by (simp add: environ_only_def)

lemma try_clang_dirs_frame:
  "try_clang_dirs w ds s = (r, s') \<Longrightarrow> environ_only s s'"
proof (induction ds arbitrary: s)
  case Nil
  then show ?case by (simp add: environ_only_refl)
next
  case (Cons d ds)
  show ?case
  proof (cases "files s (pjoin d ''clang-cl.exe'')")
    case False
    with Cons.prems have "try_clang_dirs w ds s = (r, s')" by simp
    then show ?thesis by (rule Cons.IH)
  next
    case True
    note here = True
    show ?thesis
    proof (cases "environ s ''PATH''")
      case None
      with here Cons.prems show ?thesis by (simp add: environ_only_refl)
    next
      case (Some old)
      define s1 where "s1 = s\<lparr>environ := (environ s)(''PATH'' \<mapsto> d @ '';'' @ old)\<rparr>"
      have e1: "environ_only s s1" unfolding s1_def by (rule environ_only_update)
      show ?thesis
      proof (cases "check_command w s1 ''clang-cl''")
        case True
        with here Some Cons.prems have "s' = s1" by (simp add: Let_def s1_def)
        with e1 show ?thesis by simp
      next
        case False
        with here Some Cons.prems have "try_clang_dirs w ds s1 = (r, s')"
          by (simp add: Let_def s1_def)
        then have "environ_only s1 s'" by (rule Cons.IH)
        with e1 show ?thesis by (rule environ_only_trans)
      qed
    qed
  qed
qed

lemma try_vs_paths_frame:
  "try_vs_paths w ps s = (r, s') \<Longrightarrow> environ_only s s'"
proof (induction ps arbitrary: s)
  case Nil
  then show ?case by (simp add: environ_only_refl)
next
  case (Cons p ps)
  show ?case
  proof (cases "files s p")
    case False
    with Cons.prems have "try_vs_paths w ps s = (r, s')" by simp
    then show ?thesis by (rule Cons.IH)
  next
    case True
    note here = True
    obtain r1 s1 where t: "try_clang_dirs w (clang_dirs_of_vs p) s = (r1, s1)"
      by (cases "try_clang_dirs w (clang_dirs_of_vs p) s")
    then have f1: "environ_only s s1" by (rule try_clang_dirs_frame)
    show ?thesis
    proof (cases "r1 = Inr False")
      case True
      with here t Cons.prems have "try_vs_paths w ps s1 = (r, s')" by simp
      then have "environ_only s1 s'" by (rule Cons.IH)
      with f1 show ?thesis by (rule environ_only_trans)
    next
      case False
      with here t Cons.prems have "s' = s1"
        by (auto split: sum.splits bool.splits)
      with f1 show ?thesis by simp
    qed
  qed
qed

lemma setup_clang_cl_path_frame:
  assumes "setup_clang_cl_path w s = (r, s')"
  shows "files s' = files s" "stdin s' = stdin s" "trace s' = trace s" "prompts s' = prompts s"
    "printed s' = printed s \<or> printed s' = printed s @ [WarnClangClNotFound]"
proof -
  obtain r1 s1 where a: "try_vs_paths w common_paths s = (r1, s1)"
    by (cases "try_vs_paths w common_paths s")
  then have f1: "environ_only s s1" by (rule try_vs_paths_frame)
  obtain r2 s2 where b: "try_clang_dirs w llvm_paths s1 = (r2, s2)"
    by (cases "try_clang_dirs w llvm_paths s1")
  then have "environ_only s1 s2" by (rule try_clang_dirs_frame)
  with f1 have f2: "environ_only s s2" by (rule environ_only_trans)
  from assms a b
  have "s' = s \<or> s' = s1 \<or> s' = s2 \<or> s' = print_diag WarnClangClNotFound s2"
    by (auto simp: setup_clang_cl_path_def split: sum.splits bool.splits if_splits)
  with f1 f2
  show "files s' = files s" "stdin s' = stdin s" "trace s' = trace s" "prompts s' = prompts s"
    "printed s' = printed s \<or> printed s' = printed s @ [WarnClangClNotFound]"
    by (auto simp: environ_only_def print_diag_def)
qed

lemma setup_compiler_frame:
  assumes "setup_compiler w cid s = (r, s')"
  shows "files s' = files s" "stdin s' = stdin s" "trace s' = trace s" "prompts s' = prompts s"
    "printed s' = printed s \<or> printed s' = printed s @ [WarnClangClNotFound]"
proof -
  obtain r1 s1 where a: "setup_clang_cl_path w s = (r1, s1)"
    by (cases "setup_clang_cl_path w s")
  from assms a have "s' = s \<or> s' = s1"
    by (auto simp: setup_compiler_def split: sum.splits if_splits)
  with setup_clang_cl_path_frame [OF a]
  show "files s' = files s" "stdin s' = stdin s" "trace s' = trace s" "prompts s' = prompts s"
    "printed s' = printed s \<or> printed s' = printed s @ [WarnClangClNotFound]"
    by auto
qed

lemma setup_compiler_value:
  "setup_compiler w cid s = (Inr cargs, s') \<Longrightarrow> cargs = compiler_defines cid"
  by (auto simp: setup_compiler_def compiler_defines_def split: if_splits sum.splits prod.splits)

lemma mkdir_parents_frame:
  "environ (mkdir_parents d s) = environ s" "stdin (mkdir_parents d s) = stdin s"
  "prompts (mkdir_parents d s) = prompts s" "trace (mkdir_parents d s) = trace s"
  "printed (mkdir_parents d s) = printed s"
  by (simp_all add: mkdir_parents_def)

lemma mkdir_parents_below: "files (mkdir_parents d s) (pjoin d x) = files s (pjoin d x)"
proof -
  have "\<not> prefix (pjoin d x @ ''/'') d"
    by (auto simp: pjoin_def dest: prefix_length_le)
  moreover have "pjoin d x \<noteq> d" by (simp add: pjoin_def)
  ultimately show ?thesis by (simp add: mkdir_parents_def)
qed

lemma find_vs_path_frame:
  assumes "find_vs_path w s = (r, s')"
  shows "environ s' = environ s" "stdin s' = stdin s" "prompts s' = prompts s"
    "printed s' = printed s"
    "trace s' = trace s \<or> (\<exists>p. trace s' = trace s @ [vswhere_query p])"
proof -
  obtain p where p: "p = (let vswhere_path0 = vswhere_in (environ_get s ''ProgramFiles(x86)'' program_files_x86_default);
          fallback_vswhere = vswhere_in (environ_get s ''ProgramFiles'' program_files_default)
      in (if \<not> files s vswhere_path0 \<and> files s fallback_vswhere
                          then fallback_vswhere else vswhere_path0))" by simp
  obtain r1 s1 where a: "subprocess_run w (vswhere_query p) s = (r1, s1)"
    by (cases "subprocess_run w (vswhere_query p) s")
  from assms a p have "s' = s \<or> s' = s1"
    by (auto simp: find_vs_path_def Let_def split: if_splits sum.splits)
  with subprocess_run_frame [OF a]
  show "environ s' = environ s" "stdin s' = stdin s" "prompts s' = prompts s"
    "printed s' = printed s"
    "trace s' = trace s \<or> (\<exists>p. trace s' = trace s @ [vswhere_query p])"
    by auto
qed

lemma setup_msvc_environment_frame:
  assumes "setup_msvc_environment w s = (r, s')"
  shows "environ s' = environ s" "stdin s' = stdin s" "prompts s' = prompts s"
    "\<exists>ds. printed s' = printed s @ ds \<and> (\<forall>d\<in>set ds. is_msvc_warning d)"
    "\<exists>qs. trace s' = trace s @ qs
        \<and> (\<forall>c\<in>set qs. (\<exists>p. c = vswhere_query p) \<or> (\<exists>p. c = vcvars_call p))"
proof -
  obtain r1 s1 where a: "find_vs_path w s = (r1, s1)" by (cases "find_vs_path w s")
  note f1 = find_vs_path_frame [OF a]
  obtain vs where vs: "vs = (case r1 of Inr v \<Rightarrow> v | Inl _ \<Rightarrow> [])" by simp
  obtain r2 s2 where b: "subprocess_run w (vcvars_call (vcvarsall_of vs)) s1 = (r2, s2)"
    by (cases "subprocess_run w (vcvars_call (vcvarsall_of vs)) s1")
  note f2 = subprocess_run_frame [OF b]
  from assms a b vs
  have cases: "s' = s \<or> s' = s1 \<or> s' = print_diag WarnVisualStudioNotFound s1
      \<or> s' = print_diag (WarnVcvarsNotFound (vcvarsall_of vs)) s1
      \<or> s' = s2 \<or> (\<exists>n. s' = print_diag (WarnMsvcEnvFailed n) s2)"
    by (auto simp: setup_msvc_environment_def Let_def split: if_splits sum.splits)
  with f1 f2 show "environ s' = environ s" "stdin s' = stdin s" "prompts s' = prompts s"
    by (auto simp: print_diag_frame)
  from cases f1 f2
  have "printed s' = printed s \<or> (\<exists>d. is_msvc_warning d \<and> printed s' = printed s @ [d])"
    by (auto simp: print_diag_frame is_msvc_warning_def)
  then show "\<exists>ds. printed s' = printed s @ ds \<and> (\<forall>d\<in>set ds. is_msvc_warning d)"
  proof
    assume "printed s' = printed s"
    then have "printed s' = printed s @ [] \<and> (\<forall>d\<in>set []. is_msvc_warning d)" by simp
    then show ?thesis by blast
  next
    assume "\<exists>d. is_msvc_warning d \<and> printed s' = printed s @ [d]"
    then obtain d where "is_msvc_warning d" "printed s' = printed s @ [d]" by blast
    then have "printed s' = printed s @ [d] \<and> (\<forall>x\<in>set [d]. is_msvc_warning x)" by simp
    then show ?thesis by blast
  qed
  from f1(5) obtain q1 where q1: "trace s1 = trace s @ q1"
      "\<forall>c\<in>set q1. (\<exists>p. c = vswhere_query p) \<or> (\<exists>p. c = vcvars_call p)"
  proof
    assume "trace s1 = trace s"
    then have "trace s1 = trace s @ []" by simp
    then show ?thesis using that [of "[]"] by simp
  next
    assume "\<exists>p. trace s1 = trace s @ [vswhere_query p]"
    then obtain p where "trace s1 = trace s @ [vswhere_query p]" by blast
    then show ?thesis using that [of "[vswhere_query p]"] by auto
  qed
  from cases have "trace s' = trace s \<or> trace s' = trace s1 \<or> trace s' = trace s2"
    by (auto simp: print_diag_frame)
  then consider "trace s' = trace s" | "trace s' = trace s1" | "trace s' = trace s2" by blast
  then show "\<exists>qs. trace s' = trace s @ qs
        \<and> (\<forall>c\<in>set qs. (\<exists>p. c = vswhere_query p) \<or> (\<exists>p. c = vcvars_call p))"
  proof cases
    case 1
    then have "trace s' = trace s @ []" by simp
    then show ?thesis by (intro exI [of _ "[]"]) simp
  next
    case 2
    with q1 show ?thesis by auto
  next
    case 3
    with q1 f2(5) have "trace s' = trace s @ (q1 @ [vcvars_call (vcvarsall_of vs)])" by simp
    moreover from q1(2)
    have "\<forall>c\<in>set (q1 @ [vcvars_call (vcvarsall_of vs)]).
            (\<exists>p. c = vswhere_query p) \<or> (\<exists>p. c = vcvars_call p)"
      by auto
    ultimately show ?thesis by blast
  qed
qed

lemma configure_env_frame:
  assumes "configure_env w config s = (r, s')"
  shows "environ s' = environ s" "stdin s' = stdin s" "prompts s' = prompts s"
    "\<exists>ds. printed s' = printed s @ ds \<and> (\<forall>d\<in>set ds. is_msvc_warning d)"
    "\<exists>qs. trace s' = trace s @ qs
        \<and> (\<forall>c\<in>set qs. (\<exists>p. c = vswhere_query p) \<or> (\<exists>p. c = vcvars_call p))"
proof -
  have "setup_msvc_environment w s = (r, s') \<or> s' = s"
    using assms by (auto simp: configure_env_def split: if_splits)
  then show "environ s' = environ s" "stdin s' = stdin s" "prompts s' = prompts s"
    "\<exists>ds. printed s' = printed s @ ds \<and> (\<forall>d\<in>set ds. is_msvc_warning d)"
    "\<exists>qs. trace s' = trace s @ qs
        \<and> (\<forall>c\<in>set qs. (\<exists>p. c = vswhere_query p) \<or> (\<exists>p. c = vcvars_call p))"
    using setup_msvc_environment_frame [of w s r s'] by auto
qed

lemma count_msvc_warnings:
  "\<forall>d\<in>set ds. is_msvc_warning d \<Longrightarrow> count_list ds WarnConanToolchainNotFound = 0"
  by (induction ds) (auto simp: is_msvc_warning_def)

lemma menu_loop_member:
  "menu_loop items rs = (Inr (Some x), rest, k, b) \<Longrightarrow> x \<in> fst ` set items"
proof (induction items rs arbitrary: rest k b rule: menu_loop.induct)
  case (4 items l rs)
  show ?case
  proof (cases "strip l = []")
    case True
    with "4.prems" show ?thesis by (auto split: list.splits)
  next
    case False
    note nonempty = False
    show ?thesis
    proof (cases "py_int (strip l)")
      case None
      with nonempty "4.prems" obtain k' b' where "menu_loop items rs = (Inr (Some x), rest, k', b')"
        by (auto simp: Let_def split: prod.splits)
      with "4.IH"(1) [OF refl nonempty None] show ?thesis by blast
    next
      case (Some n)
      show ?thesis
      proof (cases "0 \<le> n - 1 \<and> n - 1 < int (length items)")
        case True
        with nonempty Some "4.prems" have "x = fst (items ! nat (n - 1))"
          by (auto simp: Let_def)
        moreover from True have "nat (n - 1) < length items" by linarith
        ultimately show ?thesis by (metis imageI nth_mem)
      next
        case False
        with nonempty Some "4.prems" obtain k' b' where
          "menu_loop items rs = (Inr (Some x), rest, k', b')"
          by (auto simp: Let_def split: prod.splits)
        with "4.IH"(2) [OF refl nonempty Some False] show ?thesis by blast
      qed
    qed
  qed
qed simp_all

lemma read_menu_member:
  "read_menu p items s = (Inr (Some x), s') \<Longrightarrow> x \<in> fst ` set items"
  by (auto simp: read_menu_def split: prod.splits dest: menu_loop_member)

lemma resolve_steps:
  assumes "resolve w a s = (Inr (Some config), s')"
  obtains bt s1 c s2 bs s3 t s4 u where
    "resolve_build_type a (initial_config w a) s = (bt, s1)"
    "resolve_compiler w a ((initial_config w a)\<lparr>build_type := bt\<rparr>) s1 = (Inr (Some c), s2)"
    "resolve_build_system w a ((initial_config w a)\<lparr>build_type := bt, compiler := Some c\<rparr>) s2
       = (Inr bs, s3)"
    "resolve_tests a ((initial_config w a)\<lparr>build_type := bt, compiler := Some c,
         build_system := bs\<rparr>) s3 = (t, s4)"
    "resolve_conan w a ((initial_config w a)\<lparr>build_type := bt, compiler := Some c,
         build_system := bs\<rparr>) s4 = (u, s')"
    "config = (initial_config w a)\<lparr>build_type := bt, compiler := Some c, build_system := bs,
         build_tests := t, use_conan := u\<rparr>"
  using assms
  by (auto simp: resolve_def Let_def split: prod.splits sum.splits option.splits)

lemma cancelled_yes_no: "cancelled rs \<Longrightarrow> yes_no_loop d rs = (False, tl rs, 1)"
  by (cases rs; cases "hd rs") (auto simp: cancelled_def)

lemma cancelled_build_type: "cancelled rs \<Longrightarrow> build_type_loop rs = (''Release'', tl rs, 1, 0)"
  by (cases rs; cases "hd rs") (auto simp: cancelled_def)

lemma cancelled_menu: "cancelled rs \<Longrightarrow> menu_loop items rs = (Inr None, tl rs, 1, 0)"
  by (cases rs; cases "hd rs") (auto simp: cancelled_def)

lemma ask_yes_no_frame:
  assumes "ask_yes_no q d s = (b, s')"
  shows "environ s' = environ s" "files s' = files s" "trace s' = trace s"
    "printed s' = printed s" "\<exists>k. prompts s' = prompts s @ replicate k (YesNoPrompt q)"
  using assms by (auto simp: ask_yes_no_def split: prod.splits)

lemma select_build_type_interactive_frame:
  assumes "select_build_type_interactive s = (b, s')"
  shows "environ s' = environ s" "files s' = files s" "trace s' = trace s"
    "\<exists>k. prompts s' = prompts s @ replicate k BuildTypePrompt"
  using assms by (auto simp: select_build_type_interactive_def split: prod.splits)

lemma read_menu_frame:
  assumes "read_menu p items s = (r, s')"
  shows "environ s' = environ s" "files s' = files s" "trace s' = trace s"
    "\<exists>k. prompts s' = prompts s @ replicate k p"
  using assms by (auto simp: read_menu_def split: prod.splits)

lemma vswhere_reports_frame:
  assumes "vswhere_reports w s = (r, s')"
  shows "environ s' = environ s" "stdin s' = stdin s" "prompts s' = prompts s"
    "printed s' = printed s"
    "trace s' = trace s \<or> (\<exists>p. trace s' = trace s @ [vswhere_query p])"
proof -
  let ?p = "vswhere_in (environ_get s ''ProgramFiles(x86)'' program_files_x86_default)"
  obtain r1 s1 where a: "subprocess_run w (vswhere_query ?p) s = (r1, s1)"
    by (cases "subprocess_run w (vswhere_query ?p) s")
  from assms a have "s' = s \<or> s' = s1"
    by (auto simp: vswhere_reports_def Let_def split: if_splits sum.splits)
  with subprocess_run_frame [OF a]
  show "environ s' = environ s" "stdin s' = stdin s" "prompts s' = prompts s"
    "printed s' = printed s"
    "trace s' = trace s \<or> (\<exists>p. trace s' = trace s @ [vswhere_query p])"
    by auto
qed

lemma detect_msvc_frame:
  assumes "detect_msvc w s = (r, s')"
  shows "environ s' = environ s" "stdin s' = stdin s" "prompts s' = prompts s"
    "printed s' = printed s"
    "trace s' = trace s \<or> (\<exists>p. trace s' = trace s @ [vswhere_query p])"
proof -
  obtain r1 s1 where a: "vswhere_reports w s = (r1, s1)" by (cases "vswhere_reports w s")
  from assms a have "s' = s \<or> s' = s1"
    by (auto simp: detect_msvc_def split: if_splits sum.splits)
  with vswhere_reports_frame [OF a]
  show "environ s' = environ s" "stdin s' = stdin s" "prompts s' = prompts s"
    "printed s' = printed s"
    "trace s' = trace s \<or> (\<exists>p. trace s' = trace s @ [vswhere_query p])"
    by auto
qed

lemma detect_msbuild_frame:
  assumes "detect_msbuild w s = (r, s')"
  shows "environ s' = environ s" "stdin s' = stdin s" "prompts s' = prompts s"
    "printed s' = printed s"
    "trace s' = trace s \<or> (\<exists>p. trace s' = trace s @ [vswhere_query p])"
proof -
  have "s' = s \<or> vswhere_reports w s = (r, s')"
    using assms by (auto simp: detect_msbuild_def split: if_splits)
  then show "environ s' = environ s" "stdin s' = stdin s" "prompts s' = prompts s"
    "printed s' = printed s"
    "trace s' = trace s \<or> (\<exists>p. trace s' = trace s @ [vswhere_query p])"
    using vswhere_reports_frame [of w s r s'] by auto
qed

lemma detect_clang_frame:
  assumes "detect_clang w s = (r, s')"
  shows "files s' = files s" "stdin s' = stdin s" "trace s' = trace s" "prompts s' = prompts s"
proof -
  have "s' = s \<or> setup_clang_cl_path w s = (r, s')"
    using assms by (auto simp: detect_clang_def split: if_splits)
  then show "files s' = files s" "stdin s' = stdin s" "trace s' = trace s"
    "prompts s' = prompts s"
    using setup_clang_cl_path_frame [of w s r s'] by auto
qed

lemma available_compilers_frame:
  assumes "available_compilers w s = (r, s')"
  shows "stdin s' = stdin s" "prompts s' = prompts s"
    "trace s' = trace s \<or> (\<exists>p. trace s' = trace s @ [vswhere_query p])"
proof -
  obtain r1 s1 where a: "detect_msvc w s = (r1, s1)" by (cases "detect_msvc w s")
  obtain r2 s2 where b: "detect_clang w s1 = (r2, s2)" by (cases "detect_clang w s1")
  obtain r3 s3 where c: "detect_clang w s = (r3, s3)" by (cases "detect_clang w s")
  from assms a b c have "s' = s1 \<or> s' = s2 \<or> s' = s3"
    by (auto simp: available_compilers_def split: if_splits sum.splits prod.splits)
  with detect_msvc_frame [OF a] detect_clang_frame [OF b] detect_clang_frame [OF c]
  show "stdin s' = stdin s" "prompts s' = prompts s"
    "trace s' = trace s \<or> (\<exists>p. trace s' = trace s @ [vswhere_query p])"
    by auto
qed

lemma select_compiler_interactive_frame:
  assumes "select_compiler_interactive w s = (r, s')"
  shows "\<exists>k. prompts s' = prompts s @ replicate k CompilerPrompt"
    "trace s' = trace s \<or> (\<exists>p. trace s' = trace s @ [vswhere_query p])"
proof -
  obtain r1 s1 where a: "available_compilers w s = (r1, s1)"
    by (cases "available_compilers w s")
  obtain cs where cs: "cs = (case r1 of Inr x \<Rightarrow> x | Inl _ \<Rightarrow> [])" by simp
  obtain r2 s2 where b: "read_menu CompilerPrompt cs s1 = (r2, s2)"
    by (cases "read_menu CompilerPrompt cs s1")
  from assms a b cs have "s' = s1 \<or> s' = print_diag ErrNoCompilersFound s1 \<or> s' = s2"
    by (auto simp: select_compiler_interactive_def split: if_splits sum.splits)
  with available_compilers_frame [OF a] read_menu_frame [OF b]
  show "\<exists>k. prompts s' = prompts s @ replicate k CompilerPrompt"
    "trace s' = trace s \<or> (\<exists>p. trace s' = trace s @ [vswhere_query p])"
    by (auto simp: print_diag_frame intro: exI [of _ 0])
qed

lemma auto_detect_compiler_frame:
  assumes "auto_detect_compiler w s = (r, s')"
  shows "prompts s' = prompts s"
    "trace s' = trace s \<or> (\<exists>p. trace s' = trace s @ [vswhere_query p])"
proof -
  obtain r1 s1 where a: "detect_clang w s = (r1, s1)" by (cases "detect_clang w s")
  obtain r2 s2 where b: "detect_msvc w s1 = (r2, s2)" by (cases "detect_msvc w s1")
  from assms a b
  have "s' = s \<or> s' = s1 \<or> s' = print_diag ErrNoCompilerFound s1 \<or> s' = s2
      \<or> s' = print_diag ErrNoCompilerFound s2"
    by (auto simp: auto_detect_compiler_def
        split: if_splits sum.splits bool.splits option.splits)
  with detect_clang_frame [OF a] detect_msvc_frame [OF b]
  show "prompts s' = prompts s"
    "trace s' = trace s \<or> (\<exists>p. trace s' = trace s @ [vswhere_query p])"
    by (auto simp: print_diag_frame)
qed

lemma available_build_systems_frame:
  assumes "available_build_systems w cid s = (r, s')"
  shows "environ s' = environ s" "stdin s' = stdin s" "prompts s' = prompts s"
proof -
  obtain r1 s1 where a: "detect_msbuild w s = (r1, s1)" by (cases "detect_msbuild w s")
  from assms a have "s' = s \<or> s' = s1"
    by (auto simp: available_build_systems_def Let_def split: if_splits sum.splits)
  with detect_msbuild_frame [OF a]
  show "environ s' = environ s" "stdin s' = stdin s" "prompts s' = prompts s" by auto
qed

lemma select_build_system_interactive_frame:
  assumes "select_build_system_interactive w cid s = (r, s')"
  shows "\<exists>k. prompts s' = prompts s @ replicate k BuildSystemPrompt"
proof -
  obtain r1 s1 where a: "available_build_systems w cid s = (r1, s1)"
    by (cases "available_build_systems w cid s")
  obtain xs where xs: "xs = (case r1 of Inr x \<Rightarrow> x | Inl _ \<Rightarrow> [])" by simp
  obtain r2 s2 where b: "read_menu BuildSystemPrompt xs s1 = (r2, s2)"
    by (cases "read_menu BuildSystemPrompt xs s1")
  from assms a b xs have "s' = s1 \<or> s' = print_diag WarnNoBuildSystems s1 \<or> s' = s2"
    by (auto simp: select_build_system_interactive_def split: sum.splits list.splits)
  with available_build_systems_frame [OF a] read_menu_frame [OF b]
  show ?thesis by (auto simp: print_diag_frame intro: exI [of _ 0])
qed

lemma ask_use_conan_frame:
  assumes "ask_use_conan w i s = (b, s')"
  shows "\<exists>k. prompts s' = prompts s @ replicate k (YesNoPrompt ''Use Conan for dependencies?'')"
proof -
  have "s' = s \<or> ask_yes_no ''Use Conan for dependencies?'' False s = (b, s')"
    using assms by (auto simp: ask_use_conan_def split: if_splits)
  then show ?thesis
    using ask_yes_no_frame(5) [of "''Use Conan for dependencies?''" False s b s']
    by (auto intro: exI [of _ 0])
qed

lemma rmtree_frame:
  "environ (rmtree d s) = environ s" "stdin (rmtree d s) = stdin s"
  "prompts (rmtree d s) = prompts s" "trace (rmtree d s) = trace s"
  "printed (rmtree d s) = printed s"
  by (simp_all add: rmtree_def)

lemma conan_profile_frame:
  assumes "conan_profile w config s = (r, s')"
  shows "environ s' = environ s" "stdin s' = stdin s" "prompts s' = prompts s"
proof -
  obtain r1 s1 where a: "subprocess_run w gcc_version_call s = (r1, s1)"
    by (cases "subprocess_run w gcc_version_call s")
  from assms a have "s' = s \<or> s' = s1"
    by (auto simp: conan_profile_def Let_def split: if_splits sum.splits)
  with subprocess_run_frame [OF a]
  show "environ s' = environ s" "stdin s' = stdin s" "prompts s' = prompts s" by auto
qed

lemma setup_conan_frame:
  assumes "setup_conan w config s = (r, s')"
  shows "environ s' = environ s" "stdin s' = stdin s" "prompts s' = prompts s"
proof -
  let ?s1 = "mkdir_parents (get_build_dir config) s"
  obtain pr s2 where a: "conan_profile w config ?s1 = (pr, s2)"
    by (cases "conan_profile w config ?s1")
  let ?call = "\<lparr>argv = conan_install_cmd config pr, shell = False,
                 cwd = Some (project_root config), child_env = None\<rparr>"
  obtain r3 s3 where b: "subprocess_run w ?call s2 = (r3, s3)"
    by (cases "subprocess_run w ?call s2")
  from assms a b
  have "s' = print_diag ErrConanNotFound s \<or> s' = s3 \<or> s' = print_diag ErrConanInstallFailed s3"
    by (auto simp: setup_conan_def Let_def split: if_splits sum.splits)
  with conan_profile_frame [OF a] subprocess_run_frame [OF b]
  show "environ s' = environ s" "stdin s' = stdin s" "prompts s' = prompts s"
    by (auto simp: print_diag_frame mkdir_parents_frame)
qed

lemma configure_frame:
  assumes "configure w config s = (r, s')"
  shows "stdin s' = stdin s" "prompts s' = prompts s"
proof -
  let ?s1 = "mkdir_parents (get_build_dir config) s"
  obtain r2 s2 where a: "setup_compiler w (compiler config) ?s1 = (r2, s2)"
    by (cases "setup_compiler w (compiler config) ?s1")
  obtain s3 where s3: "s3 = (if use_conan config \<and> find_conan_toolchain config s2 = None
                        then print_diag WarnConanToolchainNotFound s2 else s2)" by simp
  obtain r4 s4 where b: "configure_env w config s3 = (r4, s4)"
    by (cases "configure_env w config s3")
  obtain cargs where cargs: "cargs = (case r2 of Inr x \<Rightarrow> x | Inl _ \<Rightarrow> [])" by simp
  obtain env where env: "env = (case r4 of Inr x \<Rightarrow> x | Inl _ \<Rightarrow> Map.empty)" by simp
  let ?call = "\<lparr>argv = cmake_cmd config cargs s2, shell = False,
                 cwd = Some (project_root config), child_env = Some env\<rparr>"
  obtain r5 s5 where c: "subprocess_run w ?call s4 = (r5, s5)"
    by (cases "subprocess_run w ?call s4")
  from assms a b c s3 cargs env
  have "s' = s2 \<or> s' = s4 \<or> s' = s5 \<or> s' = print_diag ErrCMakeConfigureFailed s5"
    by (auto simp: configure_def Let_def split: if_splits sum.splits)
  moreover have "stdin s3 = stdin s2" "prompts s3 = prompts s2"
    by (simp_all add: s3 print_diag_frame)
  ultimately show "stdin s' = stdin s" "prompts s' = prompts s"
    using setup_compiler_frame [OF a] configure_env_frame [OF b] subprocess_run_frame [OF c]
    by (auto simp: print_diag_frame mkdir_parents_frame)
qed

lemma build_steps_frame:
  assumes "build_steps w config s = (r, s')"
  shows "stdin s' = stdin s" "prompts s' = prompts s"
proof -
  obtain s1 where s1: "s1 = (if clean config \<and> files s (get_build_dir config)
                then rmtree (get_build_dir config) s else s)" by simp
  obtain r2 s2 where a: "setup_conan w config s1 = (r2, s2)" by (cases "setup_conan w config s1")
  obtain r3 s3 where b: "configure w config s2 = (r3, s3)" by (cases "configure w config s2")
  obtain r4 s4 where c: "configure w config s1 = (r4, s4)" by (cases "configure w config s1")
  from assms s1 a b c have "s' = s2 \<or> s' = s3 \<or> s' = s4"
    by (auto simp: build_steps_def Let_def split: if_splits sum.splits bool.splits)
  moreover have "stdin s1 = stdin s" "prompts s1 = prompts s"
    by (simp_all add: s1 rmtree_frame)
  ultimately show "stdin s' = stdin s" "prompts s' = prompts s"
    using setup_conan_frame [OF a] configure_frame [OF b] configure_frame [OF c] by auto
qed

lemma cancelled_select_build_type:
  "cancelled (stdin s) \<Longrightarrow>
     select_build_type_interactive s
       = (''Release'', s\<lparr>stdin := tl (stdin s), prompts := prompts s @ [BuildTypePrompt]\<rparr>)"
  by (simp add: select_build_type_interactive_def cancelled_build_type)

lemma cancelled_ask_yes_no:
  "cancelled (stdin s) \<Longrightarrow>
     ask_yes_no q d s
       = (False, s\<lparr>stdin := tl (stdin s), prompts := prompts s @ [YesNoPrompt q]\<rparr>)"
  by (simp add: ask_yes_no_def cancelled_yes_no)

lemma cancelled_read_menu:
  "cancelled (stdin s) \<Longrightarrow>
     read_menu p items s = (Inr None, s\<lparr>stdin := tl (stdin s), prompts := prompts s @ [p]\<rparr>)"
  by (simp add: read_menu_def cancelled_menu)

lemma linux_world_fields:
  "system linux_world = ''Linux''" "script_root linux_world = ''/proj''"
  "which linux_world f p c = (c = ''g++'' \<or> c = ''ninja'')"
  "spawn linux_world = ok_program"
  by (auto simp: linux_world_def)

lemma linux_check: "check_command linux_world s c = (c = ''g++'' \<or> c = ''ninja'')"
  by (simp add: check_command_def linux_world_fields)

lemma linux_available: "available_compilers linux_world s = (Inr [(''gcc'', ''GCC'')], s)"
  by (simp add: available_compilers_def detect_clang_def detect_gcc_def linux_check
      linux_world_fields)

lemma ask_initial:
  "initial_config linux_world ask_args
     = \<lparr>project_root = ''/proj'', build_type = ''Release'', compiler = None,
        build_system = None, platform = ''linux'', build_tests = False, use_conan = False,
        clean = False, interactive = True, cmake_args = []\<rparr>"
  by (simp add: initial_config_def new_build_config_def ask_args_def given_def
      get_platform_name_def linux_world_fields)

lemma ask_given:
  "given (arg_type ask_args) = None" "given (arg_compiler ask_args) = None"
  "given (arg_build_system ask_args) = None" "arg_build_tests ask_args = None"
  "arg_use_conan ask_args = None" "\<not> arg_no_interactive ask_args"
  by (simp_all add: ask_args_def given_def)

section \<open>The MSVC environment\<close>



lemma ex_system: "system msvc_world = ''Windows''"
  by (simp add: msvc_world_def)











section \<open>Build types and build directories\<close>

lemma lower_relwithdebinfo: "lower ''RelWithDebInfo'' = ''relwithdebinfo''"
  by (simp add: lower_def lower_char_def)

text \<open>
  C5 at the build type \<^verbatim>\<open>RelWithDebInfo\<close>. The install command of install\_deps.py asks
  for \<^verbatim>\<open>RelWithDebInfo\<close> artifacts: its build type mapping is the identity. The install
  command of \<^verbatim>\<open>setup_conan\<close> in configure.py asks for \<^verbatim>\<open>Release\<close> artifacts, and the CMake
  command still carries \<^verbatim>\<open>-DCMAKE_BUILD_TYPE=RelWithDebInfo\<close>.
\<close>

theorem install_deps_relwithdebinfo_not_remapped:
  "deps_conan_install_cmd w ''RelWithDebInfo''
     = [''conan'', ''install'', deps_root w, ''--output-folder'',
        deps_get_build_dir w ''RelWithDebInfo'', ''--build=missing'',
        ''-s:h=build_type=RelWithDebInfo'']
   \<and> conan_install_cmd (config\<lparr>build_type := ''RelWithDebInfo''\<rparr>) profile
       = [''conan'', ''install'', project_root config, ''--output-folder'',
          get_build_dir (config\<lparr>build_type := ''RelWithDebInfo''\<rparr>), ''--build=missing'',
          ''--build=!qt/*'', ''--profile='' @ profile, ''-s:h=build_type=Release'']
   \<and> ''-DCMAKE_BUILD_TYPE=RelWithDebInfo''
       \<in> set (cmake_cmd (config\<lparr>build_type := ''RelWithDebInfo''\<rparr>) compiler_args s)"
  by (simp add: deps_conan_install_cmd_def deps_conan_build_type_def conan_install_cmd_def
      conan_build_type_def cmake_cmd_def lower_relwithdebinfo)

section \<open>The configure command\<close>

lemma configure_steps:
  assumes "configure w config s = (Inr ok, s')"
  obtains cargs s2 s3 env s4 r s5 where
    "setup_compiler w (compiler config) (mkdir_parents (get_build_dir config) s) = (Inr cargs, s2)"
    "s3 = (if use_conan config \<and> find_conan_toolchain config s2 = None
           then print_diag WarnConanToolchainNotFound s2 else s2)"
    "configure_env w config s3 = (Inr env, s4)"
    "subprocess_run w \<lparr>argv = cmake_cmd config cargs s2, shell = False,
         cwd = Some (project_root config), child_env = Some env\<rparr> s4 = (Inr r, s5)"
    "s' = s5 \<or> s' = print_diag ErrCMakeConfigureFailed s5"
  using assms
  by (auto simp: configure_def Let_def split: prod.splits sum.splits if_splits)

lemma lower_release: "lower ''Release'' = ''release''"
  by (simp add: lower_def lower_char_def)

lemma gcc_config_fields:
  "project_root (gcc_config c) = ''/proj''" "build_type (gcc_config c) = ''Release''"
  "compiler (gcc_config c) = Some ''gcc''" "build_system (gcc_config c) = Some ''Ninja''"
  "platform (gcc_config c) = ''linux''" "build_tests (gcc_config c) = False"
  "use_conan (gcc_config c) = c" "cmake_args (gcc_config c) = [''-DX=1'']"
  by (simp_all add: gcc_config_def)

lemma linux_state_fields:
  "files (linux_state rs) p = False" "trace (linux_state rs) = []"
  "printed (linux_state rs) = []" "stdin (linux_state rs) = rs"
  "prompts (linux_state rs) = []" "environ (linux_state rs) = [''PATH'' \<mapsto> ''/usr/bin'']"
  by (simp_all add: linux_state_def)

lemma gcc_build_dir: "get_build_dir (gcc_config c) = ''/proj/build/release/linux''"
  by (simp add: get_build_dir_def gcc_config_fields pjoin_def lower_release)

lemma gcc_toolchain_path:
  "toolchain_path (gcc_config c) = ''/proj/build/release/linux/conan_toolchain.cmake''"
  by (simp add: toolchain_path_def gcc_build_dir pjoin_def)

lemma linux_configure:
  "fst (configure linux_world (gcc_config c) (linux_state [])) = Inr True"
  "printed (snd (configure linux_world (gcc_config c) (linux_state [])))
     = (if c then [WarnConanToolchainNotFound] else [])"
  by (simp_all add: configure_def setup_compiler_def configure_env_def subprocess_run_def
      find_conan_toolchain_def gcc_build_dir gcc_config_fields linux_state_fields
      mkdir_parents_def print_diag_def Let_def linux_world_def ok_program_def pjoin_def)

text \<open>
  C7, as the code has it. Whenever \<^verbatim>\<open>configure\<close> gets as far as running CMake, the command
  is \<^verbatim>\<open>cmake\<close>, the generator flag (absent when no generator is resolved), the compiler
  overrides, the build type, the test flag, the Conan part, the trailing arguments as they
  are, and \<^verbatim>\<open>-S\<close> and \<^verbatim>\<open>-B\<close> with the project and build directories. The Conan part
  depends on \<^verbatim>\<open>use_conan\<close> first: when it is set, the toolchain define and
  \<^verbatim>\<open>-DCLIENT_USE_CONAN=ON\<close> are present if the toolchain file exists, and otherwise they are
  omitted and the warning is printed once; when it is not set, the part is
  \<^verbatim>\<open>-DCLIENT_USE_CONAN=OFF\<close> and no warning is printed, whether the file exists or not.
\<close>

theorem configure_command_layout:
  assumes "configure w config s = (Inr ok, s')"
  shows "\<exists>env. last (trace s') =
      \<lparr>argv = [''cmake'']
           @ (case build_system config of
                None \<Rightarrow> []
              | Some g \<Rightarrow> if g = [] then [] else [''-G'', g])
           @ map define_flag (compiler_defines (compiler config))
           @ [''-DCMAKE_BUILD_TYPE='' @ build_type config,
              ''-DCLIENT_BUILD_TESTS='' @ (if build_tests config then ''ON'' else ''OFF'')]
           @ (if use_conan config
              then (if files s (toolchain_path config)
                    then [''-DCMAKE_TOOLCHAIN_FILE='' @ toolchain_path config,
                          ''-DCLIENT_USE_CONAN=ON'']
                    else [])
              else [''-DCLIENT_USE_CONAN=OFF''])
           @ cmake_args config
           @ [''-S'', project_root config, ''-B'', get_build_dir config],
        shell = False, cwd = Some (project_root config), child_env = Some env\<rparr>
    \<and> count_list (printed s') WarnConanToolchainNotFound
        = count_list (printed s) WarnConanToolchainNotFound
          + (if use_conan config \<and> \<not> files s (toolchain_path config) then 1 else 0)"
proof -
  from assms obtain cargs s2 s3 env s4 r s5 where
    sc: "setup_compiler w (compiler config) (mkdir_parents (get_build_dir config) s) = (Inr cargs, s2)"
    and s3: "s3 = (if use_conan config \<and> find_conan_toolchain config s2 = None
           then print_diag WarnConanToolchainNotFound s2 else s2)"
    and ce: "configure_env w config s3 = (Inr env, s4)"
    and sp: "subprocess_run w \<lparr>argv = cmake_cmd config cargs s2, shell = False,
         cwd = Some (project_root config), child_env = Some env\<rparr> s4 = (Inr r, s5)"
    and fin: "s' = s5 \<or> s' = print_diag ErrCMakeConfigureFailed s5"
    by (rule configure_steps)
  note f2 = setup_compiler_frame [OF sc]
  have cargs: "cargs = compiler_defines (compiler config)"
    using sc by (rule setup_compiler_value)
  have tc: "files s2 (toolchain_path config) = files s (toolchain_path config)"
    using f2(1) by (simp add: toolchain_path_def mkdir_parents_below)
  have found: "find_conan_toolchain config s2
      = (if files s (toolchain_path config) then Some (toolchain_path config) else None)"
    using tc by (simp add: find_conan_toolchain_def toolchain_path_def Let_def)
  have "trace s' = trace s5" using fin by (auto simp: print_diag_frame)
  then have "last (trace s') = \<lparr>argv = cmake_cmd config cargs s2, shell = False,
         cwd = Some (project_root config), child_env = Some env\<rparr>"
    using subprocess_run_frame(5) [OF sp] by simp
  moreover have "cmake_cmd config cargs s2 = [''cmake'']
           @ (case build_system config of
                None \<Rightarrow> []
              | Some g \<Rightarrow> if g = [] then [] else [''-G'', g])
           @ map define_flag (compiler_defines (compiler config))
           @ [''-DCMAKE_BUILD_TYPE='' @ build_type config,
              ''-DCLIENT_BUILD_TESTS='' @ (if build_tests config then ''ON'' else ''OFF'')]
           @ (if use_conan config
              then (if files s (toolchain_path config)
                    then [''-DCMAKE_TOOLCHAIN_FILE='' @ toolchain_path config,
                          ''-DCLIENT_USE_CONAN=ON'']
                    else [])
              else [''-DCLIENT_USE_CONAN=OFF''])
           @ cmake_args config
           @ [''-S'', project_root config, ''-B'', get_build_dir config]"
    by (simp add: cmake_cmd_def conan_flags_def found cargs setup_build_system_def)
  moreover have "count_list (printed s') WarnConanToolchainNotFound
        = count_list (printed s) WarnConanToolchainNotFound
          + (if use_conan config \<and> \<not> files s (toolchain_path config) then 1 else 0)"
  proof -
    have a: "count_list (printed s2) WarnConanToolchainNotFound
        = count_list (printed s) WarnConanToolchainNotFound"
      using f2(5) by (auto simp: mkdir_parents_frame)
    have b: "count_list (printed s3) WarnConanToolchainNotFound
        = count_list (printed s2) WarnConanToolchainNotFound
          + (if use_conan config \<and> \<not> files s (toolchain_path config) then 1 else 0)"
      by (simp add: s3 found print_diag_frame)
    from configure_env_frame(4) [OF ce] obtain ds where
      "printed s4 = printed s3 @ ds" "\<forall>d\<in>set ds. is_msvc_warning d" by blast
    then have c: "count_list (printed s4) WarnConanToolchainNotFound
        = count_list (printed s3) WarnConanToolchainNotFound"
      by (simp add: count_msvc_warnings)
    have d: "count_list (printed s') WarnConanToolchainNotFound
        = count_list (printed s4) WarnConanToolchainNotFound"
      using fin subprocess_run_frame(4) [OF sp] by (auto simp: print_diag_frame)
    from a b c d show ?thesis by simp
  qed
  ultimately show ?thesis by simp
qed

theorem configure_command_layout_witness:
  "fst (configure linux_world (gcc_config True) (linux_state [])) = Inr True
   \<and> argv (last (trace (snd (configure linux_world (gcc_config True) (linux_state [])))))
       = [''cmake'', ''-G'', ''Ninja'', ''-DCMAKE_C_COMPILER=gcc'', ''-DCMAKE_CXX_COMPILER=g++'',
          ''-DCMAKE_BUILD_TYPE=Release'', ''-DCLIENT_BUILD_TESTS=OFF'', ''-DX=1'',
          ''-S'', ''/proj'', ''-B'', ''/proj/build/release/linux'']
   \<and> count_list (printed (snd (configure linux_world (gcc_config True) (linux_state []))))
        WarnConanToolchainNotFound = 1"
proof -
  let ?r = "configure linux_world (gcc_config True) (linux_state [])"
  have ev: "?r = (Inr True, snd ?r)"
    using linux_configure(1) [of True] by (simp add: prod_eq_iff)
  from configure_command_layout [OF ev]
  have "argv (last (trace (snd ?r)))
       = [''cmake'', ''-G'', ''Ninja'', ''-DCMAKE_C_COMPILER=gcc'', ''-DCMAKE_CXX_COMPILER=g++'',
          ''-DCMAKE_BUILD_TYPE=Release'', ''-DCLIENT_BUILD_TESTS=OFF'', ''-DX=1'',
          ''-S'', ''/proj'', ''-B'', ''/proj/build/release/linux'']
     \<and> count_list (printed (snd ?r)) WarnConanToolchainNotFound = 1"
    by (auto simp: gcc_build_dir gcc_toolchain_path gcc_config_fields linux_state_fields
        compiler_defines_def define_flag_def)
  with linux_configure(1) [of True] show ?thesis by simp
qed

text \<open>
  C7 as stated promises the warning whenever the toolchain file is missing. With
  \<^verbatim>\<open>use_conan\<close> off and no toolchain file on disk, CMake is run and nothing is printed.
\<close>

theorem configure_warning_counterexample:
  "\<not> use_conan (gcc_config False)
   \<and> \<not> files (linux_state []) (toolchain_path (gcc_config False))
   \<and> fst (configure linux_world (gcc_config False) (linux_state [])) = Inr True
   \<and> printed (snd (configure linux_world (gcc_config False) (linux_state []))) = []"
  using linux_configure [of False] by (simp add: gcc_config_fields linux_state_fields)

section \<open>The build directory\<close>

lemma setup_conan_steps:
  assumes "setup_conan w config s = (Inr True, s')"
  obtains profile s2 r where
    "conan_profile w config (mkdir_parents (get_build_dir config) s) = (profile, s2)"
    "subprocess_run w \<lparr>argv = conan_install_cmd config profile, shell = False,
         cwd = Some (project_root config), child_env = None\<rparr> s2 = (Inr r, s')"
    "returncode r = 0"
  using assms
  by (auto simp: setup_conan_def Let_def split: prod.splits sum.splits if_splits)

lemma setup_conan_call:
  assumes "setup_conan w config s = (Inr True, s')"
  shows "take 5 (argv (last (trace s')))
           = [''conan'', ''install'', project_root config, ''--output-folder'', get_build_dir config]"
proof -
  from assms obtain profile s2 r where
    sp: "subprocess_run w \<lparr>argv = conan_install_cmd config profile, shell = False,
         cwd = Some (project_root config), child_env = None\<rparr> s2 = (Inr r, s')"
    by (rule setup_conan_steps)
  from subprocess_run_frame(5) [OF sp] show ?thesis
    by (simp add: conan_install_cmd_def)
qed

lemma configure_call:
  assumes "configure w config s = (Inr ok, s')"
  shows "argv (last (trace s')) = cmake_cmd config (compiler_defines (compiler config)) s"
    and "count_list (printed s') WarnConanToolchainNotFound
        = count_list (printed s) WarnConanToolchainNotFound
          + (if use_conan config \<and> find_conan_toolchain config s = None then 1 else 0)"
proof -
  from assms obtain cargs s2 s3 env s4 r s5 where
    sc: "setup_compiler w (compiler config) (mkdir_parents (get_build_dir config) s) = (Inr cargs, s2)"
    and s3: "s3 = (if use_conan config \<and> find_conan_toolchain config s2 = None
           then print_diag WarnConanToolchainNotFound s2 else s2)"
    and ce: "configure_env w config s3 = (Inr env, s4)"
    and sp: "subprocess_run w \<lparr>argv = cmake_cmd config cargs s2, shell = False,
         cwd = Some (project_root config), child_env = Some env\<rparr> s4 = (Inr r, s5)"
    and fin: "s' = s5 \<or> s' = print_diag ErrCMakeConfigureFailed s5"
    by (rule configure_steps)
  note f2 = setup_compiler_frame [OF sc]
  have cargs: "cargs = compiler_defines (compiler config)"
    using sc by (rule setup_compiler_value)
  have "files s2 (pjoin (get_build_dir config) ''conan_toolchain.cmake'')
      = files s (pjoin (get_build_dir config) ''conan_toolchain.cmake'')"
    using f2(1) by (simp add: mkdir_parents_below)
  then have found: "find_conan_toolchain config s2 = find_conan_toolchain config s"
    by (simp add: find_conan_toolchain_def Let_def)
  have "trace s' = trace s5" using fin by (auto simp: print_diag_frame)
  then have "argv (last (trace s')) = cmake_cmd config cargs s2"
    using subprocess_run_frame(5) [OF sp] by simp
  then show "argv (last (trace s')) = cmake_cmd config (compiler_defines (compiler config)) s"
    by (simp add: cmake_cmd_def conan_flags_def found cargs)
  have a: "count_list (printed s2) WarnConanToolchainNotFound
      = count_list (printed s) WarnConanToolchainNotFound"
    using f2(5) by (auto simp: mkdir_parents_frame)
  have b: "count_list (printed s3) WarnConanToolchainNotFound
      = count_list (printed s2) WarnConanToolchainNotFound
        + (if use_conan config \<and> find_conan_toolchain config s = None then 1 else 0)"
    by (simp add: s3 found print_diag_frame)
  from configure_env_frame(4) [OF ce] obtain ds where
    "printed s4 = printed s3 @ ds" "\<forall>d\<in>set ds. is_msvc_warning d" by blast
  then have c: "count_list (printed s4) WarnConanToolchainNotFound
      = count_list (printed s3) WarnConanToolchainNotFound"
    by (simp add: count_msvc_warnings)
  have d: "count_list (printed s') WarnConanToolchainNotFound
      = count_list (printed s4) WarnConanToolchainNotFound"
    using fin subprocess_run_frame(4) [OF sp] by (auto simp: print_diag_frame)
  from a b c d show "count_list (printed s') WarnConanToolchainNotFound
        = count_list (printed s) WarnConanToolchainNotFound
          + (if use_conan config \<and> find_conan_toolchain config s = None then 1 else 0)"
    by simp
qed

lemma install_conan_dependencies_call:
  assumes "install_conan_dependencies w bt s = (Inr ok, s')"
  shows "take 5 (argv (last (trace s')))
           = [''conan'', ''install'', deps_root w, ''--output-folder'', deps_get_build_dir w bt]"
proof -
  let ?s1 = "mkdir_parents (deps_get_build_dir w bt) s"
  obtain r2 s2 where a: "(if system w = ''Windows'' then fst (deps_setup_msvc_environment w None ?s1)
                else (Inr (environ ?s1), ?s1)) = (r2, s2)"
    by (cases "(if system w = ''Windows'' then fst (deps_setup_msvc_environment w None ?s1)
                else (Inr (environ ?s1), ?s1))")
  obtain env where env: "env = (case r2 of Inr x \<Rightarrow> x | Inl _ \<Rightarrow> Map.empty)" by simp
  let ?call = "\<lparr>argv = deps_conan_install_cmd w bt, shell = False,
                 cwd = Some (deps_root w), child_env = Some env\<rparr>"
  obtain r3 s3 where b: "subprocess_run w ?call s2 = (r3, s3)"
    by (cases "subprocess_run w ?call s2")
  from assms a b env have "trace s' = trace s3"
    unfolding install_conan_dependencies_def Let_def
    by (auto simp: print_diag_frame split: sum.splits if_splits)
  with subprocess_run_frame(5) [OF b] show ?thesis
    by (simp add: deps_conan_install_cmd_def)
qed

lemma fifth_of_take:
  assumes "take 5 xs = [a, b, c, d, e]"
  shows "xs ! 4 = e"
proof -
  have "take 5 xs ! 4 = xs ! 4" by simp
  then show ?thesis unfolding assms by simp
qed

lemma configure_build_dir_last:
  assumes "configure w config s = (Inr ok, s')"
  shows "\<exists>front. argv (last (trace s'))
           = front @ [''-S'', project_root config, ''-B'', get_build_dir config]"
proof -
  have "\<exists>front. cmake_cmd config (compiler_defines (compiler config)) s
           = front @ [''-S'', project_root config, ''-B'', get_build_dir config]"
    unfolding cmake_cmd_def by (metis append.assoc)
  then show ?thesis by (simp only: configure_call(1) [OF assms])
qed

lemma build_steps_conan:
  assumes "setup_conan w config
          (if clean config \<and> files s (get_build_dir config)
           then rmtree (get_build_dir config) s else s) = (Inr True, s1)"
    and "use_conan config" and "configure w config s1 = (Inr ok, s2)"
  shows "build_steps w config s = (Inr (if ok then 0 else 1), s2)"
proof -
  define s0 where "s0 = (if clean config \<and> files s (get_build_dir config)
           then rmtree (get_build_dir config) s else s)"
  have a: "setup_conan w config s0 = (Inr True, s1)" using assms(1) by (simp only: s0_def)
  have "build_steps w config s
      = (case (if use_conan config then setup_conan w config s0 else (Inr True, s0)) of
            (Inl e, s2) \<Rightarrow> (Inl e, s2)
          | (Inr False, s2) \<Rightarrow> (Inr 1, s2)
          | (Inr True, s2) \<Rightarrow>
              (case configure w config s2 of
                 (Inl e, s3) \<Rightarrow> (Inl e, s3)
               | (Inr False, s3) \<Rightarrow> (Inr 1, s3)
               | (Inr True, s3) \<Rightarrow> (Inr 0, s3)))"
    by (simp only: build_steps_def Let_def s0_def)
  then show ?thesis using assms(2,3) by (simp add: a)
qed

lemma configure_toolchain_last:
  assumes conf: "configure w config s1 = (Inr ok, s2)" and conan: "use_conan config"
    and there: "files s1 (pjoin (get_build_dir config) ''conan_toolchain.cmake'')"
  shows "\<exists>front. argv (last (trace s2))
           = front
             @ [''-DCMAKE_TOOLCHAIN_FILE='' @ pjoin (get_build_dir config) ''conan_toolchain.cmake'',
                ''-DCLIENT_USE_CONAN=ON'']
             @ cmake_args config
             @ [''-S'', project_root config, ''-B'', get_build_dir config]"
    and "count_list (printed s2) WarnConanToolchainNotFound
           = count_list (printed s1) WarnConanToolchainNotFound"
proof -
  have found: "find_conan_toolchain config s1
      = Some (pjoin (get_build_dir config) ''conan_toolchain.cmake'')"
    using there by (simp add: find_conan_toolchain_def Let_def)
  have flags: "conan_flags config s1
      = [''-DCMAKE_TOOLCHAIN_FILE='' @ pjoin (get_build_dir config) ''conan_toolchain.cmake'',
         ''-DCLIENT_USE_CONAN=ON'']"
    using conan by (simp only: conan_flags_def found if_True option.case)
  have "\<exists>front. cmake_cmd config (compiler_defines (compiler config)) s1
           = front @ conan_flags config s1 @ cmake_args config
             @ [''-S'', project_root config, ''-B'', get_build_dir config]"
    unfolding cmake_cmd_def by (metis append.assoc)
  then show "\<exists>front. argv (last (trace s2))
           = front
             @ [''-DCMAKE_TOOLCHAIN_FILE='' @ pjoin (get_build_dir config) ''conan_toolchain.cmake'',
                ''-DCLIENT_USE_CONAN=ON'']
             @ cmake_args config
             @ [''-S'', project_root config, ''-B'', get_build_dir config]"
    by (simp only: configure_call(1) [OF conf] flags)
  show "count_list (printed s2) WarnConanToolchainNotFound
           = count_list (printed s1) WarnConanToolchainNotFound"
    using configure_call(2) [OF conf] by (simp add: found)
qed

lemma deps_build_dir_same:
  assumes "deps_root w = project_root config" "lower bt = lower (build_type config)"
    "get_platform_name (system w) = platform config"
  shows "deps_get_build_dir w bt = get_build_dir config"
  using assms by (simp add: deps_get_build_dir_def get_build_dir_def)

lemma conan_world_fields:
  "system conan_world = ''Linux''" "script_root conan_world = ''/proj''"
  "deps_root conan_world = ''/proj''" "spawn conan_world = conan_program"
  by (simp_all add: conan_world_def linux_world_def)

lemma conan_check:
  "check_command conan_world s c = (c = ''g++'' \<or> c = ''ninja'' \<or> c = ''conan'')"
  by (simp add: check_command_def conan_world_def)

lemma conan_setup:
  "fst (setup_conan conan_world (gcc_config c) (linux_state [])) = Inr True"
  "files (snd (setup_conan conan_world (gcc_config c) (linux_state [])))
     ''/proj/build/release/linux/conan_toolchain.cmake''"
  "argv (last (trace (snd (setup_conan conan_world (gcc_config c) (linux_state [])))))
     = [''conan'', ''install'', ''/proj'', ''--output-folder'', ''/proj/build/release/linux'',
        ''--build=missing'', ''--build=!qt/*'', ''--profile=default'',
        ''-s:h=build_type=Release'']"
  by (simp_all add: setup_conan_def conan_check conan_profile_def subprocess_run_def
      conan_install_cmd_def conan_build_type_def lower_release gcc_build_dir gcc_config_fields
      linux_state_fields mkdir_parents_def Let_def conan_world_fields conan_program_def pjoin_def)

lemma conan_configure:
  "fst (configure conan_world (gcc_config True)
          (snd (setup_conan conan_world (gcc_config True) (linux_state [])))) = Inr True"
  by (simp add: configure_def setup_compiler_def configure_env_def subprocess_run_def
      find_conan_toolchain_def
      setup_conan_def conan_check conan_profile_def
      conan_install_cmd_def conan_build_type_def lower_release gcc_build_dir gcc_config_fields
      linux_state_fields mkdir_parents_def Let_def conan_world_fields conan_program_def pjoin_def
      print_diag_def)

lemma conan_install_deps:
  "fst (install_conan_dependencies conan_world ''Release'' (linux_state [])) = Inr True"
  "files (snd (install_conan_dependencies conan_world ''Release'' (linux_state [])))
     ''/proj/build/release/linux/conan_toolchain.cmake''"
  "argv (last (trace (snd (install_conan_dependencies conan_world ''Release'' (linux_state [])))))
     = [''conan'', ''install'', ''/proj'', ''--output-folder'', ''/proj/build/release/linux'',
        ''--build=missing'', ''-s:h=build_type=Release'']"
  by (simp_all add: install_conan_dependencies_def deps_get_build_dir_def
      deps_conan_install_cmd_def deps_conan_build_type_def get_platform_name_def
      subprocess_run_def lower_release linux_state_fields mkdir_parents_def Let_def
      conan_world_fields conan_program_def pjoin_def)

lemma macos_config:
  "get_build_dir (initial_config conan_world macos_args) = ''/proj/build/release/macos''"
  "build_type (initial_config conan_world macos_args) = ''Release''"
  by (simp_all add: get_build_dir_def initial_config_def new_build_config_def macos_args_def
      gcc_args_def auto_args_def given_def conan_world_fields pjoin_def lower_release)

text \<open>
  C10, as the code has it. In configure.py the build directory of a configuration is
  \<^verbatim>\<open>project_root/build/<lowercased build type>/<platform>\<close>, for every build type and
  platform: it is the directory in which \<^verbatim>\<open>find_conan_toolchain\<close> looks, the directory
  after \<^verbatim>\<open>-B\<close> in every CMake call, and the \<^verbatim>\<open>--output-folder\<close> of every successful Conan
  install. So in a run with Conan, if the install has left \<^verbatim>\<open>conan_toolchain.cmake\<close> in
  its output folder, the configure step that follows passes that file to CMake and prints
  no warning. The install of install\_deps.py is given
  \<^verbatim>\<open>deps_root/build/<lowercased build type>/<detected platform>\<close>; this is the directory
  configure.py searches when the two scripts find the same project directory and
  configure.py runs for the same build type and the detected platform.
\<close>

theorem build_dir_shared:
  "get_build_dir config
     = pjoin (pjoin (pjoin (project_root config) ''build'') (lower (build_type config)))
         (platform config)
   \<and> find_conan_toolchain config s
       = (if files s (pjoin (get_build_dir config) ''conan_toolchain.cmake'')
          then Some (pjoin (get_build_dir config) ''conan_toolchain.cmake'') else None)
   \<and> (configure w config s = (Inr ok, s') \<longrightarrow>
        (\<exists>front. argv (last (trace s'))
           = front @ [''-S'', project_root config, ''-B'', get_build_dir config]))
   \<and> (setup_conan w config
          (if clean config \<and> files s (get_build_dir config)
           then rmtree (get_build_dir config) s else s) = (Inr True, s1) \<longrightarrow>
        take 5 (argv (last (trace s1)))
          = [''conan'', ''install'', project_root config, ''--output-folder'', get_build_dir config]
        \<and> (use_conan config \<longrightarrow> configure w config s1 = (Inr ok, s2) \<longrightarrow>
             build_steps w config s = (Inr (if ok then 0 else 1), s2)
             \<and> (files s1 (pjoin (argv (last (trace s1)) ! 4) ''conan_toolchain.cmake'') \<longrightarrow>
                  (\<exists>front. argv (last (trace s2))
                     = front
                       @ [''-DCMAKE_TOOLCHAIN_FILE=''
                            @ pjoin (argv (last (trace s1)) ! 4) ''conan_toolchain.cmake'',
                          ''-DCLIENT_USE_CONAN=ON'']
                       @ cmake_args config
                       @ [''-S'', project_root config, ''-B'', argv (last (trace s1)) ! 4])
                  \<and> count_list (printed s2) WarnConanToolchainNotFound
                      = count_list (printed s1) WarnConanToolchainNotFound)))
   \<and> (install_conan_dependencies w bt s = (Inr ok, s') \<longrightarrow>
        take 5 (argv (last (trace s')))
          = [''conan'', ''install'', deps_root w, ''--output-folder'',
             pjoin (pjoin (pjoin (deps_root w) ''build'') (lower bt))
               (get_platform_name (system w))]
        \<and> (deps_root w = project_root config \<longrightarrow> lower bt = lower (build_type config) \<longrightarrow>
             get_platform_name (system w) = platform config \<longrightarrow>
             argv (last (trace s')) ! 4 = get_build_dir config
             \<and> (files s' (pjoin (argv (last (trace s')) ! 4) ''conan_toolchain.cmake'') \<longrightarrow>
                  find_conan_toolchain config s'
                    = Some (pjoin (get_build_dir config) ''conan_toolchain.cmake''))))"
proof (intro conjI impI)
  show "get_build_dir config
     = pjoin (pjoin (pjoin (project_root config) ''build'') (lower (build_type config)))
         (platform config)"
    by (simp add: get_build_dir_def)
next
  show "find_conan_toolchain config s
       = (if files s (pjoin (get_build_dir config) ''conan_toolchain.cmake'')
          then Some (pjoin (get_build_dir config) ''conan_toolchain.cmake'') else None)"
    by (simp add: find_conan_toolchain_def Let_def)
next
  assume "configure w config s = (Inr ok, s')"
  then show "\<exists>front. argv (last (trace s'))
           = front @ [''-S'', project_root config, ''-B'', get_build_dir config]"
    by (rule configure_build_dir_last)
next
  assume "setup_conan w config
          (if clean config \<and> files s (get_build_dir config)
           then rmtree (get_build_dir config) s else s) = (Inr True, s1)"
  then show "take 5 (argv (last (trace s1)))
          = [''conan'', ''install'', project_root config, ''--output-folder'', get_build_dir config]"
    by (rule setup_conan_call)
next
  assume "setup_conan w config
          (if clean config \<and> files s (get_build_dir config)
           then rmtree (get_build_dir config) s else s) = (Inr True, s1)"
    and "use_conan config" and "configure w config s1 = (Inr ok, s2)"
  then show "build_steps w config s = (Inr (if ok then 0 else 1), s2)"
    by (rule build_steps_conan)
next
  assume inst: "setup_conan w config
          (if clean config \<and> files s (get_build_dir config)
           then rmtree (get_build_dir config) s else s) = (Inr True, s1)"
    and conan: "use_conan config" and conf: "configure w config s1 = (Inr ok, s2)"
    and there: "files s1 (pjoin (argv (last (trace s1)) ! 4) ''conan_toolchain.cmake'')"
  have out: "argv (last (trace s1)) ! 4 = get_build_dir config"
    using setup_conan_call [OF inst] by (rule fifth_of_take)
  from there have there': "files s1 (pjoin (get_build_dir config) ''conan_toolchain.cmake'')"
    by (simp only: out)
  from configure_toolchain_last(1) [OF conf conan there']
  show "\<exists>front. argv (last (trace s2))
                     = front
                       @ [''-DCMAKE_TOOLCHAIN_FILE=''
                            @ pjoin (argv (last (trace s1)) ! 4) ''conan_toolchain.cmake'',
                          ''-DCLIENT_USE_CONAN=ON'']
                       @ cmake_args config
                       @ [''-S'', project_root config, ''-B'', argv (last (trace s1)) ! 4]"
    by (simp only: out)
  from configure_toolchain_last(2) [OF conf conan there']
  show "count_list (printed s2) WarnConanToolchainNotFound
                      = count_list (printed s1) WarnConanToolchainNotFound" .
next
  assume "install_conan_dependencies w bt s = (Inr ok, s')"
  from install_conan_dependencies_call [OF this]
  show "take 5 (argv (last (trace s')))
          = [''conan'', ''install'', deps_root w, ''--output-folder'',
             pjoin (pjoin (pjoin (deps_root w) ''build'') (lower bt))
               (get_platform_name (system w))]"
    by (simp only: deps_get_build_dir_def)
next
  assume run: "install_conan_dependencies w bt s = (Inr ok, s')"
    and same: "deps_root w = project_root config" "lower bt = lower (build_type config)"
      "get_platform_name (system w) = platform config"
  have "argv (last (trace s')) ! 4 = deps_get_build_dir w bt"
    using install_conan_dependencies_call [OF run] by (rule fifth_of_take)
  then show "argv (last (trace s')) ! 4 = get_build_dir config"
    by (simp only: deps_build_dir_same [OF same])
next
  assume run: "install_conan_dependencies w bt s = (Inr ok, s')"
    and same: "deps_root w = project_root config" "lower bt = lower (build_type config)"
      "get_platform_name (system w) = platform config"
    and there: "files s' (pjoin (argv (last (trace s')) ! 4) ''conan_toolchain.cmake'')"
  have "argv (last (trace s')) ! 4 = deps_get_build_dir w bt"
    using install_conan_dependencies_call [OF run] by (rule fifth_of_take)
  then have "argv (last (trace s')) ! 4 = get_build_dir config"
    by (simp only: deps_build_dir_same [OF same])
  with there show "find_conan_toolchain config s'
                    = Some (pjoin (get_build_dir config) ''conan_toolchain.cmake'')"
    by (simp add: find_conan_toolchain_def Let_def)
qed

theorem build_dir_shared_witness:
  "use_conan (gcc_config True)
   \<and> fst (setup_conan conan_world (gcc_config True) (linux_state [])) = Inr True
   \<and> take 5 (argv (last (trace (snd (setup_conan conan_world (gcc_config True) (linux_state []))))))
       = [''conan'', ''install'', ''/proj'', ''--output-folder'', ''/proj/build/release/linux'']
   \<and> files (snd (setup_conan conan_world (gcc_config True) (linux_state [])))
        ''/proj/build/release/linux/conan_toolchain.cmake''
   \<and> fst (build_steps conan_world (gcc_config True) (linux_state [])) = Inr 0
   \<and> (\<exists>front. argv (last (trace (snd (build_steps conan_world (gcc_config True) (linux_state [])))))
         = front @ [''-DCMAKE_TOOLCHAIN_FILE=/proj/build/release/linux/conan_toolchain.cmake'',
                    ''-DCLIENT_USE_CONAN=ON'', ''-DX=1'',
                    ''-S'', ''/proj'', ''-B'', ''/proj/build/release/linux''])
   \<and> fst (install_conan_dependencies conan_world ''Release'' (linux_state [])) = Inr True
   \<and> take 5 (argv (last (trace (snd (install_conan_dependencies conan_world ''Release''
                                        (linux_state []))))))
       = [''conan'', ''install'', ''/proj'', ''--output-folder'', ''/proj/build/release/linux'']
   \<and> find_conan_toolchain (gcc_config True)
        (snd (install_conan_dependencies conan_world ''Release'' (linux_state [])))
       = Some ''/proj/build/release/linux/conan_toolchain.cmake''"
proof -
  let ?c = "gcc_config True"
  let ?s = "linux_state []"
  let ?s1 = "snd (setup_conan conan_world ?c ?s)"
  let ?s2 = "snd (configure conan_world ?c ?s1)"
  let ?d = "snd (install_conan_dependencies conan_world ''Release'' ?s)"
  have noclean: "\<not> clean ?c" by (simp add: gcc_config_def)
  have inst: "setup_conan conan_world ?c
      (if clean ?c \<and> files ?s (get_build_dir ?c) then rmtree (get_build_dir ?c) ?s else ?s)
      = (Inr True, ?s1)"
    using conan_setup(1) [of True] noclean by (simp add: prod_eq_iff)
  have conf: "configure conan_world ?c ?s1 = (Inr True, ?s2)"
    using conan_configure by (simp add: prod_eq_iff)
  have deps: "install_conan_dependencies conan_world ''Release'' ?s = (Inr True, ?d)"
    using conan_install_deps(1) by (simp add: prod_eq_iff)
  have out: "argv (last (trace ?s1)) ! 4 = ''/proj/build/release/linux''"
    by (simp add: conan_setup(3))
  have dout: "argv (last (trace ?d)) ! 4 = ''/proj/build/release/linux''"
    by (simp add: conan_install_deps(3))
  have there: "files ?s1 (pjoin (argv (last (trace ?s1)) ! 4) ''conan_toolchain.cmake'')"
    using conan_setup(2) [of True] by (simp add: out pjoin_def)
  have dthere: "files ?d (pjoin (argv (last (trace ?d)) ! 4) ''conan_toolchain.cmake'')"
    using conan_install_deps(2) by (simp add: dout pjoin_def)
  have same: "deps_root conan_world = project_root ?c" "lower ''Release'' = lower (build_type ?c)"
    "get_platform_name (system conan_world) = platform ?c"
    by (simp_all add: conan_world_fields gcc_config_fields get_platform_name_def)
  have conan: "use_conan ?c" by (simp add: gcc_config_fields)
  note inst_thm = build_dir_shared [of ?c ?s conan_world True ?d ?s1 ?s2 "''Release''"]
  from inst_thm inst conf conan there
  have a: "build_steps conan_world ?c ?s = (Inr 0, ?s2)"
    and b: "\<exists>front. argv (last (trace ?s2))
                     = front
                       @ [''-DCMAKE_TOOLCHAIN_FILE=''
                            @ pjoin (argv (last (trace ?s1)) ! 4) ''conan_toolchain.cmake'',
                          ''-DCLIENT_USE_CONAN=ON'']
                       @ cmake_args ?c
                       @ [''-S'', project_root ?c, ''-B'', argv (last (trace ?s1)) ! 4]"
    and c: "take 5 (argv (last (trace ?s1)))
          = [''conan'', ''install'', project_root ?c, ''--output-folder'', get_build_dir ?c]"
    by simp_all
  from inst_thm deps same dthere
  have d: "take 5 (argv (last (trace ?d)))
          = [''conan'', ''install'', deps_root conan_world, ''--output-folder'',
             pjoin (pjoin (pjoin (deps_root conan_world) ''build'') (lower ''Release''))
               (get_platform_name (system conan_world))]"
    and e: "find_conan_toolchain ?c ?d = Some (pjoin (get_build_dir ?c) ''conan_toolchain.cmake'')"
    by simp_all
  have b': "\<exists>front. argv (last (trace (snd (build_steps conan_world ?c ?s))))
         = front @ [''-DCMAKE_TOOLCHAIN_FILE=/proj/build/release/linux/conan_toolchain.cmake'',
                    ''-DCLIENT_USE_CONAN=ON'', ''-DX=1'',
                    ''-S'', ''/proj'', ''-B'', ''/proj/build/release/linux'']"
    using b by (simp add: a out pjoin_def gcc_config_fields)
  have c': "take 5 (argv (last (trace ?s1)))
       = [''conan'', ''install'', ''/proj'', ''--output-folder'', ''/proj/build/release/linux'']"
    using c by (simp add: gcc_config_fields gcc_build_dir)
  have d': "take 5 (argv (last (trace ?d)))
       = [''conan'', ''install'', ''/proj'', ''--output-folder'', ''/proj/build/release/linux'']"
    using d by (simp add: conan_world_fields get_platform_name_def pjoin_def lower_release)
  have e': "find_conan_toolchain ?c ?d = Some ''/proj/build/release/linux/conan_toolchain.cmake''"
    using e by (simp add: gcc_build_dir pjoin_def)
  from conan conan_setup(1) [of True] c' conan_setup(2) [of True] a b' conan_install_deps(1) d' e'
  show ?thesis by simp
qed

text \<open>
  C10 as stated fails across the two scripts. On the Linux machine install\_deps.py
  installs for \<^verbatim>\<open>Release\<close> into \<^verbatim>\<open>/proj/build/release/linux\<close> and the toolchain file is
  written there; configure.py called with \<^verbatim>\<open>--platform macos\<close> for the same build type
  searches \<^verbatim>\<open>/proj/build/release/macos\<close> and finds no toolchain file.
\<close>

theorem platform_override_counterexample:
  "fst (install_conan_dependencies conan_world ''Release'' (linux_state [])) = Inr True
   \<and> argv (last (trace (snd (install_conan_dependencies conan_world ''Release'' (linux_state [])))))
        ! 4 = ''/proj/build/release/linux''
   \<and> files (snd (install_conan_dependencies conan_world ''Release'' (linux_state [])))
        ''/proj/build/release/linux/conan_toolchain.cmake''
   \<and> build_type (initial_config conan_world macos_args) = ''Release''
   \<and> get_build_dir (initial_config conan_world macos_args) = ''/proj/build/release/macos''
   \<and> find_conan_toolchain (initial_config conan_world macos_args)
        (snd (install_conan_dependencies conan_world ''Release'' (linux_state []))) = None"
  by (simp add: conan_install_deps macos_config find_conan_toolchain_def
      install_conan_dependencies_def deps_get_build_dir_def
      deps_conan_install_cmd_def deps_conan_build_type_def get_platform_name_def
      subprocess_run_def lower_release linux_state_fields mkdir_parents_def Let_def
      conan_world_fields conan_program_def pjoin_def)

section \<open>Generators\<close>

lemma available_build_systems_vs:
  assumes "available_build_systems w cid s = (Inr systems, s')"
    and "''Visual Studio 17 2022'' \<in> fst ` set systems"
  shows "is_msvc_class cid"
  using assms
  by (auto simp: available_build_systems_def Let_def split: if_splits prod.splits sum.splits)

lemma select_build_system_vs:
  assumes "select_build_system_interactive w cid s = (Inr (Some ''Visual Studio 17 2022''), s')"
  shows "is_msvc_class cid"
proof -
  obtain r1 s1 where a: "available_build_systems w cid s = (r1, s1)"
    by (cases "available_build_systems w cid s")
  with assms obtain systems where r1: "r1 = Inr systems"
    by (cases r1) (auto simp: select_build_system_interactive_def)
  have "''Visual Studio 17 2022'' \<in> fst ` set systems"
  proof (cases systems)
    case Nil
    with assms a r1 show ?thesis by (simp add: select_build_system_interactive_def)
  next
    case (Cons x xs)
    show ?thesis
    proof (cases xs)
      case Nil
      with Cons assms a r1 show ?thesis by (simp add: select_build_system_interactive_def)
    next
      case (Cons y ys)
      with \<open>systems = x # xs\<close> assms a r1
      have "read_menu BuildSystemPrompt systems s1 = (Inr (Some ''Visual Studio 17 2022''), s')"
        by (simp add: select_build_system_interactive_def)
      then show ?thesis by (rule read_menu_member)
    qed
  qed
  with a r1 show ?thesis using available_build_systems_vs by blast
qed

lemma auto_select_vs:
  "auto_select_build_system w cid s = ''Visual Studio 17 2022'' \<Longrightarrow> is_msvc_class cid"
  by (auto simp: auto_select_build_system_def split: if_splits)

lemma vs_reports: "vswhere_reports msvc_world vs_state = (Inr True, vs_state_after)"
  by (simp add: vswhere_reports_def vs_state_def vs_state_after_def vswhere_files_def
      environ_get_def subprocess_run_def msvc_world_def dump_program_def strip_def is_space_def)

lemma vs_no_tools: "check_command msvc_world s c = False"
  by (simp add: check_command_def msvc_world_def)

lemma vs_available:
  "available_build_systems msvc_world (Some ''msvc'') vs_state
     = (Inr [(''Visual Studio 17 2022'', ''Visual Studio 2022'')], vs_state_after)"
  by (simp add: available_build_systems_def detect_ninja_def detect_make_def detect_msbuild_def
      vs_no_tools ex_system vs_reports is_msvc_class_def)

lemma vs_select:
  "select_build_system_interactive msvc_world (Some ''msvc'') vs_state
     = (Inr (Some ''Visual Studio 17 2022''), vs_state_after)"
  by (simp add: select_build_system_interactive_def vs_available)

lemma vs_auto: "auto_select_build_system msvc_world (Some ''msvc'') vs_state = ''Visual Studio 17 2022''"
  by (simp add: auto_select_build_system_def detect_ninja_def vs_no_tools ex_system is_msvc_class_def)

lemma vs_resolve: "resolve msvc_world msvc_args vs_state = (Inr (Some vs_config), vs_state)"
  by (simp add: resolve_def resolve_build_type_def resolve_compiler_def resolve_build_system_def
      resolve_tests_def resolve_conan_def given_def initial_config_def new_build_config_def
      get_platform_name_def vs_auto msvc_args_def vs_config_def ex_system)
    (simp add: msvc_world_def)

text \<open>
  C4. The Visual Studio generator is the only one the code ties to a compiler. It is in the
  list offered by \<^verbatim>\<open>select_build_system_interactive\<close> only when the compiler is \<^verbatim>\<open>msvc\<close>
  or \<^verbatim>\<open>cl\<close>; it is returned by that function, and by the automatic choice of \<^verbatim>\<open>main\<close>,
  only for those compilers; and a configuration resolved without \<^verbatim>\<open>--build-system\<close> has
  this generator only together with such a compiler.
\<close>

theorem visual_studio_only_with_msvc:
  "(available_build_systems w cid s = (Inr systems, s') \<longrightarrow>
      ''Visual Studio 17 2022'' \<in> fst ` set systems \<longrightarrow> is_msvc_class cid)
   \<and> (select_build_system_interactive w cid s = (Inr (Some ''Visual Studio 17 2022''), s') \<longrightarrow>
        is_msvc_class cid)
   \<and> (auto_select_build_system w cid s = ''Visual Studio 17 2022'' \<longrightarrow> is_msvc_class cid)
   \<and> (given (arg_build_system a) = None \<longrightarrow> resolve w a s = (Inr (Some config), s') \<longrightarrow>
        build_system config = Some ''Visual Studio 17 2022'' \<longrightarrow> is_msvc_class (compiler config))"
proof (intro conjI impI)
  assume g: "given (arg_build_system a) = None"
    and r: "resolve w a s = (Inr (Some config), s')"
    and vs: "build_system config = Some ''Visual Studio 17 2022''"
  from r obtain bt c s2 bs s3 t u where
    rb: "resolve_build_system w a ((initial_config w a)\<lparr>build_type := bt, compiler := Some c\<rparr>) s2
       = (Inr bs, s3)"
    and cfg: "config = (initial_config w a)\<lparr>build_type := bt, compiler := Some c,
         build_system := bs, build_tests := t, use_conan := u\<rparr>"
    by (rule resolve_steps)
  from cfg vs have bs: "bs = Some ''Visual Studio 17 2022''" by simp
  from cfg have c: "compiler config = Some c" by simp
  from rb g bs have "is_msvc_class (Some c)"
    by (auto simp: resolve_build_system_def split: if_splits
        dest: select_build_system_vs auto_select_vs)
  with c show "is_msvc_class (compiler config)" by simp
qed (auto dest: available_build_systems_vs select_build_system_vs auto_select_vs)

theorem visual_studio_only_with_msvc_witness:
  "available_build_systems msvc_world (Some ''msvc'') vs_state
     = (Inr [(''Visual Studio 17 2022'', ''Visual Studio 2022'')], vs_state_after)
   \<and> select_build_system_interactive msvc_world (Some ''msvc'') vs_state
       = (Inr (Some ''Visual Studio 17 2022''), vs_state_after)
   \<and> auto_select_build_system msvc_world (Some ''msvc'') vs_state = ''Visual Studio 17 2022''
   \<and> given (arg_build_system msvc_args) = None
   \<and> resolve msvc_world msvc_args vs_state = (Inr (Some vs_config), vs_state)
   \<and> build_system vs_config = Some ''Visual Studio 17 2022''
   \<and> is_msvc_class (Some ''msvc'')
   \<and> is_msvc_class (compiler vs_config)"
proof -
  have g: "given (arg_build_system msvc_args) = None" by (simp add: given_def msvc_args_def)
  have b: "build_system vs_config = Some ''Visual Studio 17 2022''" by (simp add: vs_config_def)
  from visual_studio_only_with_msvc
         [of msvc_world "Some ''msvc''" vs_state
             "[(''Visual Studio 17 2022'', ''Visual Studio 2022'')]" vs_state_after
             msvc_args vs_config]
    vs_available vs_select vs_auto
  have "is_msvc_class (Some ''msvc'')" by simp
  moreover from visual_studio_only_with_msvc
         [of msvc_world "Some ''msvc''" vs_state _ vs_state msvc_args vs_config] g vs_resolve b
  have "is_msvc_class (compiler vs_config)" by simp
  ultimately show ?thesis using vs_available vs_select vs_auto g vs_resolve b by simp
qed

section \<open>Compiler priority\<close>

lemma win_gcc_system: "system win_gcc_world = ''Windows''"
  by (simp add: win_gcc_world_def msvc_world_def)

lemma win_gcc_check: "check_command win_gcc_world s c = (c = ''g++'')"
  by (simp add: check_command_def win_gcc_world_def)

lemma win_gcc_reports: "vswhere_reports win_gcc_world vs_state = (Inr True, vs_state_after)"
  by (simp add: vswhere_reports_def vs_state_def vs_state_after_def vswhere_files_def
      environ_get_def subprocess_run_def win_gcc_world_def msvc_world_def dump_program_def
      strip_def is_space_def)

lemma vs_state_after_files: "files vs_state_after = vswhere_files"
  by (simp add: vs_state_after_def vs_state_def)

lemma win_gcc_no_clang:
  "setup_clang_cl_path win_gcc_world vs_state_after
     = (Inr False, print_diag WarnClangClNotFound vs_state_after)"
  by (simp add: setup_clang_cl_path_def win_gcc_system win_gcc_check common_paths_def
      llvm_paths_def vs_state_after_files vswhere_files_def vswhere_in_def pjoin_def
      program_files_x86_default_def)

text \<open>The menu of the interactive mode lists the compilers in the priority order.\<close>

lemma available_compilers_order:
  assumes "available_compilers w s = (Inr cs, s')"
  shows "subseq (map fst cs)
           (if system w = ''Windows'' then [''msvc'', ''clang-cl'', ''gcc''] else [''clang'', ''gcc''])"
  using assms
  by (auto simp: available_compilers_def split: prod.splits sum.splits if_splits)

text \<open>
  C2 on a Windows machine where vswhere reports an installation and \<^verbatim>\<open>g++\<close> is on the
  search path. The interactive menu lists MSVC before GCC, so MSVC is the first available
  candidate of the priority order; the non-interactive detection tests GCC first and
  resolves the compiler to \<^verbatim>\<open>gcc\<close>.
\<close>

theorem auto_detect_prefers_gcc:
  "fst (available_compilers win_gcc_world vs_state) = Inr [(''msvc'', ''MSVC''), (''gcc'', ''GCC'')]
   \<and> auto_detect_compiler win_gcc_world vs_state = (Inr (Some ''gcc''), vs_state)
   \<and> resolve_compiler win_gcc_world auto_args (initial_config win_gcc_world auto_args) vs_state
       = (Inr (Some ''gcc''), vs_state)"
  by (simp add: available_compilers_def detect_msvc_def detect_clang_def detect_gcc_def
      win_gcc_system win_gcc_check win_gcc_reports win_gcc_no_clang auto_detect_compiler_def
      resolve_compiler_def given_def auto_args_def initial_config_def)

section \<open>Overrides and prompts\<close>

lemma resolve_build_type_prompts:
  assumes "resolve_build_type a config s = (bt, s')"
  shows "\<exists>k. prompts s' = prompts s @ replicate k BuildTypePrompt
           \<and> (given (arg_type a) \<noteq> None \<longrightarrow> k = 0)"
proof (cases "given (arg_type a)")
  case (Some t)
  with assms have "prompts s' = prompts s @ replicate 0 BuildTypePrompt"
    by (simp add: resolve_build_type_def)
  then show ?thesis by blast
next
  case None
  with assms have "s' = s \<or> select_build_type_interactive s = (bt, s')"
    by (auto simp: resolve_build_type_def split: if_splits)
  with None show ?thesis
    using select_build_type_interactive_frame(4) [of s bt s'] by (auto intro: exI [of _ 0])
qed

lemma resolve_compiler_prompts:
  assumes "resolve_compiler w a config s = (r, s')"
  shows "\<exists>k. prompts s' = prompts s @ replicate k CompilerPrompt
           \<and> (given (arg_compiler a) \<noteq> None \<longrightarrow> k = 0)"
proof (cases "given (arg_compiler a)")
  case (Some t)
  with assms have "prompts s' = prompts s @ replicate 0 CompilerPrompt"
    by (simp add: resolve_compiler_def)
  then show ?thesis by blast
next
  case None
  with assms
  have "select_compiler_interactive w s = (r, s') \<or> auto_detect_compiler w s = (r, s')"
    by (auto simp: resolve_compiler_def split: if_splits)
  with None show ?thesis
    using select_compiler_interactive_frame(1) [of w s r s']
      auto_detect_compiler_frame(1) [of w s r s']
    by (auto intro: exI [of _ 0])
qed

lemma resolve_build_system_prompts:
  assumes "resolve_build_system w a config s = (r, s')"
  shows "\<exists>k. prompts s' = prompts s @ replicate k BuildSystemPrompt
           \<and> (given (arg_build_system a) \<noteq> None \<longrightarrow> k = 0)"
proof (cases "given (arg_build_system a)")
  case (Some t)
  with assms have "prompts s' = prompts s @ replicate 0 BuildSystemPrompt"
    by (simp add: resolve_build_system_def)
  then show ?thesis by blast
next
  case None
  with assms
  have "select_build_system_interactive w (compiler config) s = (r, s') \<or> s' = s"
    by (auto simp: resolve_build_system_def split: if_splits)
  with None show ?thesis
    using select_build_system_interactive_frame [of w "compiler config" s r s']
    by (auto intro: exI [of _ 0])
qed

lemma resolve_tests_prompts:
  assumes "resolve_tests a config s = (t, s')"
  shows "\<exists>k. prompts s' = prompts s @ replicate k (YesNoPrompt ''Build tests?'')
           \<and> (arg_build_tests a \<noteq> None \<longrightarrow> k = 0)"
proof (cases "arg_build_tests a")
  case (Some b)
  with assms have "prompts s' = prompts s @ replicate 0 (YesNoPrompt ''Build tests?'')"
    by (simp add: resolve_tests_def)
  then show ?thesis by blast
next
  case None
  with assms have "s' = s \<or> ask_yes_no ''Build tests?'' False s = (t, s')"
    by (auto simp: resolve_tests_def select_tests_interactive_def split: if_splits)
  with None show ?thesis
    using ask_yes_no_frame(5) [of "''Build tests?''" False s t s'] by (auto intro: exI [of _ 0])
qed

lemma resolve_conan_prompts:
  assumes "resolve_conan w a config s = (u, s')"
  shows "\<exists>k. prompts s' = prompts s @ replicate k (YesNoPrompt ''Use Conan for dependencies?'')
           \<and> (arg_use_conan a \<noteq> None \<longrightarrow> k = 0)"
proof (cases "arg_use_conan a")
  case (Some b)
  with assms
  have "prompts s' = prompts s @ replicate 0 (YesNoPrompt ''Use Conan for dependencies?'')"
    by (simp add: resolve_conan_def)
  then show ?thesis by blast
next
  case None
  with assms have "s' = s \<or> ask_use_conan w (interactive config) s = (u, s')"
    by (auto simp: resolve_conan_def split: if_splits)
  with None show ?thesis
    using ask_use_conan_frame [of w "interactive config" s u s'] by (auto intro: exI [of _ 0])
qed

lemma resolve_prompts:
  assumes "resolve w a s = (r, s')"
  shows "\<exists>k1 k2 k3 k4 k5. prompts s' = prompts s @ prompts_of_run k1 k2 k3 k4 k5
      \<and> (given (arg_type a) \<noteq> None \<longrightarrow> k1 = 0)
      \<and> (given (arg_compiler a) \<noteq> None \<longrightarrow> k2 = 0)
      \<and> (given (arg_build_system a) \<noteq> None \<longrightarrow> k3 = 0)
      \<and> (arg_build_tests a \<noteq> None \<longrightarrow> k4 = 0)
      \<and> (arg_use_conan a \<noteq> None \<longrightarrow> k5 = 0)"
proof -
  let ?c0 = "initial_config w a"
  obtain bt s1 where a1: "resolve_build_type a ?c0 s = (bt, s1)"
    by (cases "resolve_build_type a ?c0 s")
  let ?c1 = "?c0\<lparr>build_type := bt\<rparr>"
  obtain r2 s2 where a2: "resolve_compiler w a ?c1 s1 = (r2, s2)"
    by (cases "resolve_compiler w a ?c1 s1")
  from resolve_build_type_prompts [OF a1] obtain k1 where
    k1: "prompts s1 = prompts s @ replicate k1 BuildTypePrompt"
      "given (arg_type a) \<noteq> None \<longrightarrow> k1 = 0" by blast
  from resolve_compiler_prompts [OF a2] obtain k2 where
    k2: "prompts s2 = prompts s1 @ replicate k2 CompilerPrompt"
      "given (arg_compiler a) \<noteq> None \<longrightarrow> k2 = 0" by blast
  show ?thesis
  proof (cases "\<exists>c. r2 = Inr (Some c)")
    case False
    with assms a1 a2 have "s' = s2"
      by (auto simp: resolve_def Let_def split: sum.splits option.splits)
    with k1 k2 have "prompts s' = prompts s @ prompts_of_run k1 k2 0 0 0"
      by (simp add: prompts_of_run_def)
    with k1(2) k2(2) show ?thesis by blast
  next
    case True
    then obtain c where c: "r2 = Inr (Some c)" by blast
    let ?c2 = "?c1\<lparr>compiler := Some c\<rparr>"
    obtain r3 s3 where a3: "resolve_build_system w a ?c2 s2 = (r3, s3)"
      by (cases "resolve_build_system w a ?c2 s2")
    from resolve_build_system_prompts [OF a3] obtain k3 where
      k3: "prompts s3 = prompts s2 @ replicate k3 BuildSystemPrompt"
        "given (arg_build_system a) \<noteq> None \<longrightarrow> k3 = 0" by blast
    show ?thesis
    proof (cases r3)
      case (Inl e)
      with assms a1 a2 a3 c have "s' = s3" by (simp add: resolve_def Let_def)
      with k1 k2 k3 have "prompts s' = prompts s @ prompts_of_run k1 k2 k3 0 0"
        by (simp add: prompts_of_run_def)
      with k1(2) k2(2) k3(2) show ?thesis by blast
    next
      case (Inr bs)
      let ?c3 = "?c2\<lparr>build_system := bs\<rparr>"
      obtain t s4 where a4: "resolve_tests a ?c3 s3 = (t, s4)"
        by (cases "resolve_tests a ?c3 s3")
      obtain u s5 where a5: "resolve_conan w a ?c3 s4 = (u, s5)"
        by (cases "resolve_conan w a ?c3 s4")
      from resolve_tests_prompts [OF a4] obtain k4 where
        k4: "prompts s4 = prompts s3 @ replicate k4 (YesNoPrompt ''Build tests?'')"
          "arg_build_tests a \<noteq> None \<longrightarrow> k4 = 0" by blast
      from resolve_conan_prompts [OF a5] obtain k5 where
        k5: "prompts s5 = prompts s4 @ replicate k5 (YesNoPrompt ''Use Conan for dependencies?'')"
          "arg_use_conan a \<noteq> None \<longrightarrow> k5 = 0" by blast
      from assms a1 a2 a3 a4 a5 c Inr have "s' = s5" by (simp add: resolve_def Let_def)
      with k1 k2 k3 k4 k5 have "prompts s' = prompts s @ prompts_of_run k1 k2 k3 k4 k5"
        by (simp add: prompts_of_run_def)
      with k1(2) k2(2) k3(2) k4(2) k5(2) show ?thesis by blast
    qed
  qed
qed

lemma main_prompts:
  assumes "main w a s = (r, s')"
  shows "\<exists>k1 k2 k3 k4 k5. prompts s' = prompts s @ prompts_of_run k1 k2 k3 k4 k5
      \<and> (given (arg_type a) \<noteq> None \<longrightarrow> k1 = 0)
      \<and> (given (arg_compiler a) \<noteq> None \<longrightarrow> k2 = 0)
      \<and> (given (arg_build_system a) \<noteq> None \<longrightarrow> k3 = 0)
      \<and> (arg_build_tests a \<noteq> None \<longrightarrow> k4 = 0)
      \<and> (arg_use_conan a \<noteq> None \<longrightarrow> k5 = 0)"
proof -
  obtain r1 s1 where a: "resolve w a s = (r1, s1)" by (cases "resolve w a s")
  obtain config where cfg: "config = (case r1 of Inr (Some c) \<Rightarrow> c | _ \<Rightarrow> initial_config w a)"
    by simp
  obtain r2 s2 where b: "build_steps w config s1 = (r2, s2)"
    by (cases "build_steps w config s1")
  from assms a b cfg have "s' = s1 \<or> s' = s2"
    by (auto simp: main_def split: sum.splits option.splits)
  with build_steps_frame(2) [OF b] have "prompts s' = prompts s1" by auto
  with resolve_prompts [OF a] show ?thesis by simp
qed

lemma full_args_given:
  "given (arg_type full_args) \<noteq> None" "given (arg_compiler full_args) \<noteq> None"
  "given (arg_build_system full_args) \<noteq> None" "arg_build_tests full_args \<noteq> None"
  "arg_use_conan full_args \<noteq> None"
  by (simp_all add: full_args_def given_def)

text \<open>
  C8. In a run of \<^verbatim>\<open>main\<close> that starts with no prompt shown, a field whose override is given
  on the command line is never prompted for: the build type, compiler and build system
  menus and the two yes/no questions (tests, Conan) do not appear among the prompts of the
  run, whether or not \<^verbatim>\<open>--no-interactive\<close> is set.
\<close>

theorem override_suppresses_prompt:
  assumes "main w a s = (r, s')" and "prompts s = []"
  shows "(given (arg_type a) \<noteq> None \<longrightarrow> BuildTypePrompt \<notin> set (prompts s'))
       \<and> (given (arg_compiler a) \<noteq> None \<longrightarrow> CompilerPrompt \<notin> set (prompts s'))
       \<and> (given (arg_build_system a) \<noteq> None \<longrightarrow> BuildSystemPrompt \<notin> set (prompts s'))
       \<and> (arg_build_tests a \<noteq> None \<longrightarrow> YesNoPrompt ''Build tests?'' \<notin> set (prompts s'))
       \<and> (arg_use_conan a \<noteq> None \<longrightarrow>
            YesNoPrompt ''Use Conan for dependencies?'' \<notin> set (prompts s'))"
proof -
  from main_prompts [OF assms(1)] assms(2) obtain k1 k2 k3 k4 k5 where
    p: "prompts s' = prompts_of_run k1 k2 k3 k4 k5"
    and k: "given (arg_type a) \<noteq> None \<longrightarrow> k1 = 0"
      "given (arg_compiler a) \<noteq> None \<longrightarrow> k2 = 0"
      "given (arg_build_system a) \<noteq> None \<longrightarrow> k3 = 0"
      "arg_build_tests a \<noteq> None \<longrightarrow> k4 = 0"
      "arg_use_conan a \<noteq> None \<longrightarrow> k5 = 0"
    by auto
  from k show ?thesis by (auto simp: p prompts_of_run_def)
qed

theorem override_suppresses_prompt_witness:
  "prompts (linux_state [Line ''1'']) = []
   \<and> given (arg_type full_args) \<noteq> None \<and> given (arg_compiler full_args) \<noteq> None
   \<and> given (arg_build_system full_args) \<noteq> None \<and> arg_build_tests full_args \<noteq> None
   \<and> arg_use_conan full_args \<noteq> None
   \<and> \<not> arg_no_interactive full_args
   \<and> BuildTypePrompt \<notin> set (prompts (snd (main linux_world full_args (linux_state [Line ''1'']))))
   \<and> CompilerPrompt \<notin> set (prompts (snd (main linux_world full_args (linux_state [Line ''1'']))))
   \<and> BuildSystemPrompt \<notin> set (prompts (snd (main linux_world full_args (linux_state [Line ''1'']))))
   \<and> YesNoPrompt ''Build tests?''
        \<notin> set (prompts (snd (main linux_world full_args (linux_state [Line ''1'']))))
   \<and> YesNoPrompt ''Use Conan for dependencies?''
        \<notin> set (prompts (snd (main linux_world full_args (linux_state [Line ''1'']))))"
proof -
  let ?s = "linux_state [Line ''1'']"
  have m: "main linux_world full_args ?s
      = (fst (main linux_world full_args ?s), snd (main linux_world full_args ?s))"
    by simp
  have p: "prompts ?s = []" by (simp add: linux_state_fields)
  have i: "\<not> arg_no_interactive full_args" by (simp add: full_args_def)
  from override_suppresses_prompt [OF m p] full_args_given p i show ?thesis by simp
qed

section \<open>Cancelled prompts\<close>

lemma main_steps:
  assumes "resolve_build_type a (initial_config w a) s0 = (bt, s1)"
    and "resolve_compiler w a ((initial_config w a)\<lparr>build_type := bt\<rparr>) s1
           = (Inr (Some cid), s2)"
    and "resolve_build_system w a ((initial_config w a)\<lparr>build_type := bt, compiler := Some cid\<rparr>) s2
           = (Inr bs, s3)"
    and "resolve_tests a ((initial_config w a)\<lparr>build_type := bt, compiler := Some cid,
           build_system := bs\<rparr>) s3 = (t, s4)"
    and "resolve_conan w a ((initial_config w a)\<lparr>build_type := bt, compiler := Some cid,
           build_system := bs\<rparr>) s4 = (u, s5)"
  shows "main w a s0
       = build_steps w ((initial_config w a)\<lparr>build_type := bt, compiler := Some cid,
           build_system := bs, build_tests := t, use_conan := u\<rparr>) s5"
  using assms by (simp add: main_def resolve_def Let_def)

lemma interactive_initial:
  "interactive ((initial_config w a)\<lparr>build_type := bt, compiler := c, build_system := bs\<rparr>)
     = (\<not> arg_no_interactive a)"
  "interactive ((initial_config w a)\<lparr>build_type := bt, compiler := c\<rparr>) = (\<not> arg_no_interactive a)"
  "interactive ((initial_config w a)\<lparr>build_type := bt\<rparr>) = (\<not> arg_no_interactive a)"
  "interactive (initial_config w a) = (\<not> arg_no_interactive a)"
  by (simp_all add: initial_config_def)

lemma main_type_override:
  assumes "given (arg_type a) = None" "\<not> arg_no_interactive a" "cancelled (stdin s)"
  shows "main w a s
       = main w (a\<lparr>arg_type := Some ''Release''\<rparr>)
           (s\<lparr>stdin := tl (stdin s), prompts := prompts s @ [BuildTypePrompt]\<rparr>)"
proof -
  have i: "initial_config w (a\<lparr>arg_type := Some ''Release''\<rparr>) = initial_config w a"
    by (simp add: initial_config_def)
  have a: "resolve_build_type a (initial_config w a) s
      = (''Release'', s\<lparr>stdin := tl (stdin s), prompts := prompts s @ [BuildTypePrompt]\<rparr>)"
    using assms
    by (simp add: resolve_build_type_def interactive_initial cancelled_select_build_type)
  have b: "resolve_build_type (a\<lparr>arg_type := Some ''Release''\<rparr>) c s' = (''Release'', s')" for c s'
    by (simp add: resolve_build_type_def given_def)
  have c: "resolve_compiler w (a\<lparr>arg_type := Some ''Release''\<rparr>) = resolve_compiler w a"
    by (intro ext) (simp add: resolve_compiler_def)
  have d: "resolve_build_system w (a\<lparr>arg_type := Some ''Release''\<rparr>) = resolve_build_system w a"
    by (intro ext) (simp add: resolve_build_system_def)
  have e: "resolve_tests (a\<lparr>arg_type := Some ''Release''\<rparr>) = resolve_tests a"
    by (intro ext) (simp add: resolve_tests_def)
  have f: "resolve_conan w (a\<lparr>arg_type := Some ''Release''\<rparr>) = resolve_conan w a"
    by (intro ext) (simp add: resolve_conan_def)
  have "resolve w a s
      = resolve w (a\<lparr>arg_type := Some ''Release''\<rparr>)
          (s\<lparr>stdin := tl (stdin s), prompts := prompts s @ [BuildTypePrompt]\<rparr>)"
    by (simp only: resolve_def Let_def a b c d e f i prod.case)
  then show ?thesis by (simp add: main_def)
qed

lemma ask_resolve:
  "resolve linux_world ask_args (linux_state [KeyboardInterrupt, Line '''', KeyboardInterrupt])
     = (Inr (Some ask_config), asked_state)"
  by (simp add: resolve_def resolve_build_type_def resolve_compiler_def
      resolve_build_system_def resolve_tests_def resolve_conan_def ask_initial ask_given
      select_build_type_interactive_def select_compiler_interactive_def linux_available
      read_menu_def select_build_system_interactive_def available_build_systems_def
      detect_ninja_def detect_make_def linux_check linux_world_fields
      select_tests_interactive_def ask_yes_no_def ask_use_conan_def
      linux_state_def asked_state_def ask_config_def strip_def)

lemma ask_config_fields:
  "project_root ask_config = ''/proj''" "build_type ask_config = ''Release''"
  "compiler ask_config = Some ''gcc''" "build_system ask_config = Some ''Ninja''"
  "platform ask_config = ''linux''" "build_tests ask_config = False"
  "use_conan ask_config = False" "clean ask_config = False" "cmake_args ask_config = []"
  by (simp_all add: ask_config_def)

lemma ask_build_dir: "get_build_dir ask_config = ''/proj/build/release/linux''"
  by (simp add: get_build_dir_def ask_config_fields pjoin_def lower_release)

lemma ask_build_steps:
  "fst (build_steps linux_world ask_config asked_state) = Inr 0"
  "prompts (snd (build_steps linux_world ask_config asked_state))
     = [BuildTypePrompt, CompilerPrompt, YesNoPrompt ''Build tests?'']"
  "map argv (trace (snd (build_steps linux_world ask_config asked_state)))
     = [[''cmake'', ''-G'', ''Ninja'', ''-DCMAKE_C_COMPILER=gcc'', ''-DCMAKE_CXX_COMPILER=g++'',
         ''-DCMAKE_BUILD_TYPE=Release'', ''-DCLIENT_BUILD_TESTS=OFF'', ''-DCLIENT_USE_CONAN=OFF'',
         ''-S'', ''/proj'', ''-B'', ''/proj/build/release/linux'']]"
  by (simp_all add: build_steps_def configure_def setup_compiler_def configure_env_def
      subprocess_run_def cmake_cmd_def conan_flags_def setup_build_system_def define_flag_def
      ask_build_dir ask_config_fields mkdir_parents_def Let_def linux_world_fields
      ok_program_def asked_state_def linux_state_def)

lemma menu_world_fields:
  "system menu_world = ''Linux''" "script_root menu_world = ''/proj''"
  "spawn menu_world = ok_program"
  by (simp_all add: menu_world_def linux_world_def)

lemma menu_check:
  "check_command menu_world s c = (c = ''g++'' \<or> c = ''ninja'' \<or> c = ''make'' \<or> c = ''conan'')"
  by (simp add: check_command_def menu_world_def)

lemma menu_state_fields:
  "stdin (menu_state rs ps) = rs" "prompts (menu_state rs ps) = ps"
  "trace (menu_state rs ps) = []" "printed (menu_state rs ps) = []"
  "files (menu_state rs ps) p = False"
  by (simp_all add: menu_state_def linux_state_def)

lemma menu_state_step:
  "(menu_state rs ps)\<lparr>stdin := rs', prompts := ps'\<rparr> = menu_state rs' ps'"
  by (simp add: menu_state_def linux_state_def)

lemma menu_initial:
  "initial_config menu_world ask_args
     = \<lparr>project_root = ''/proj'', build_type = ''Release'', compiler = None,
        build_system = None, platform = ''linux'', build_tests = False, use_conan = False,
        clean = False, interactive = True, cmake_args = []\<rparr>"
  by (simp add: initial_config_def new_build_config_def ask_args_def given_def
      get_platform_name_def menu_world_fields)

lemma menu_type:
  "resolve_build_type ask_args c (menu_state (Line ''1'' # rs) ps)
     = (''Debug'', menu_state rs (ps @ [BuildTypePrompt]))" if "interactive c"
  using that
  by (simp add: resolve_build_type_def ask_given select_build_type_interactive_def
      menu_state_def linux_state_def strip_def is_space_def)

lemma menu_compilers:
  "available_compilers menu_world s = (Inr [(''gcc'', ''GCC'')], s)"
  by (simp add: available_compilers_def detect_clang_def detect_gcc_def menu_check
      menu_world_fields)

lemma menu_compiler:
  "resolve_compiler menu_world ask_args c (menu_state (Line [] # rs) ps)
     = (Inr (Some ''gcc''), menu_state rs (ps @ [CompilerPrompt]))" if "interactive c"
  using that
  by (simp add: resolve_compiler_def ask_given select_compiler_interactive_def menu_compilers
      read_menu_def menu_state_def linux_state_def strip_def)

lemma menu_systems:
  "available_build_systems menu_world cid s
     = (Inr [(''Ninja'', ''Ninja (fast)''), (''Unix Makefiles'', ''Unix Makefiles'')], s)"
  by (simp add: available_build_systems_def detect_ninja_def detect_make_def menu_check
      menu_world_fields)

lemma menu_system:
  "resolve_build_system menu_world ask_args c (menu_state (Line [] # rs) ps)
     = (Inr (Some ''Ninja''), menu_state rs (ps @ [BuildSystemPrompt]))" if "interactive c"
  using that
  by (simp add: resolve_build_system_def ask_given select_build_system_interactive_def
      menu_systems read_menu_def menu_state_def linux_state_def strip_def)

lemma lower_n: "lower ''n'' = ''n''"
  by (simp add: lower_def lower_char_def)

lemma menu_tests:
  "resolve_tests ask_args c (menu_state (Line ''n'' # rs) ps)
     = (False, menu_state rs (ps @ [YesNoPrompt ''Build tests?'']))" if "interactive c"
  using that
  by (simp add: resolve_tests_def ask_given select_tests_interactive_def ask_yes_no_def
      menu_state_def linux_state_def strip_def is_space_def lower_n)

lemma menu_conan:
  "resolve_conan menu_world ask_args c (menu_state (Line ''n'' # rs) ps)
     = (False, menu_state rs (ps @ [YesNoPrompt ''Use Conan for dependencies?'']))"
  if "interactive c"
  using that
  by (simp add: resolve_conan_def ask_given ask_use_conan_def menu_check ask_yes_no_def
      menu_state_def linux_state_def strip_def is_space_def lower_n)

lemma lower_debug: "lower ''Debug'' = ''debug''"
  by (simp add: lower_def lower_char_def)

lemma menu_config_fields:
  "project_root (menu_config bs) = ''/proj''" "build_type (menu_config bs) = ''Debug''"
  "compiler (menu_config bs) = Some ''gcc''" "build_system (menu_config bs) = bs"
  "platform (menu_config bs) = ''linux''" "build_tests (menu_config bs) = False"
  "use_conan (menu_config bs) = False" "clean (menu_config bs) = False"
  "cmake_args (menu_config bs) = []"
  by (simp_all add: menu_config_def)

lemma menu_build_dir: "get_build_dir (menu_config bs) = ''/proj/build/debug/linux''"
  by (simp add: get_build_dir_def menu_config_fields pjoin_def lower_debug)

lemma menu_build_steps:
  "fst (build_steps menu_world (menu_config None) (menu_state rs ps)) = Inr 0"
  "map argv (trace (snd (build_steps menu_world (menu_config None) (menu_state rs ps))))
     = [[''cmake'', ''-DCMAKE_C_COMPILER=gcc'', ''-DCMAKE_CXX_COMPILER=g++'',
         ''-DCMAKE_BUILD_TYPE=Debug'', ''-DCLIENT_BUILD_TESTS=OFF'', ''-DCLIENT_USE_CONAN=OFF'',
         ''-S'', ''/proj'', ''-B'', ''/proj/build/debug/linux'']]"
  by (simp_all add: build_steps_def configure_def setup_compiler_def configure_env_def
      subprocess_run_def cmake_cmd_def conan_flags_def setup_build_system_def define_flag_def
      menu_build_dir menu_config_fields mkdir_parents_def Let_def menu_world_fields
      ok_program_def menu_state_def linux_state_def)

lemma menu_configs:
  "(initial_config menu_world ask_args)\<lparr>build_type := ''Debug'', compiler := Some ''gcc'',
       build_system := bs, build_tests := False, use_conan := False\<rparr> = menu_config bs"
  by (simp add: menu_initial menu_config_def)

text \<open>
  C3, as the code has it. A prompt is cancelled when the answer read at it is an interrupt
  or the end of input. Only the compiler menu ends the run: when it is reached (no
  \<^verbatim>\<open>--compiler\<close>, interactive, some compiler available) and cancelled, \<^verbatim>\<open>main\<close> returns 1
  at once, with nothing run after the detection. Every other prompt gives a value and the
  run goes on with it. The build type prompt gives \<^verbatim>\<open>Release\<close>, and \<^verbatim>\<open>main\<close> continues
  as it does after \<^verbatim>\<open>--type Release\<close>. The build system menu (shown when at least two
  build systems are available) gives \<^verbatim>\<open>None\<close>, so no generator is named; the tests
  question and the Conan question give \<^verbatim>\<open>False\<close>; in each of the three cases \<^verbatim>\<open>main\<close>
  resolves the remaining fields and runs the build steps with the configuration that holds
  that value.
\<close>

theorem cancelled_prompt_outcomes:
  assumes "cancelled (stdin s)"
  shows "select_build_type_interactive s
           = (''Release'', s\<lparr>stdin := tl (stdin s), prompts := prompts s @ [BuildTypePrompt]\<rparr>)
       \<and> ask_yes_no q d s
           = (False, s\<lparr>stdin := tl (stdin s), prompts := prompts s @ [YesNoPrompt q]\<rparr>)
       \<and> read_menu p items s
           = (Inr None, s\<lparr>stdin := tl (stdin s), prompts := prompts s @ [p]\<rparr>)
       \<and> (given (arg_type a) = None \<longrightarrow> \<not> arg_no_interactive a \<longrightarrow>
            main w a s
              = main w (a\<lparr>arg_type := Some ''Release''\<rparr>)
                  (s\<lparr>stdin := tl (stdin s), prompts := prompts s @ [BuildTypePrompt]\<rparr>))
       \<and> (given (arg_compiler a) = None \<longrightarrow> \<not> arg_no_interactive a \<longrightarrow>
            resolve_build_type a (initial_config w a) s0 = (bt, s1) \<longrightarrow>
            available_compilers w s1 = (Inr cs, s) \<longrightarrow> cs \<noteq> [] \<longrightarrow>
            main w a s0
              = (Inr 1, s\<lparr>stdin := tl (stdin s), prompts := prompts s @ [CompilerPrompt]\<rparr>))
       \<and> (given (arg_build_system a) = None \<longrightarrow> \<not> arg_no_interactive a \<longrightarrow>
            resolve_build_type a (initial_config w a) s0 = (bt, s1) \<longrightarrow>
            resolve_compiler w a ((initial_config w a)\<lparr>build_type := bt\<rparr>) s1
              = (Inr (Some cid), s2) \<longrightarrow>
            available_build_systems w (Some cid) s2 = (Inr systems, s) \<longrightarrow>
            2 \<le> length systems \<longrightarrow>
            resolve_tests a
              ((initial_config w a)\<lparr>build_type := bt, compiler := Some cid, build_system := None\<rparr>)
              (s\<lparr>stdin := tl (stdin s), prompts := prompts s @ [BuildSystemPrompt]\<rparr>) = (t, s4) \<longrightarrow>
            resolve_conan w a
              ((initial_config w a)\<lparr>build_type := bt, compiler := Some cid, build_system := None\<rparr>)
              s4 = (u, s5) \<longrightarrow>
            main w a s0
              = build_steps w
                  ((initial_config w a)\<lparr>build_type := bt, compiler := Some cid,
                     build_system := None, build_tests := t, use_conan := u\<rparr>) s5)
       \<and> (arg_build_tests a = None \<longrightarrow> \<not> arg_no_interactive a \<longrightarrow>
            resolve_build_type a (initial_config w a) s0 = (bt, s1) \<longrightarrow>
            resolve_compiler w a ((initial_config w a)\<lparr>build_type := bt\<rparr>) s1
              = (Inr (Some cid), s2) \<longrightarrow>
            resolve_build_system w a
              ((initial_config w a)\<lparr>build_type := bt, compiler := Some cid\<rparr>) s2 = (Inr bs, s) \<longrightarrow>
            resolve_conan w a
              ((initial_config w a)\<lparr>build_type := bt, compiler := Some cid, build_system := bs\<rparr>)
              (s\<lparr>stdin := tl (stdin s), prompts := prompts s @ [YesNoPrompt ''Build tests?'']\<rparr>)
              = (u, s5) \<longrightarrow>
            main w a s0
              = build_steps w
                  ((initial_config w a)\<lparr>build_type := bt, compiler := Some cid,
                     build_system := bs, build_tests := False, use_conan := u\<rparr>) s5)
       \<and> (arg_use_conan a = None \<longrightarrow> \<not> arg_no_interactive a \<longrightarrow>
            resolve_build_type a (initial_config w a) s0 = (bt, s1) \<longrightarrow>
            resolve_compiler w a ((initial_config w a)\<lparr>build_type := bt\<rparr>) s1
              = (Inr (Some cid), s2) \<longrightarrow>
            resolve_build_system w a
              ((initial_config w a)\<lparr>build_type := bt, compiler := Some cid\<rparr>) s2 = (Inr bs, s3) \<longrightarrow>
            resolve_tests a
              ((initial_config w a)\<lparr>build_type := bt, compiler := Some cid, build_system := bs\<rparr>)
              s3 = (t, s) \<longrightarrow>
            check_command w s ''conan'' \<longrightarrow>
            main w a s0
              = build_steps w
                  ((initial_config w a)\<lparr>build_type := bt, compiler := Some cid,
                     build_system := bs, build_tests := t, use_conan := False\<rparr>)
                  (s\<lparr>stdin := tl (stdin s),
                      prompts := prompts s @ [YesNoPrompt ''Use Conan for dependencies?'']\<rparr>))"
proof (intro conjI impI)
  show "select_build_type_interactive s
           = (''Release'', s\<lparr>stdin := tl (stdin s), prompts := prompts s @ [BuildTypePrompt]\<rparr>)"
    using assms by (rule cancelled_select_build_type)
next
  show "ask_yes_no q d s
           = (False, s\<lparr>stdin := tl (stdin s), prompts := prompts s @ [YesNoPrompt q]\<rparr>)"
    using assms by (rule cancelled_ask_yes_no)
next
  show "read_menu p items s
           = (Inr None, s\<lparr>stdin := tl (stdin s), prompts := prompts s @ [p]\<rparr>)"
    using assms by (rule cancelled_read_menu)
next
  assume "given (arg_type a) = None" "\<not> arg_no_interactive a"
  then show "main w a s
              = main w (a\<lparr>arg_type := Some ''Release''\<rparr>)
                  (s\<lparr>stdin := tl (stdin s), prompts := prompts s @ [BuildTypePrompt]\<rparr>)"
    using assms by (rule main_type_override)
next
  assume g: "given (arg_compiler a) = None" and i: "\<not> arg_no_interactive a"
    and bt: "resolve_build_type a (initial_config w a) s0 = (bt, s1)"
    and av: "available_compilers w s1 = (Inr cs, s)" and cs: "cs \<noteq> []"
  have "select_compiler_interactive w s1
      = (Inr None, s\<lparr>stdin := tl (stdin s), prompts := prompts s @ [CompilerPrompt]\<rparr>)"
    using av cs assms by (simp add: select_compiler_interactive_def cancelled_read_menu)
  then have "resolve_compiler w a ((initial_config w a)\<lparr>build_type := bt\<rparr>) s1
      = (Inr None, s\<lparr>stdin := tl (stdin s), prompts := prompts s @ [CompilerPrompt]\<rparr>)"
    using g i by (simp add: resolve_compiler_def interactive_initial)
  with bt show "main w a s0
      = (Inr 1, s\<lparr>stdin := tl (stdin s), prompts := prompts s @ [CompilerPrompt]\<rparr>)"
    by (simp add: main_def resolve_def Let_def)
next
  assume g: "given (arg_build_system a) = None" and i: "\<not> arg_no_interactive a"
    and bt: "resolve_build_type a (initial_config w a) s0 = (bt, s1)"
    and c: "resolve_compiler w a ((initial_config w a)\<lparr>build_type := bt\<rparr>) s1
              = (Inr (Some cid), s2)"
    and av: "available_build_systems w (Some cid) s2 = (Inr systems, s)"
    and two: "2 \<le> length systems"
    and t: "resolve_tests a
              ((initial_config w a)\<lparr>build_type := bt, compiler := Some cid, build_system := None\<rparr>)
              (s\<lparr>stdin := tl (stdin s), prompts := prompts s @ [BuildSystemPrompt]\<rparr>) = (t, s4)"
    and u: "resolve_conan w a
              ((initial_config w a)\<lparr>build_type := bt, compiler := Some cid, build_system := None\<rparr>)
              s4 = (u, s5)"
  from two obtain x y zs where sys: "systems = x # y # zs"
    by (cases systems; cases "tl systems") auto
  have "select_build_system_interactive w (Some cid) s2
      = (Inr None, s\<lparr>stdin := tl (stdin s), prompts := prompts s @ [BuildSystemPrompt]\<rparr>)"
    using av assms by (simp add: select_build_system_interactive_def sys cancelled_read_menu)
  then have bs: "resolve_build_system w a
        ((initial_config w a)\<lparr>build_type := bt, compiler := Some cid\<rparr>) s2
      = (Inr None, s\<lparr>stdin := tl (stdin s), prompts := prompts s @ [BuildSystemPrompt]\<rparr>)"
    using g i by (simp add: resolve_build_system_def interactive_initial)
  from bt c bs t u
  show "main w a s0
              = build_steps w
                  ((initial_config w a)\<lparr>build_type := bt, compiler := Some cid,
                     build_system := None, build_tests := t, use_conan := u\<rparr>) s5"
    by (rule main_steps)
next
  assume g: "arg_build_tests a = None" and i: "\<not> arg_no_interactive a"
    and bt: "resolve_build_type a (initial_config w a) s0 = (bt, s1)"
    and c: "resolve_compiler w a ((initial_config w a)\<lparr>build_type := bt\<rparr>) s1
              = (Inr (Some cid), s2)"
    and bs: "resolve_build_system w a
              ((initial_config w a)\<lparr>build_type := bt, compiler := Some cid\<rparr>) s2 = (Inr bs, s)"
    and u: "resolve_conan w a
              ((initial_config w a)\<lparr>build_type := bt, compiler := Some cid, build_system := bs\<rparr>)
              (s\<lparr>stdin := tl (stdin s), prompts := prompts s @ [YesNoPrompt ''Build tests?'']\<rparr>)
              = (u, s5)"
  have t: "resolve_tests a
        ((initial_config w a)\<lparr>build_type := bt, compiler := Some cid, build_system := bs\<rparr>) s
      = (False, s\<lparr>stdin := tl (stdin s), prompts := prompts s @ [YesNoPrompt ''Build tests?'']\<rparr>)"
    using g i assms
    by (simp add: resolve_tests_def interactive_initial select_tests_interactive_def
        cancelled_ask_yes_no)
  from bt c bs t u
  show "main w a s0
              = build_steps w
                  ((initial_config w a)\<lparr>build_type := bt, compiler := Some cid,
                     build_system := bs, build_tests := False, use_conan := u\<rparr>) s5"
    by (rule main_steps)
next
  assume g: "arg_use_conan a = None" and i: "\<not> arg_no_interactive a"
    and bt: "resolve_build_type a (initial_config w a) s0 = (bt, s1)"
    and c: "resolve_compiler w a ((initial_config w a)\<lparr>build_type := bt\<rparr>) s1
              = (Inr (Some cid), s2)"
    and bs: "resolve_build_system w a
              ((initial_config w a)\<lparr>build_type := bt, compiler := Some cid\<rparr>) s2 = (Inr bs, s3)"
    and t: "resolve_tests a
              ((initial_config w a)\<lparr>build_type := bt, compiler := Some cid, build_system := bs\<rparr>)
              s3 = (t, s)"
    and conan: "check_command w s ''conan''"
  have u: "resolve_conan w a
        ((initial_config w a)\<lparr>build_type := bt, compiler := Some cid, build_system := bs\<rparr>) s
      = (False, s\<lparr>stdin := tl (stdin s),
                   prompts := prompts s @ [YesNoPrompt ''Use Conan for dependencies?'']\<rparr>)"
    using g i conan assms
    by (simp add: resolve_conan_def interactive_initial ask_use_conan_def cancelled_ask_yes_no)
  from bt c bs t u
  show "main w a s0
              = build_steps w
                  ((initial_config w a)\<lparr>build_type := bt, compiler := Some cid,
                     build_system := bs, build_tests := t, use_conan := False\<rparr>)
                  (s\<lparr>stdin := tl (stdin s),
                      prompts := prompts s @ [YesNoPrompt ''Use Conan for dependencies?'']\<rparr>)"
    by (rule main_steps)
qed

theorem cancelled_prompt_outcomes_witness:
  "cancelled (stdin (menu_state [KeyboardInterrupt] []))
   \<and> main menu_world ask_args (menu_state [KeyboardInterrupt] [])
       = main menu_world (ask_args\<lparr>arg_type := Some ''Release''\<rparr>) (menu_state [] [BuildTypePrompt])
   \<and> main menu_world ask_args (menu_state [Line ''1'', KeyboardInterrupt] [])
       = (Inr 1, menu_state [] [BuildTypePrompt, CompilerPrompt])
   \<and> main menu_world ask_args (menu_state [Line ''1'', Line [], EOF, Line ''n'', Line ''n''] [])
       = build_steps menu_world (menu_config None)
           (menu_state [] [BuildTypePrompt, CompilerPrompt, BuildSystemPrompt,
                           YesNoPrompt ''Build tests?'', YesNoPrompt ''Use Conan for dependencies?''])
   \<and> fst (main menu_world ask_args
             (menu_state [Line ''1'', Line [], EOF, Line ''n'', Line ''n''] [])) = Inr 0
   \<and> map argv (trace (snd (main menu_world ask_args
             (menu_state [Line ''1'', Line [], EOF, Line ''n'', Line ''n''] []))))
       = [[''cmake'', ''-DCMAKE_C_COMPILER=gcc'', ''-DCMAKE_CXX_COMPILER=g++'',
           ''-DCMAKE_BUILD_TYPE=Debug'', ''-DCLIENT_BUILD_TESTS=OFF'', ''-DCLIENT_USE_CONAN=OFF'',
           ''-S'', ''/proj'', ''-B'', ''/proj/build/debug/linux'']]
   \<and> main menu_world ask_args (menu_state [Line ''1'', Line [], Line [], KeyboardInterrupt, Line ''n''] [])
       = build_steps menu_world (menu_config (Some ''Ninja''))
           (menu_state [] [BuildTypePrompt, CompilerPrompt, BuildSystemPrompt,
                           YesNoPrompt ''Build tests?'', YesNoPrompt ''Use Conan for dependencies?''])
   \<and> main menu_world ask_args (menu_state [Line ''1'', Line [], Line [], Line ''n'', EOF] [])
       = build_steps menu_world (menu_config (Some ''Ninja''))
           (menu_state [] [BuildTypePrompt, CompilerPrompt, BuildSystemPrompt,
                           YesNoPrompt ''Build tests?'', YesNoPrompt ''Use Conan for dependencies?''])"
proof -
  let ?c0 = "initial_config menu_world ask_args"
  have i: "interactive ?c0" "interactive (?c0\<lparr>build_type := bt\<rparr>)"
    "interactive (?c0\<lparr>build_type := bt, compiler := c\<rparr>)"
    "interactive (?c0\<lparr>build_type := bt, compiler := c, build_system := bs\<rparr>)" for bt c bs
    by (simp_all add: interactive_initial ask_given)
  have c1: "cancelled (stdin (menu_state (KeyboardInterrupt # rs) ps))"
    and c2: "cancelled (stdin (menu_state (EOF # rs) ps))" for rs ps
    by (simp_all add: menu_state_fields cancelled_def)
  have a: "main menu_world ask_args (menu_state [KeyboardInterrupt] [])
       = main menu_world (ask_args\<lparr>arg_type := Some ''Release''\<rparr>) (menu_state [] [BuildTypePrompt])"
    using cancelled_prompt_outcomes
            [OF c1 [of "[]" "[]"], where a = ask_args and w = menu_world]
      ask_given
    by (simp add: menu_state_fields menu_state_step)
  have b: "main menu_world ask_args (menu_state [Line ''1'', KeyboardInterrupt] [])
       = (Inr 1, menu_state [] [BuildTypePrompt, CompilerPrompt])"
    using cancelled_prompt_outcomes
            [OF c1 [of "[]" "[BuildTypePrompt]"], where a = ask_args
               and w = menu_world and ?s0.0 = "menu_state [Line ''1'', KeyboardInterrupt] []"
               and bt = "''Debug''"
               and ?s1.0 = "menu_state [KeyboardInterrupt] [BuildTypePrompt]"
               and cs = "[(''gcc'', ''GCC'')]"]
      ask_given menu_type [OF i(1), of "[KeyboardInterrupt]" "[]"]
      menu_compilers [of "menu_state [KeyboardInterrupt] [BuildTypePrompt]"]
    by (simp add: menu_state_fields menu_state_step)
  have c: "main menu_world ask_args (menu_state [Line ''1'', Line [], EOF, Line ''n'', Line ''n''] [])
       = build_steps menu_world (menu_config None)
           (menu_state [] [BuildTypePrompt, CompilerPrompt, BuildSystemPrompt,
                           YesNoPrompt ''Build tests?'', YesNoPrompt ''Use Conan for dependencies?''])"
    using cancelled_prompt_outcomes
            [OF c2 [of "[Line ''n'', Line ''n'']" "[BuildTypePrompt, CompilerPrompt]"], where a = ask_args
               and w = menu_world
               and ?s0.0 = "menu_state [Line ''1'', Line [], EOF, Line ''n'', Line ''n''] []"
               and bt = "''Debug''"
               and ?s1.0 = "menu_state [Line [], EOF, Line ''n'', Line ''n''] [BuildTypePrompt]"
               and cid = "''gcc''"
               and ?s2.0 = "menu_state [EOF, Line ''n'', Line ''n''] [BuildTypePrompt, CompilerPrompt]"
               and systems = "[(''Ninja'', ''Ninja (fast)''), (''Unix Makefiles'', ''Unix Makefiles'')]"
               and t = False
               and ?s4.0 = "menu_state [Line ''n''] [BuildTypePrompt, CompilerPrompt,
                              BuildSystemPrompt, YesNoPrompt ''Build tests?'']"
               and u = False
               and ?s5.0 = "menu_state [] [BuildTypePrompt, CompilerPrompt, BuildSystemPrompt,
                           YesNoPrompt ''Build tests?'', YesNoPrompt ''Use Conan for dependencies?'']"]
      ask_given
      menu_type [OF i(1), of "[Line [], EOF, Line ''n'', Line ''n'']" "[]"]
      menu_compiler [OF i(2) [where bt = "''Debug''"], of "[EOF, Line ''n'', Line ''n'']" "[BuildTypePrompt]"]
      menu_systems [of "Some ''gcc''"
                       "menu_state [EOF, Line ''n'', Line ''n''] [BuildTypePrompt, CompilerPrompt]"]
      menu_tests [OF i(4) [where bt = "''Debug''" and c = "Some ''gcc''" and bs = None], of "[Line ''n'']" "[BuildTypePrompt, CompilerPrompt, BuildSystemPrompt]"]
      menu_conan [OF i(4) [where bt = "''Debug''" and c = "Some ''gcc''" and bs = None], of "[]" "[BuildTypePrompt, CompilerPrompt, BuildSystemPrompt, YesNoPrompt ''Build tests?'']"]
    by (simp add: menu_state_fields menu_state_step menu_configs)
  have d: "main menu_world ask_args
             (menu_state [Line ''1'', Line [], Line [], KeyboardInterrupt, Line ''n''] [])
       = build_steps menu_world (menu_config (Some ''Ninja''))
           (menu_state [] [BuildTypePrompt, CompilerPrompt, BuildSystemPrompt,
                           YesNoPrompt ''Build tests?'', YesNoPrompt ''Use Conan for dependencies?''])"
    using cancelled_prompt_outcomes
            [OF c1 [of "[Line ''n'']" "[BuildTypePrompt, CompilerPrompt, BuildSystemPrompt]"], where a = ask_args
               and w = menu_world
               and ?s0.0 = "menu_state [Line ''1'', Line [], Line [], KeyboardInterrupt, Line ''n''] []"
               and bt = "''Debug''"
               and ?s1.0 = "menu_state [Line [], Line [], KeyboardInterrupt, Line ''n''] [BuildTypePrompt]"
               and cid = "''gcc''"
               and ?s2.0 = "menu_state [Line [], KeyboardInterrupt, Line ''n'']
                              [BuildTypePrompt, CompilerPrompt]"
               and bs = "Some ''Ninja''"
               and u = False
               and ?s5.0 = "menu_state [] [BuildTypePrompt, CompilerPrompt, BuildSystemPrompt,
                           YesNoPrompt ''Build tests?'', YesNoPrompt ''Use Conan for dependencies?'']"]
      ask_given
      menu_type [OF i(1), of "[Line [], Line [], KeyboardInterrupt, Line ''n'']" "[]"]
      menu_compiler [OF i(2) [where bt = "''Debug''"], of "[Line [], KeyboardInterrupt, Line ''n'']" "[BuildTypePrompt]"]
      menu_system [OF i(3) [where bt = "''Debug''" and c = "Some ''gcc''"], of "[KeyboardInterrupt, Line ''n'']" "[BuildTypePrompt, CompilerPrompt]"]
      menu_conan [OF i(4) [where bt = "''Debug''" and c = "Some ''gcc''" and bs = "Some ''Ninja''"], of "[]" "[BuildTypePrompt, CompilerPrompt, BuildSystemPrompt, YesNoPrompt ''Build tests?'']"]
    by (simp add: menu_state_fields menu_state_step menu_configs)
  have e: "main menu_world ask_args (menu_state [Line ''1'', Line [], Line [], Line ''n'', EOF] [])
       = build_steps menu_world (menu_config (Some ''Ninja''))
           (menu_state [] [BuildTypePrompt, CompilerPrompt, BuildSystemPrompt,
                           YesNoPrompt ''Build tests?'', YesNoPrompt ''Use Conan for dependencies?''])"
    using cancelled_prompt_outcomes
            [OF c2 [of "[]" "[BuildTypePrompt, CompilerPrompt, BuildSystemPrompt,
                          YesNoPrompt ''Build tests?'']"], where a = ask_args
               and w = menu_world
               and ?s0.0 = "menu_state [Line ''1'', Line [], Line [], Line ''n'', EOF] []"
               and bt = "''Debug''"
               and ?s1.0 = "menu_state [Line [], Line [], Line ''n'', EOF] [BuildTypePrompt]"
               and cid = "''gcc''"
               and ?s2.0 = "menu_state [Line [], Line ''n'', EOF] [BuildTypePrompt, CompilerPrompt]"
               and bs = "Some ''Ninja''"
               and ?s3.0 = "menu_state [Line ''n'', EOF]
                              [BuildTypePrompt, CompilerPrompt, BuildSystemPrompt]"
               and t = False]
      ask_given
      menu_type [OF i(1), of "[Line [], Line [], Line ''n'', EOF]" "[]"]
      menu_compiler [OF i(2) [where bt = "''Debug''"], of "[Line [], Line ''n'', EOF]" "[BuildTypePrompt]"]
      menu_system [OF i(3) [where bt = "''Debug''" and c = "Some ''gcc''"], of "[Line ''n'', EOF]" "[BuildTypePrompt, CompilerPrompt]"]
      menu_tests [OF i(4) [where bt = "''Debug''" and c = "Some ''gcc''" and bs = "Some ''Ninja''"], of "[EOF]" "[BuildTypePrompt, CompilerPrompt, BuildSystemPrompt]"]
      menu_check [of "menu_state [EOF] [BuildTypePrompt, CompilerPrompt, BuildSystemPrompt,
                          YesNoPrompt ''Build tests?'']" "''conan''"]
    by (simp add: menu_state_fields menu_state_step menu_configs)
  from c1 [of "[]" "[]"] a b c d e show ?thesis
    by (simp add: menu_build_steps)
qed

text \<open>
  C3 as stated fails on the Linux machine: with the build type prompt interrupted, the
  compiler menu left empty and the tests question interrupted, \<^verbatim>\<open>main\<close> returns 0 after
  running CMake for a \<^verbatim>\<open>Release\<close> build without tests.
\<close>

theorem cancelled_build_type_counterexample:
  "fst (main linux_world ask_args
          (linux_state [KeyboardInterrupt, Line '''', KeyboardInterrupt])) = Inr 0
   \<and> prompts (snd (main linux_world ask_args
          (linux_state [KeyboardInterrupt, Line '''', KeyboardInterrupt])))
       = [BuildTypePrompt, CompilerPrompt, YesNoPrompt ''Build tests?'']
   \<and> map argv (trace (snd (main linux_world ask_args
          (linux_state [KeyboardInterrupt, Line '''', KeyboardInterrupt]))))
       = [[''cmake'', ''-G'', ''Ninja'', ''-DCMAKE_C_COMPILER=gcc'', ''-DCMAKE_CXX_COMPILER=g++'',
           ''-DCMAKE_BUILD_TYPE=Release'', ''-DCLIENT_BUILD_TESTS=OFF'', ''-DCLIENT_USE_CONAN=OFF'',
           ''-S'', ''/proj'', ''-B'', ''/proj/build/release/linux'']]"
  by (simp add: main_def ask_resolve ask_build_steps)

section \<open>No compiler\<close>

lemma nc_check:
  assumes "no_compiler_anywhere w"
  shows "\<not> check_command w s ''g++''" "\<not> check_command w s ''clang++''"
    "\<not> check_command w s ''clang-cl''"
  using assms by (simp_all add: no_compiler_anywhere_def check_command_def)

lemma nc_try_clang_dirs:
  assumes "no_compiler_anywhere w"
  shows "try_clang_dirs w ds s = (r, s') \<Longrightarrow> r \<noteq> Inr True"
proof (induction ds arbitrary: s)
  case Nil
  then show ?case by auto
next
  case (Cons d ds)
  show ?case
  proof (cases "files s (pjoin d ''clang-cl.exe'')")
    case False
    with Cons.prems have "try_clang_dirs w ds s = (r, s')" by simp
    then show ?thesis by (rule Cons.IH)
  next
    case True
    note here = True
    show ?thesis
    proof (cases "environ s ''PATH''")
      case None
      with here Cons.prems show ?thesis by auto
    next
      case (Some old)
      let ?s1 = "s\<lparr>environ := (environ s)(''PATH'' \<mapsto> d @ '';'' @ old)\<rparr>"
      have "\<not> check_command w ?s1 ''clang-cl''" using assms by (rule nc_check)
      with here Some Cons.prems have "try_clang_dirs w ds ?s1 = (r, s')"
        by (simp add: Let_def)
      then show ?thesis by (rule Cons.IH)
    qed
  qed
qed

lemma nc_try_vs_paths:
  assumes "no_compiler_anywhere w"
  shows "try_vs_paths w ps s = (r, s') \<Longrightarrow> r \<noteq> Inr True"
proof (induction ps arbitrary: s)
  case Nil
  then show ?case by auto
next
  case (Cons p ps)
  show ?case
  proof (cases "files s p")
    case False
    with Cons.prems have "try_vs_paths w ps s = (r, s')" by simp
    then show ?thesis by (rule Cons.IH)
  next
    case True
    note here = True
    obtain r1 s1 where t: "try_clang_dirs w (clang_dirs_of_vs p) s = (r1, s1)"
      by (cases "try_clang_dirs w (clang_dirs_of_vs p) s")
    from nc_try_clang_dirs [OF assms t] have n1: "r1 \<noteq> Inr True" .
    show ?thesis
    proof (cases r1)
      case (Inl e)
      with here t Cons.prems show ?thesis by auto
    next
      case (Inr b)
      with n1 have "r1 = Inr False" by simp
      with here t Cons.prems have "try_vs_paths w ps s1 = (r, s')" by simp
      then show ?thesis by (rule Cons.IH)
    qed
  qed
qed

lemma nc_detect_clang:
  assumes "no_compiler_anywhere w" and "detect_clang w s = (r, s')"
  shows "r \<noteq> Inr True"
proof (cases "system w = ''Windows''")
  case False
  with assms nc_check(2) [OF assms(1), of s] show ?thesis by (auto simp: detect_clang_def)
next
  case True
  obtain r1 s1 where a: "try_vs_paths w common_paths s = (r1, s1)"
    by (cases "try_vs_paths w common_paths s")
  obtain r2 s2 where b: "try_clang_dirs w llvm_paths s1 = (r2, s2)"
    by (cases "try_clang_dirs w llvm_paths s1")
  from True assms(2) a b nc_check(3) [OF assms(1), of s]
    nc_try_vs_paths [OF assms(1) a] nc_try_clang_dirs [OF assms(1) b]
  show ?thesis
    by (auto simp: detect_clang_def setup_clang_cl_path_def split: sum.splits bool.splits)
qed

lemma nc_vswhere_reports:
  assumes "no_compiler_anywhere w" and "vswhere_reports w s = (r, s')"
  shows "r \<noteq> Inr True"
  using assms
  by (auto simp: vswhere_reports_def subprocess_run_def no_compiler_anywhere_def Let_def
      split: if_splits)

lemma nc_detect_msvc:
  assumes "no_compiler_anywhere w" and "detect_msvc w s = (r, s')"
  shows "r = Inr None \<or> (\<exists>e. r = Inl e)"
proof -
  obtain r1 s1 where a: "vswhere_reports w s = (r1, s1)" by (cases "vswhere_reports w s")
  from assms(2) a nc_vswhere_reports [OF assms(1) a] show ?thesis
    by (auto simp: detect_msvc_def split: if_splits sum.splits)
qed

lemma nc_available_compilers:
  assumes "no_compiler_anywhere w" and "available_compilers w s = (r, s')"
  shows "r = Inr [] \<or> (\<exists>e. r = Inl e)"
proof -
  obtain r1 s1 where a: "detect_msvc w s = (r1, s1)" by (cases "detect_msvc w s")
  obtain r2 s2 where b: "detect_clang w s1 = (r2, s2)" by (cases "detect_clang w s1")
  obtain r3 s3 where c: "detect_clang w s = (r3, s3)" by (cases "detect_clang w s")
  from assms(2) a b c nc_detect_msvc [OF assms(1) a] nc_detect_clang [OF assms(1) b]
    nc_detect_clang [OF assms(1) c] nc_check(1) [OF assms(1)]
  show ?thesis
    by (auto simp: available_compilers_def detect_gcc_def split: if_splits sum.splits)
qed

lemma nc_select_compiler:
  assumes "no_compiler_anywhere w" and "select_compiler_interactive w s = (r, s')"
  shows "(r = Inr None \<and> printed s' \<noteq> [] \<and> last (printed s') = ErrNoCompilersFound)
       \<or> (\<exists>e. r = Inl e)"
proof -
  obtain r1 s1 where a: "available_compilers w s = (r1, s1)"
    by (cases "available_compilers w s")
  from assms(2) a nc_available_compilers [OF assms(1) a] show ?thesis
    by (auto simp: select_compiler_interactive_def print_diag_def)
qed

lemma nc_auto_detect:
  assumes "no_compiler_anywhere w" and "auto_detect_compiler w s = (r, s')"
  shows "(r = Inr None \<and> printed s' \<noteq> [] \<and> last (printed s') = ErrNoCompilerFound)
       \<or> (\<exists>e. r = Inl e)"
proof -
  obtain r1 s1 where a: "detect_clang w s = (r1, s1)" by (cases "detect_clang w s")
  obtain r2 s2 where b: "detect_msvc w s1 = (r2, s2)" by (cases "detect_msvc w s1")
  from assms(2) a b nc_detect_clang [OF assms(1) a] nc_detect_msvc [OF assms(1) b]
    nc_check(1) [OF assms(1), of s]
  show ?thesis
    by (auto simp: auto_detect_compiler_def detect_gcc_def print_diag_def
        split: if_splits sum.splits bool.splits option.splits)
qed

lemma bare_no_compiler: "no_compiler_anywhere bare_world"
  by (simp add: no_compiler_anywhere_def bare_world_def linux_world_def ok_program_def strip_def)

lemma bare_fields:
  "system bare_world = ''Linux''" "script_root bare_world = ''/proj''"
  "which bare_world f p c = False" "spawn bare_world = ok_program"
  by (simp_all add: bare_world_def linux_world_def)

lemma bare_check: "check_command bare_world s c = False"
  by (simp add: check_command_def bare_fields)

lemma auto_given:
  "given (arg_type auto_args) = None" "given (arg_compiler auto_args) = None"
  "given (arg_build_system auto_args) = None" "arg_build_tests auto_args = None"
  "arg_use_conan auto_args = None" "arg_no_interactive auto_args"
  "given (arg_platform auto_args) = None" "arg_cmake_args auto_args = []"
  "\<not> arg_clean auto_args"
  by (simp_all add: auto_args_def given_def)

lemma bare_main_auto:
  "main bare_world auto_args (linux_state [])
     = (Inr 1, (linux_state [])\<lparr>printed := [ErrNoCompilerFound]\<rparr>)"
  by (simp add: main_def resolve_def resolve_build_type_def resolve_compiler_def
      auto_detect_compiler_def detect_gcc_def detect_clang_def bare_check bare_fields
      initial_config_def new_build_config_def auto_given print_diag_def linux_state_def)

lemma gcc_given:
  "given (arg_type gcc_args) = None" "given (arg_compiler gcc_args) = Some ''gcc''"
  "given (arg_build_system gcc_args) = None" "arg_build_tests gcc_args = None"
  "arg_use_conan gcc_args = None" "arg_no_interactive gcc_args"
  "given (arg_platform gcc_args) = None" "arg_cmake_args gcc_args = []"
  "\<not> arg_clean gcc_args"
  by (simp_all add: gcc_args_def auto_args_def given_def)

lemma bare_resolve:
  "resolve bare_world gcc_args (linux_state []) = (Inr (Some makefiles_config), linux_state [])"
  by (simp add: resolve_def resolve_build_type_def resolve_compiler_def resolve_build_system_def
      resolve_tests_def resolve_conan_def auto_select_build_system_def detect_ninja_def
      bare_check bare_fields initial_config_def new_build_config_def get_platform_name_def
      gcc_given makefiles_config_def)

lemma makefiles_fields:
  "project_root makefiles_config = ''/proj''" "build_type makefiles_config = ''Release''"
  "compiler makefiles_config = Some ''gcc''"
  "build_system makefiles_config = Some ''Unix Makefiles''"
  "platform makefiles_config = ''linux''" "build_tests makefiles_config = False"
  "use_conan makefiles_config = False" "clean makefiles_config = False"
  "cmake_args makefiles_config = []"
  by (simp_all add: makefiles_config_def)

lemma makefiles_build_dir: "get_build_dir makefiles_config = ''/proj/build/release/linux''"
  by (simp add: get_build_dir_def makefiles_fields pjoin_def lower_release)

lemma bare_build_steps:
  "fst (build_steps bare_world makefiles_config (linux_state [])) = Inr 0"
  "map argv (trace (snd (build_steps bare_world makefiles_config (linux_state []))))
     = [[''cmake'', ''-G'', ''Unix Makefiles'', ''-DCMAKE_C_COMPILER=gcc'',
         ''-DCMAKE_CXX_COMPILER=g++'', ''-DCMAKE_BUILD_TYPE=Release'',
         ''-DCLIENT_BUILD_TESTS=OFF'', ''-DCLIENT_USE_CONAN=OFF'',
         ''-S'', ''/proj'', ''-B'', ''/proj/build/release/linux'']]"
  by (simp_all add: build_steps_def configure_def setup_compiler_def configure_env_def
      subprocess_run_def cmake_cmd_def conan_flags_def setup_build_system_def define_flag_def
      makefiles_build_dir makefiles_fields mkdir_parents_def Let_def bare_fields
      ok_program_def linux_state_def)

text \<open>
  C6, as the code has it. On a machine where no detection path finds a compiler, a run
  without \<^verbatim>\<open>--compiler\<close> exits with code 1: either \<^verbatim>\<open>main\<close> returns 1 just after printing
  \<^verbatim>\<open>No compilers found!\<close> (interactive) or \<^verbatim>\<open>No compiler found\<close> (non-interactive), or the
  detection itself raises. The only external program the run may have started is one
  vswhere query, so neither Conan nor CMake is invoked.
\<close>

theorem no_compiler_no_configure:
  assumes "no_compiler_anywhere w" and "given (arg_compiler a) = None"
    and "main w a s = (r, s')"
  shows "exit_code w a s = 1
       \<and> ((r = Inr 1 \<and> printed s' \<noteq> []
            \<and> (last (printed s') = ErrNoCompilersFound \<or> last (printed s') = ErrNoCompilerFound))
           \<or> (\<exists>e. r = Inl e))
       \<and> (trace s' = trace s \<or> (\<exists>p. trace s' = trace s @ [vswhere_query p]))"
proof -
  let ?c0 = "initial_config w a"
  obtain bt s1 where a1: "resolve_build_type a ?c0 s = (bt, s1)"
    by (cases "resolve_build_type a ?c0 s")
  let ?c1 = "?c0\<lparr>build_type := bt\<rparr>"
  obtain r2 s2 where a2: "resolve_compiler w a ?c1 s1 = (r2, s2)"
    by (cases "resolve_compiler w a ?c1 s1")
  have t1: "trace s1 = trace s"
  proof -
    have "s1 = s \<or> select_build_type_interactive s = (bt, s1)"
      using a1 by (auto simp: resolve_build_type_def split: option.splits if_splits)
    then show ?thesis using select_build_type_interactive_frame(3) [of s bt s1] by auto
  qed
  have sel: "select_compiler_interactive w s1 = (r2, s2) \<or> auto_detect_compiler w s1 = (r2, s2)"
    using a2 assms(2) by (auto simp: resolve_compiler_def split: if_splits)
  then have r2: "(r2 = Inr None \<and> printed s2 \<noteq> []
        \<and> (last (printed s2) = ErrNoCompilersFound \<or> last (printed s2) = ErrNoCompilerFound))
      \<or> (\<exists>e. r2 = Inl e)"
    using nc_select_compiler [OF assms(1), of s1 r2 s2] nc_auto_detect [OF assms(1), of s1 r2 s2]
    by auto
  from sel have t2: "trace s2 = trace s1 \<or> (\<exists>p. trace s2 = trace s1 @ [vswhere_query p])"
    using select_compiler_interactive_frame(2) [of w s1 r2 s2]
      auto_detect_compiler_frame(2) [of w s1 r2 s2] by auto
  from r2 a1 a2 have res: "resolve w a s = (Inr None, s2) \<and> r2 = Inr None
      \<or> (\<exists>e. resolve w a s = (Inl e, s2) \<and> r2 = Inl e)"
    by (auto simp: resolve_def Let_def)
  with assms(3) have m: "s' = s2 \<and> (r = Inr 1 \<and> r2 = Inr None \<or> (\<exists>e. r = Inl e))"
    by (auto simp: main_def)
  with r2 t1 t2 assms(3) show ?thesis by (auto simp: exit_code_def)
qed

theorem no_compiler_no_configure_witness:
  "no_compiler_anywhere bare_world \<and> given (arg_compiler auto_args) = None
   \<and> main bare_world auto_args (linux_state [])
       = (Inr 1, (linux_state [])\<lparr>printed := [ErrNoCompilerFound]\<rparr>)
   \<and> exit_code bare_world auto_args (linux_state []) = 1
   \<and> trace ((linux_state [])\<lparr>printed := [ErrNoCompilerFound]\<rparr>) = []"
  using no_compiler_no_configure [OF bare_no_compiler auto_given(2) bare_main_auto]
    bare_no_compiler auto_given(2) bare_main_auto
  by (simp add: linux_state_def)

text \<open>
  C6 as stated covers every run. On the machine with nothing on the search path, the run
  with \<^verbatim>\<open>--compiler gcc --no-interactive\<close> skips the detection, runs CMake and returns 0.
\<close>

theorem explicit_compiler_counterexample:
  "no_compiler_anywhere bare_world
   \<and> fst (main bare_world gcc_args (linux_state [])) = Inr 0
   \<and> exit_code bare_world gcc_args (linux_state []) = 0
   \<and> map argv (trace (snd (main bare_world gcc_args (linux_state []))))
       = [[''cmake'', ''-G'', ''Unix Makefiles'', ''-DCMAKE_C_COMPILER=gcc'',
           ''-DCMAKE_CXX_COMPILER=g++'', ''-DCMAKE_BUILD_TYPE=Release'',
           ''-DCLIENT_BUILD_TESTS=OFF'', ''-DCLIENT_USE_CONAN=OFF'',
           ''-S'', ''/proj'', ''-B'', ''/proj/build/release/linux'']]"
  by (simp add: bare_no_compiler main_def exit_code_def bare_resolve bare_build_steps)

section \<open>The process environment\<close>
















end
